(* ===== verification/Prelude.thy ===== *)
theory Prelude
  imports Complex_Main
begin

text \<open>
  Shared vocabulary of the development: the JavaScript library functions the
  sources call (decimal digits as the regular expression \<open>\d\<close> reads them, the
  decimal numeral of \<open>Number.prototype.toString\<close>, \<open>String.prototype.trim\<close> and
  \<open>split\<close>, the short order id \<open>slice(-6).toUpperCase()\<close>, \<open>Array.prototype.findIndex\<close>, removal at an index) and
  the list lemmas that the component theories share (on \<open>findIndex\<close> and \<open>find\<close>).
  Money is modelled as exact rationals (\<open>rat\<close>): JavaScript doubles are not
  modelled bit for bit, so rounding of binary floating point is outside the
  development.
\<close>

type_synonym money = rat

subsection \<open>Digits\<close>

text \<open>The class \<open>\d\<close> of a JavaScript regular expression without the \<open>u\<close> flag:
  the ten ASCII digits.\<close>

definition is_digit :: "char \<Rightarrow> bool" where
  "is_digit c \<longleftrightarrow> 48 \<le> (of_char c :: nat) \<and> (of_char c :: nat) \<le> 57"

definition digit_val :: "char \<Rightarrow> nat" where
  "digit_val c = of_char c - 48"

definition digits_nat :: "string \<Rightarrow> nat" where
  "digits_nat ds = foldl (\<lambda>n c. 10 * n + digit_val c) 0 ds"

text \<open>\<open>Number.prototype.toString()\<close> on a natural number: its decimal numeral.\<close>

fun nat_str :: "nat \<Rightarrow> string" where
  "nat_str n =
     (if n < 10 then [char_of (48 + n)] else nat_str (n div 10) @ [char_of (48 + n mod 10)])"

text \<open>The same on an integer, with its sign.\<close>

definition int_str :: "int \<Rightarrow> string" where
  "int_str i = (if i < 0 then CHR ''-'' # nat_str (nat (- i)) else nat_str (nat i))"

subsection \<open>\<open>String.prototype.trim\<close>\<close>

text \<open>\<open>String.prototype.trim\<close>: the white space it removes at both ends (the ASCII
  ones and the no-break space; the other Unicode spaces are not modelled).\<close>

definition js_space :: "char \<Rightarrow> bool" where
  "js_space c \<longleftrightarrow> of_char c \<in> {9, 10, 11, 12, 13, 32, 160 :: nat}"

definition js_trim :: "string \<Rightarrow> string" where
  "js_trim s = rev (dropWhile js_space (rev (dropWhile js_space s)))"

subsection \<open>\<open>String.prototype.split\<close>\<close>

text \<open>\<open>s.split(c)\<close> for a one-character separator: the pieces between the
  separators, one more than there are separators.\<close>

fun js_split :: "char \<Rightarrow> string \<Rightarrow> string list" where
  "js_split c [] = [[]]"
| "js_split c (x # xs) =
     (if x = c then [] # js_split c xs
      else (case js_split c xs of l # ls \<Rightarrow> (x # l) # ls | [] \<Rightarrow> [[x]]))"

subsection \<open>Identifiers shown to the user\<close>

text \<open>\<open>s.slice(-6).toUpperCase()\<close> on an id.\<close>

definition js_upper_char :: "char \<Rightarrow> char" where
  "js_upper_char c = (if 97 \<le> (of_char c :: nat) \<and> (of_char c :: nat) \<le> 122 then char_of (of_char c - 32 :: nat) else c)"

definition short_id :: "string \<Rightarrow> string" where
  "short_id s = map js_upper_char (drop (length s - 6) s)"

subsection \<open>\<open>Array.prototype.findIndex\<close>\<close>

text \<open>The index of the first element satisfying the predicate, or \<open>-1\<close>.\<close>

fun findIndex :: "('a \<Rightarrow> bool) \<Rightarrow> 'a list \<Rightarrow> int" where
  "findIndex P [] = -1"
| "findIndex P (x # xs) = (if P x then 0 else (let i = findIndex P xs in if i < 0 then -1 else i + 1))"

subsection \<open>Removing the element at an index\<close>

text \<open>\<open>xs.filter((_, i) => i !== index)\<close>; it also takes one message out of a
  queue of messages in flight.\<close>

definition remove_index :: "nat \<Rightarrow> 'a list \<Rightarrow> 'a list" where
  "remove_index i xs = take i xs @ drop (Suc i) xs"

subsection \<open>Lemmas on digits\<close>

lemma digits_nat_Nil [simp]: "digits_nat [] = 0"
  by (simp add: digits_nat_def)

lemma digits_nat_snoc [simp]: "digits_nat (ds @ [c]) = 10 * digits_nat ds + digit_val c"
  by (simp add: digits_nat_def)

lemma digit_val_char [simp]: "(k::nat) < 10 \<Longrightarrow> digit_val (char_of (48 + k)) = k"
  by (simp add: digit_val_def)

lemma is_digit_char [simp]: "(k::nat) < 10 \<Longrightarrow> is_digit (char_of (48 + k))"
  by (simp add: is_digit_def)

lemma digits_nat_str: "digits_nat (nat_str n) = n"
proof (induction n rule: nat_str.induct)
  case (1 n)
  then show ?case
    by (cases "n < 10") (simp_all add: digits_nat_def)
qed

lemma nat_str_inj [simp]: "nat_str m = nat_str n \<longleftrightarrow> m = n"
  by (metis digits_nat_str)

lemma nat_str_ne [simp]: "nat_str n \<noteq> []"
  by simp

declare nat_str.simps [simp del]

subsection \<open>Lemmas on lists\<close>

lemma length_filter_update_less:
  "i < length xs \<Longrightarrow> P (xs ! i) \<Longrightarrow> \<not> P y \<Longrightarrow> length (filter P (xs[i := y])) < length (filter P xs)"
proof (induction xs arbitrary: i)
  case Nil then show ?case by simp
next
  case (Cons x xs)
  then show ?case by (cases i) (auto simp: le_imp_less_Suc length_filter_le)
qed

lemma filter_map_same:
  "\<forall>x\<in>set xs. P (f x) = P x \<and> (P x \<longrightarrow> f x = x) \<Longrightarrow> filter P (map f xs) = filter P xs"
  by (induction xs) auto

lemma js_split_no_sep: "c \<notin> set xs \<Longrightarrow> js_split c xs = [xs]"
  by (induction xs) auto

lemma js_split_sep: "c \<notin> set xs \<Longrightarrow> js_split c (xs @ c # ys) = xs # js_split c ys"
proof (induction xs)
  case Nil then show ?case by simp
next
  case (Cons a xs) then show ?case by (cases "js_split c ys") auto
qed

subsection \<open>Lemmas on \<open>findIndex\<close>\<close>

lemma findIndex_ge: "-1 \<le> findIndex P xs"
  by (induction xs) (auto simp: Let_def)

lemma findIndex_neg_iff: "findIndex P xs < 0 \<longleftrightarrow> (\<forall>x\<in>set xs. \<not> P x)"
  by (induction xs) (auto simp: Let_def)

lemma findIndex_less_length: "findIndex P xs < int (length xs)"
  by (induction xs) (auto simp: Let_def)

lemma findIndex_nth:
  "0 \<le> findIndex P xs \<Longrightarrow> P (xs ! nat (findIndex P xs))"
proof (induction xs)
  case Nil
  then show ?case by simp
next
  case (Cons x xs)
  then show ?case
    by (auto simp: Let_def nat_add_distrib split: if_splits)
qed

lemma findIndex_before:
  "j < nat (findIndex P xs) \<Longrightarrow> \<not> P (xs ! j)"
proof (induction xs arbitrary: j)
  case Nil
  then show ?case by simp
next
  case (Cons x xs)
  then show ?case
    by (cases j) (auto simp: Let_def nat_add_distrib split: if_splits)
qed

lemma findIndex_eq_iff:
  "i < length xs \<Longrightarrow> findIndex P xs = int i \<longleftrightarrow> P (xs ! i) \<and> (\<forall>j<i. \<not> P (xs ! j))"
proof (induction xs arbitrary: i)
  case Nil
  then show ?case by simp
next
  case (Cons x xs)
  show ?case
  proof (cases i)
    case 0
    then show ?thesis by (auto simp: Let_def)
  next
    case (Suc k)
    with Cons.prems have "k < length xs" by simp
    then show ?thesis
      using Cons.IH [of k] findIndex_ge [of P xs] Suc
      by (auto simp: Let_def less_Suc_eq_0_disj)
  qed
qed

lemma findIndex_map: "findIndex P (map f xs) = findIndex (P \<circ> f) xs"
  by (induction xs) (auto simp: Let_def)

subsection \<open>Lemmas on \<open>find\<close>\<close>

lemma find_Some_in: "find P xs = Some x \<Longrightarrow> x \<in> set xs \<and> P x"
  by (induction xs) (auto split: if_splits)

lemma find_map_same:
  "(\<And>x. P (f x) = P x) \<Longrightarrow> find P (map f xs) = map_option f (find P xs)"
  by (induction xs) auto

lemma find_append_None: "find P xs = None \<Longrightarrow> find P (xs @ ys) = find P ys"
  by (induction xs) (auto split: if_splits)

end
