(* ===== verification/Json.thy ===== *)
theory Json
  imports Prelude
begin

text \<open>
  Decoded JSON values as the sources meet them after \<open>JSON.parse\<close> or from a
  \<open>jsonb\<close> column, and the JavaScript operations the parsing code applies to them:
  truthiness, the \<open>||\<close> operator, property access (which raises \<open>TypeError\<close> on
  \<open>null\<close> and \<open>undefined\<close>) and strict equality with a string literal. A JavaScript
  value that may be \<open>undefined\<close> is a \<open>json option\<close>, \<open>None\<close> being \<open>undefined\<close>.
  \<open>JSON.parse\<close> and \<open>JSON.stringify\<close> are library functions and are not modelled
  as text: a stored text is represented by the value it decodes to
  (theory \<open>Stages\<close>, type \<open>stored\<close>).
\<close>

datatype json =
    JNull
  | JBool bool
  | JNum rat
  | JStr string
  | JArr "json list"
  | JObj "(string \<times> json) list"

datatype js_error = TypeError | SyntaxError

subsection \<open>Truthiness and \<open>||\<close>\<close>

fun js_truthy :: "json option \<Rightarrow> bool" where
  "js_truthy None = False"
| "js_truthy (Some JNull) = False"
| "js_truthy (Some (JBool b)) = b"
| "js_truthy (Some (JNum n)) = (n \<noteq> 0)"
| "js_truthy (Some (JStr s)) = (s \<noteq> [])"
| "js_truthy (Some (JArr xs)) = True"
| "js_truthy (Some (JObj kvs)) = True"

text \<open>\<open>a || b\<close>: the left operand when it is truthy, else the right one.\<close>

definition js_or :: "json option \<Rightarrow> json option \<Rightarrow> json option" where
  "js_or a b = (if js_truthy a then a else b)"

lemma js_or_truthy [simp]: "js_truthy a \<Longrightarrow> js_or a b = a"
  by (simp add: js_or_def)

lemma js_or_falsy [simp]: "\<not> js_truthy a \<Longrightarrow> js_or a b = b"
  by (simp add: js_or_def)

lemma js_truthy_Some_the [simp]: "js_truthy v \<Longrightarrow> Some (the v) = v"
  by (cases v) auto

lemma js_truthy_or: "js_truthy (js_or a b) \<longleftrightarrow> js_truthy a \<or> js_truthy b"
  by (simp add: js_or_def)

subsection \<open>Property access\<close>

text \<open>An array index key is a canonical decimal numeral (\<open>"0"\<close>, \<open>"17"\<close>, not \<open>"07"\<close>).\<close>

definition array_index :: "string \<Rightarrow> nat option" where
  "array_index k =
     (if k \<noteq> [] \<and> list_all is_digit k \<and> (k = ''0'' \<or> hd k \<noteq> CHR ''0'')
      then Some (digits_nat k) else None)"

text \<open>
  \<open>v[k]\<close> and \<open>v.k\<close>: \<open>TypeError\<close> on \<open>undefined\<close> and \<open>null\<close>; own keys of an
  object (the last occurrence wins, as in \<open>JSON.parse\<close>); \<open>length\<close> and indices of
  arrays and strings; \<open>undefined\<close> for every other key and for numbers and booleans,
  since the keys the sources read (\<open>name\<close>, \<open>stage\<close>, \<open>address\<close>, \<open>timestamp\<close>,
  \<open>completed\<close>, \<open>instructions\<close>) are not prototype properties.
\<close>

fun js_get :: "json option \<Rightarrow> string \<Rightarrow> js_error + json option" where
  "js_get None k = Inl TypeError"
| "js_get (Some JNull) k = Inl TypeError"
| "js_get (Some (JObj kvs)) k = Inr (map_of (rev kvs) k)"
| "js_get (Some (JArr xs)) k =
     Inr (if k = ''length'' then Some (JNum (of_nat (length xs)))
          else case array_index k of
                 Some i \<Rightarrow> if i < length xs then Some (xs ! i) else None
               | None \<Rightarrow> None)"
| "js_get (Some (JStr s)) k =
     Inr (if k = ''length'' then Some (JNum (of_nat (length s)))
          else case array_index k of
                 Some i \<Rightarrow> if i < length s then Some (JStr [s ! i]) else None
               | None \<Rightarrow> None)"
| "js_get (Some (JBool b)) k = Inr None"
| "js_get (Some (JNum n)) k = Inr None"

text \<open>\<open>v === "lit"\<close> for a string literal.\<close>

definition js_eq_str :: "json option \<Rightarrow> string \<Rightarrow> bool" where
  "js_eq_str v s \<longleftrightarrow> v = Some (JStr s)"

text \<open>\<open>xs.map(f)\<close> with a callback that may throw: the first exception propagates.\<close>

fun map_err :: "('a \<Rightarrow> js_error + 'b) \<Rightarrow> 'a list \<Rightarrow> js_error + 'b list" where
  "map_err f [] = Inr []"
| "map_err f (x # xs) =
     (case f x of Inl e \<Rightarrow> Inl e | Inr y \<Rightarrow> (case map_err f xs of Inl e \<Rightarrow> Inl e | Inr ys \<Rightarrow> Inr (y # ys)))"

lemma array_index_0 [simp]: "array_index ''0'' = Some 0"
  by (simp add: array_index_def is_digit_def digit_val_def digits_nat_def)

lemma array_index_length [simp]: "array_index ''length'' = None"
  by (simp add: array_index_def is_digit_def)

lemma array_index_word:
  "k \<noteq> [] \<Longrightarrow> \<not> is_digit (hd k) \<Longrightarrow> array_index k = None"
  by (cases k) (auto simp: array_index_def)

end
