(* ===== verification/Cart.thy ===== *)
theory Cart
  imports Prelude
begin

text \<open>
  The cart of \<open>src/src/contexts/AuthContext.tsx\<close> (its second half, the
  \<open>CartContext\<close> module): the \<open>CartItem\<close> record, the reducer \<open>cartReducer\<close> with
  its four actions, the tier price \<open>getUnitPrice\<close> and the derived \<open>totalItems\<close>
  and \<open>subtotal\<close>. The same \<open>getUnitPrice\<close> and \<open>lineTotal\<close> are copied verbatim
  into \<open>Cart.tsx\<close> and \<open>Checkout.tsx\<close>. Next to the code stands the resolver that
  the specification asks for (\<open>resolveUnitPrice\<close>: the tier with the largest
  qualifying \<open>min_quantity\<close>, ties to the first), with the refinement lemma that
  relates the two and the input on which they differ.
\<close>

record tier =
  min_quantity :: int
  tier_price :: money

record cart_item =
  item_id :: string
  item_name :: string
  price :: money
  quantity :: int
  imageUrl :: "string option"
  pricing_tiers :: "tier list option"
  item_size :: "string option"
  variant_id :: "string option"

datatype cart_action =
    ADD_ITEM cart_item
  | UPDATE_QUANTITY string int
  | REMOVE_ITEM string
  | CLEAR_CART

subsection \<open>The reducer\<close>

fun cartReducer :: "cart_item list \<Rightarrow> cart_action \<Rightarrow> cart_item list" where
  "cartReducer state (ADD_ITEM p) =
     (case find (\<lambda>item. item_id item = item_id p) state of
        Some existingItem \<Rightarrow>
          map (\<lambda>item. if item_id item = item_id p
                      then item\<lparr>quantity := quantity item + quantity p\<rparr> else item) state
      | None \<Rightarrow> state @ [p])"
| "cartReducer state (UPDATE_QUANTITY i q) =
     filter (\<lambda>item. 0 < quantity item)
       (map (\<lambda>item. if item_id item = i then item\<lparr>quantity := max 1 q\<rparr> else item) state)"
| "cartReducer state (REMOVE_ITEM i) = filter (\<lambda>item. item_id item \<noteq> i) state"
| "cartReducer state CLEAR_CART = []"

text \<open>A sequence of dispatched actions, in order.\<close>

definition cart_run :: "cart_item list \<Rightarrow> cart_action list \<Rightarrow> cart_item list" where
  "cart_run s acts = foldl cartReducer s acts"

subsection \<open>Prices and totals\<close>

definition getUnitPrice :: "cart_item \<Rightarrow> money" where
  "getUnitPrice item =
     (case pricing_tiers item of
        None \<Rightarrow> price item
      | Some [] \<Rightarrow> price item
      | Some ts \<Rightarrow>
          (case find (\<lambda>t. min_quantity t \<le> quantity item) ts of
             Some t \<Rightarrow> tier_price t
           | None \<Rightarrow> price item))"

definition lineTotal :: "cart_item \<Rightarrow> money" where
  "lineTotal item = getUnitPrice item * of_int (quantity item)"

definition totalItems :: "cart_item list \<Rightarrow> int" where
  "totalItems cart = foldl (\<lambda>sum item. sum + quantity item) 0 cart"

definition subtotal :: "cart_item list \<Rightarrow> money" where
  "subtotal cart = foldl (\<lambda>sum item. sum + getUnitPrice item * of_int (quantity item)) 0 cart"

subsection \<open>The resolver of the specification\<close>

text \<open>
  Scan the tiers once, keeping the first tier seen with the largest
  \<open>min_quantity\<close> among those with \<open>min_quantity \<le> q\<close>.
\<close>

fun best_tier :: "int \<Rightarrow> tier option \<Rightarrow> tier list \<Rightarrow> tier option" where
  "best_tier q acc [] = acc"
| "best_tier q acc (t # ts) =
     best_tier q
       (if min_quantity t \<le> q \<and> (case acc of None \<Rightarrow> True | Some a \<Rightarrow> min_quantity a < min_quantity t)
        then Some t else acc) ts"

definition resolveUnitPrice :: "money \<Rightarrow> tier list \<Rightarrow> int \<Rightarrow> money" where
  "resolveUnitPrice base ts q = (case best_tier q None ts of None \<Rightarrow> base | Some t \<Rightarrow> tier_price t)"

definition tiers_descending :: "tier list \<Rightarrow> bool" where
  "tiers_descending ts \<longleftrightarrow> sorted_wrt (\<lambda>a b. min_quantity b \<le> min_quantity a) ts"

definition cart_wf :: "cart_item list \<Rightarrow> bool" where
  "cart_wf s \<longleftrightarrow> distinct (map item_id s) \<and> (\<forall>item\<in>set s. 1 \<le> quantity item)"

fun action_ok :: "cart_action \<Rightarrow> bool" where
  "action_ok (ADD_ITEM p) = (1 \<le> quantity p)"
| "action_ok _ = True"

text \<open>Two concrete cart lines: the tiers of a product listed by decreasing and by increasing threshold.\<close>

definition descending_item :: cart_item where
  "descending_item = \<lparr>item_id = ''p1'', item_name = ''Fertiliser'', price = 100, quantity = 9,
     imageUrl = None,
     pricing_tiers = Some [\<lparr>min_quantity = 10, tier_price = 80\<rparr>, \<lparr>min_quantity = 5, tier_price = 90\<rparr>],
     item_size = None, variant_id = None\<rparr>"

definition ascending_item :: cart_item where
  "ascending_item = \<lparr>item_id = ''p1'', item_name = ''Fertiliser'', price = 100, quantity = 10,
     imageUrl = None,
     pricing_tiers = Some [\<lparr>min_quantity = 5, tier_price = 90\<rparr>, \<lparr>min_quantity = 10, tier_price = 80\<rparr>],
     item_size = None, variant_id = None\<rparr>"

subsection \<open>Sample data\<close>

definition sample_bulk_item :: cart_item where
  "sample_bulk_item = \<lparr>item_id = ''p1'', item_name = ''Neem Oil - 500ml'', price = 100, quantity = 5,
                       imageUrl = None, pricing_tiers = Some [\<lparr>min_quantity = 10, tier_price = 80\<rparr>],
                       item_size = Some ''500ml'', variant_id = Some ''v1''\<rparr>"

subsection \<open>Prices\<close>

lemma getUnitPrice_tiers:
  "pricing_tiers item = Some ts \<Longrightarrow>
   getUnitPrice item = (case find (\<lambda>t. min_quantity t \<le> quantity item) ts of
                          Some t \<Rightarrow> tier_price t | None \<Rightarrow> price item)"
  by (cases ts) (simp_all add: getUnitPrice_def)

lemma best_tier_keep:
  "tiers_descending ts \<Longrightarrow> (\<forall>t\<in>set ts. min_quantity t \<le> min_quantity a)
   \<Longrightarrow> best_tier q (Some a) ts = Some a"
  by (induction ts) (auto simp: tiers_descending_def)

lemma best_tier_descending:
  "tiers_descending ts \<Longrightarrow> best_tier q None ts = find (\<lambda>t. min_quantity t \<le> q) ts"
proof (induction ts)
  case Nil
  then show ?case by simp
next
  case (Cons t ts)
  then have d: "tiers_descending ts" and le: "\<forall>u\<in>set ts. min_quantity u \<le> min_quantity t"
    by (auto simp: tiers_descending_def)
  show ?case
  proof (cases "min_quantity t \<le> q")
    case True
    then show ?thesis using best_tier_keep [OF d le] by simp
  next
    case False
    then show ?thesis using Cons.IH d by simp
  qed
qed

text \<open>
  C4. Refinement of the specified resolver: when a product's tiers are listed
  by decreasing \<open>min_quantity\<close>, the first-match scan of \<open>getUnitPrice\<close> returns
  exactly the price that \<open>resolveUnitPrice\<close> (largest qualifying threshold, ties to
  the first, base price when none qualifies) returns.
\<close>

theorem getUnitPrice_refines_resolveUnitPrice:
  assumes "pricing_tiers item = Some ts" and "tiers_descending ts"
  shows "getUnitPrice item = resolveUnitPrice (price item) ts (quantity item)"
  using assms
  by (simp add: getUnitPrice_tiers resolveUnitPrice_def best_tier_descending split: option.split)

theorem getUnitPrice_refines_resolveUnitPrice_witness:
  "tiers_descending (the (pricing_tiers descending_item)) \<and>
   getUnitPrice descending_item = resolveUnitPrice 100 (the (pricing_tiers descending_item)) 9 \<and>
   getUnitPrice descending_item = 90"
proof -
  have d: "tiers_descending (the (pricing_tiers descending_item))"
    by (simp add: tiers_descending_def descending_item_def)
  have "getUnitPrice descending_item
        = resolveUnitPrice (price descending_item) (the (pricing_tiers descending_item)) (quantity descending_item)"
    using getUnitPrice_refines_resolveUnitPrice [OF _ d] by (simp add: descending_item_def)
  then show ?thesis using d by (simp add: descending_item_def getUnitPrice_def)
qed

text \<open>With tiers in increasing order of \<open>min_quantity\<close>, the scan of the
  specified resolver ends on the last qualifying tier.\<close>

lemma best_tier_ascending:
  assumes "sorted_wrt (\<lambda>a b. min_quantity a < min_quantity b) ts"
    and "\<forall>t\<in>set ts. case acc of None \<Rightarrow> True | Some a \<Rightarrow> min_quantity a < min_quantity t"
  shows "best_tier q acc ts = (case filter (\<lambda>t. min_quantity t \<le> q) ts of [] \<Rightarrow> acc | us \<Rightarrow> Some (last us))"
  using assms
proof (induction ts arbitrary: acc)
  case Nil
  then show ?case by simp
next
  case (Cons t ts)
  then have s: "sorted_wrt (\<lambda>a b. min_quantity a < min_quantity b) ts"
    and gt: "\<forall>u\<in>set ts. min_quantity t < min_quantity u" by auto
  show ?case
  proof (cases "min_quantity t \<le> q")
    case True
    have "best_tier q (Some t) ts = (case filter (\<lambda>t. min_quantity t \<le> q) ts of [] \<Rightarrow> Some t | us \<Rightarrow> Some (last us))"
      using Cons.IH[OF s] gt by simp
    moreover have "min_quantity t \<le> q \<and> (case acc of None \<Rightarrow> True | Some a \<Rightarrow> min_quantity a < min_quantity t)"
      using True Cons.prems(2) by simp
    ultimately show ?thesis using True by (simp split: list.split)
  next
    case False
    then show ?thesis using Cons.IH[OF s] Cons.prems(2) by simp
  qed
qed

text \<open>The first-match scan on increasing tiers looks at the first tier only.\<close>

lemma find_ascending:
  assumes "sorted_wrt (\<lambda>a b. min_quantity a < min_quantity b) (t # ts)"
  shows "find (\<lambda>u. min_quantity u \<le> q) (t # ts) = (if min_quantity t \<le> q then Some t else None)"
proof -
  have "\<forall>u\<in>set ts. min_quantity t < min_quantity u" using assms by simp
  then show ?thesis by (auto simp: find_None_iff)
qed

text \<open>
  C24. Divergence from the specification: with tiers stored in increasing order
  of \<open>min_quantity\<close> (the order the admin editor appends them in, and that of the
  specification's own example), \<open>getUnitPrice\<close> charges the first tier's price to
  every quantity that reaches it and never any later tier's, while the specified
  resolver charges the tier with the largest qualifying threshold: the last
  qualifying one.
\<close>

theorem getUnitPrice_ascending_diverges:
  assumes "pricing_tiers item = Some ts" and "ts \<noteq> []"
    and "sorted_wrt (\<lambda>a b. min_quantity a < min_quantity b) ts"
  shows "getUnitPrice item = (if min_quantity (hd ts) \<le> quantity item then tier_price (hd ts) else price item) \<and>
         resolveUnitPrice (price item) ts (quantity item) =
           (case filter (\<lambda>t. min_quantity t \<le> quantity item) ts of [] \<Rightarrow> price item | us \<Rightarrow> tier_price (last us))"
proof -
  obtain t ts' where t: "ts = t # ts'" using assms(2) by (cases ts) auto
  have "getUnitPrice item = (if min_quantity t \<le> quantity item then tier_price t else price item)"
    using assms(1,3) find_ascending[of t ts' "quantity item"] by (simp add: getUnitPrice_def t)
  moreover have "best_tier (quantity item) None ts =
                   (case filter (\<lambda>t. min_quantity t \<le> quantity item) ts of [] \<Rightarrow> None | us \<Rightarrow> Some (last us))"
    using best_tier_ascending[OF assms(3), of None] by simp
  ultimately show ?thesis by (simp add: resolveUnitPrice_def t split: list.split)
qed

theorem getUnitPrice_ascending_diverges_witness:
  "pricing_tiers ascending_item = Some [\<lparr>min_quantity = 5, tier_price = 90\<rparr>, \<lparr>min_quantity = 10, tier_price = 80\<rparr>] \<and>
   [\<lparr>min_quantity = 5, tier_price = 90\<rparr>, \<lparr>min_quantity = 10, tier_price = (80::money)\<rparr>] \<noteq> [] \<and>
   sorted_wrt (\<lambda>a b. min_quantity a < min_quantity b)
     [\<lparr>min_quantity = 5, tier_price = 90\<rparr>, \<lparr>min_quantity = 10, tier_price = (80::money)\<rparr>] \<and>
   getUnitPrice ascending_item = 90 \<and>
   resolveUnitPrice (price ascending_item) (the (pricing_tiers ascending_item)) (quantity ascending_item) = 80"
proof -
  let ?ts = "[\<lparr>min_quantity = 5, tier_price = 90\<rparr>, \<lparr>min_quantity = 10, tier_price = (80::money)\<rparr>]"
  have h1: "pricing_tiers ascending_item = Some ?ts" by (simp add: ascending_item_def)
  have h2: "?ts \<noteq> []" by simp
  have h3: "sorted_wrt (\<lambda>a b. min_quantity a < min_quantity b) ?ts" by simp
  from getUnitPrice_ascending_diverges[OF h1 h2 h3] h1 h2 h3 show ?thesis
    by (simp add: ascending_item_def)
qed

subsection \<open>Totals\<close>

lemma totalItems_sum: "totalItems cart = sum_list (map quantity cart)"
proof -
  have "\<And>a. foldl (\<lambda>sum item. sum + quantity item) a cart = a + sum_list (map quantity cart)"
    by (induction cart) (auto simp: algebra_simps)
  then show ?thesis by (simp add: totalItems_def)
qed

lemma subtotal_sum: "subtotal cart = sum_list (map lineTotal cart)"
proof -
  have "\<And>a. foldl (\<lambda>sum item. sum + getUnitPrice item * of_int (quantity item)) a cart
            = a + sum_list (map lineTotal cart)"
    by (induction cart) (auto simp: lineTotal_def algebra_simps)
  then show ?thesis by (simp add: subtotal_def)
qed

subsection \<open>The reducer keeps the cart well formed\<close>

lemma item_id_if_quantity [simp]:
  "item_id (if b then i\<lparr>quantity := v\<rparr> else i) = item_id i"
  by simp

lemma cartReducer_add_wf:
  "cart_wf s \<Longrightarrow> 1 \<le> quantity p \<Longrightarrow> cart_wf (cartReducer s (ADD_ITEM p))"
  by (auto simp: cart_wf_def comp_def find_None_iff distinct_map_filter split: option.split
           intro!: inj_onI)

lemma cartReducer_update_keeps_lines:
  assumes "\<forall>item\<in>set s. 0 < quantity item"
  shows "cartReducer s (UPDATE_QUANTITY i q) =
           map (\<lambda>item. if item_id item = i then item\<lparr>quantity := max 1 q\<rparr> else item) s"
  using assms by (auto intro!: filter_True)

lemma cartReducer_wf:
  assumes "cart_wf s" and "action_ok a"
  shows "cart_wf (cartReducer s a)"
proof (cases a)
  case (ADD_ITEM p)
  with assms cartReducer_add_wf [of s p] show ?thesis by (simp del: cartReducer.simps)
next
  case (UPDATE_QUANTITY i q)
  from assms have pos: "\<forall>item\<in>set s. 0 < quantity item" by (auto simp: cart_wf_def)
  from assms UPDATE_QUANTITY show ?thesis
    by (auto simp: cart_wf_def comp_def cartReducer_update_keeps_lines [OF pos]
             simp del: cartReducer.simps)
next
  case (REMOVE_ITEM i)
  with assms show ?thesis by (auto simp: cart_wf_def distinct_map_filter)
next
  case CLEAR_CART
  then show ?thesis by (simp add: cart_wf_def)
qed

text \<open>
  C25. Invariant of the cart: starting from a cart whose product ids are distinct
  and whose quantities are at least 1, every sequence of dispatched actions whose
  added items have quantity at least 1 (the product page never offers less) keeps
  both properties.
\<close>

theorem cart_run_wf:
  "cart_wf s \<Longrightarrow> \<forall>a\<in>set acts. action_ok a \<Longrightarrow> cart_wf (cart_run s acts)"
  unfolding cart_run_def
  by (induction acts arbitrary: s) (auto intro: cartReducer_wf)

theorem cart_run_wf_witness:
  "cart_wf (cart_run [] [ADD_ITEM descending_item, UPDATE_QUANTITY ''p1'' 0, ADD_ITEM descending_item])"
proof -
  have "cart_wf []" by (simp add: cart_wf_def)
  moreover have "\<forall>a\<in>set [ADD_ITEM descending_item, UPDATE_QUANTITY ''p1'' 0, ADD_ITEM descending_item].
                   action_ok a"
    by (simp add: descending_item_def)
  ultimately show ?thesis by (rule cart_run_wf)
qed

text \<open>
  Dead code in \<open>UPDATE_QUANTITY\<close>: the comment says a line is removed when
  its quantity becomes 0, but the quantity is clamped with \<open>Math.max(1, _)\<close> first,
  so on a well-formed cart the filter never removes a line.
\<close>

theorem update_quantity_never_removes:
  assumes "cart_wf s"
  shows "length (cartReducer s (UPDATE_QUANTITY i q)) = length s"
proof -
  from assms have "\<forall>item\<in>set s. 0 < quantity item" by (auto simp: cart_wf_def)
  then show ?thesis by (simp only: cartReducer_update_keeps_lines length_map)
qed

theorem update_quantity_never_removes_witness:
  "cart_wf [descending_item] \<and> length (cartReducer [descending_item] (UPDATE_QUANTITY ''p1'' 0)) = 1"
proof -
  have w: "cart_wf [descending_item]" by (simp add: cart_wf_def descending_item_def)
  show ?thesis using update_quantity_never_removes [OF w, of "''p1''" 0] w by simp
qed

lemma find_id_Some:
  "item_id p \<in> set (map item_id s) \<Longrightarrow> \<exists>x. find (\<lambda>item. item_id item = item_id p) s = Some x"
  by (induction s) auto

text \<open>
  Lines are keyed by product id only: adding a second size (variant) of a
  product already in the cart adds its quantity to the existing line, and the
  variant ids and unit prices of the cart stay those of the first size added.
\<close>

theorem add_same_product_keeps_variants:
  assumes "item_id p \<in> set (map item_id s)"
  shows "map variant_id (cartReducer s (ADD_ITEM p)) = map variant_id s
         \<and> map price (cartReducer s (ADD_ITEM p)) = map price s"
proof -
  from find_id_Some [OF assms] obtain x where "find (\<lambda>item. item_id item = item_id p) s = Some x"
    by blast
  then show ?thesis by (simp add: comp_def if_distrib)
qed

theorem add_same_product_keeps_variants_witness:
  "map variant_id (cartReducer [descending_item\<lparr>variant_id := Some ''v200ml''\<rparr>]
      (ADD_ITEM (descending_item\<lparr>variant_id := Some ''v1L'', price := 450\<rparr>))) = [Some ''v200ml'']"
  using add_same_product_keeps_variants
    [of "descending_item\<lparr>variant_id := Some ''v1L'', price := 450\<rparr>" "[descending_item\<lparr>variant_id := Some ''v200ml''\<rparr>]"]
  by simp

end
