(* ===== verification/Stages.thy ===== *)
theory Stages
  imports Json
begin

text \<open>
  The stage parser of \<open>src/src/pages/TrackOrder.tsx\<close> (inside the \<open>queryFn\<close> of
  the order query, lines 131--176): the persisted \<open>stages\<close> field is decoded, a
  legacy single delivery record is replaced by the default six-stage workflow and
  its address and instructions extracted, any other list is kept and scanned for
  an entry with an \<open>address\<close>, every entry is normalised to
  \<open>{name, timestamp, completed}\<close>, and any exception falls back to the default
  workflow. The JavaScript is followed step by step: each property read can raise
  \<open>TypeError\<close> (on \<open>null\<close> entries or a \<open>null\<close> field), \<open>find\<close> and \<open>map\<close> exist
  only on arrays, and the variables assigned before an exception keep their values
  in the \<open>catch\<close> branch. The serialisation \<open>JSON.stringify(updatedStages)\<close> written
  back by the transitions is \<open>stages_json\<close>.
\<close>

record stage =
  stage_name :: json
  timestamp :: json
  completed :: bool

text \<open>
  The persisted field: falsy (\<open>null\<close>, absent, empty string: the code parses
  \<open>'[]'\<close> instead), a text \<open>JSON.parse\<close> rejects, a text that decodes to a value,
  or a native \<open>jsonb\<close> array of objects (what \<open>Checkout.tsx\<close> writes as
  \<open>items\<close>). \<open>JSON.parse\<close> converts its argument to a string first; an array of
  objects becomes \<open>""\<close> or \<open>"[object Object],..."\<close>, which it rejects.
\<close>

datatype stored = SAbsent | SUnparsable | SJson json | SObjArray "(string \<times> json) list list"

definition json_parse_field :: "stored \<Rightarrow> js_error + json" where
  "json_parse_field raw =
     (case raw of
        SAbsent \<Rightarrow> Inr (JArr [])
      | SUnparsable \<Rightarrow> Inl SyntaxError
      | SJson j \<Rightarrow> Inr j
      | SObjArray objs \<Rightarrow> Inl SyntaxError)"

text \<open>A property read on a value known not to be \<open>null\<close> or \<open>undefined\<close>.\<close>

definition js_prop :: "json \<Rightarrow> string \<Rightarrow> json option" where
  "js_prop v k = (case js_get (Some v) k of Inr r \<Rightarrow> r | Inl e \<Rightarrow> None)"

definition default_stage_names :: "string list" where
  "default_stage_names =
     [''Order Placed'', ''Payment Pending'', ''Processing'', ''Shipped'', ''Delivered'',
      ''Confirmed Received'']"

text \<open>The object literals of the delivery branch (lines 143--150).\<close>

definition default_stage_objs :: "json \<Rightarrow> json list" where
  "default_stage_objs created =
     JObj [(''name'', JStr ''Order Placed''), (''completed'', JBool True), (''timestamp'', created)] #
     map (\<lambda>n. JObj [(''name'', JStr n), (''completed'', JBool False), (''timestamp'', JStr '''')])
       (tl default_stage_names)"

text \<open>The literal of the \<open>catch\<close> branch (lines 168--175), not normalised.\<close>

definition default_stages :: "json \<Rightarrow> stage list" where
  "default_stages created =
     \<lparr>stage_name = JStr ''Order Placed'', timestamp = created, completed = True\<rparr> #
     map (\<lambda>n. \<lparr>stage_name = JStr n, timestamp = JStr '''', completed = False\<rparr>) (tl default_stage_names)"

text \<open>\<open>{name: s.name || s.stage || 'Unknown', timestamp: s.timestamp || '', completed: !!s.completed}\<close>\<close>

definition normalize_stage :: "json \<Rightarrow> js_error + stage" where
  "normalize_stage s =
     (if s = JNull then Inl TypeError
      else Inr \<lparr>stage_name = the (js_or (js_or (js_prop s ''name'') (js_prop s ''stage'')) (Some (JStr ''Unknown''))),
                timestamp = the (js_or (js_prop s ''timestamp'') (Some (JStr ''''))),
                completed = js_truthy (js_prop s ''completed'')\<rparr>)"

text \<open>\<open>Array.prototype.map\<close> with a callback that may throw: the first exception escapes.\<close>

fun map_stages :: "json list \<Rightarrow> js_error + stage list" where
  "map_stages [] = Inr []"
| "map_stages (s # ss) =
     (case normalize_stage s of
        Inl e \<Rightarrow> Inl e
      | Inr st \<Rightarrow> (case map_stages ss of Inl e \<Rightarrow> Inl e | Inr sts \<Rightarrow> Inr (st # sts)))"

text \<open>\<open>parsedStages.find(s => s.address)\<close>: stops at the first entry with a truthy
  \<open>address\<close>; reading \<open>address\<close> of a \<open>null\<close> entry before that raises.\<close>

fun find_address :: "json list \<Rightarrow> js_error + json option" where
  "find_address [] = Inr None"
| "find_address (s # ss) =
     (if s = JNull then Inl TypeError
      else if js_truthy (js_prop s ''address'') then Inr (Some s) else find_address ss)"

text \<open>\<open>parsedStages.length === 1 && parsedStages[0].stage === 'delivery'\<close>: the
  first entry when the test holds.\<close>

definition delivery_record :: "json \<Rightarrow> js_error + json option" where
  "delivery_record p =
     (case js_get (Some p) ''length'' of
        Inl e \<Rightarrow> Inl e
      | Inr len \<Rightarrow>
          if len \<noteq> Some (JNum 1) then Inr None
          else (case js_get (Some p) ''0'' of
                  Inl e \<Rightarrow> Inl e
                | Inr e0 \<Rightarrow>
                    (case js_get e0 ''stage'' of
                       Inl e \<Rightarrow> Inl e
                     | Inr st \<Rightarrow> Inr (if js_eq_str st ''delivery'' then e0 else None))))"

text \<open>\<open>x.address || ''\<close> and \<open>x.instructions || ''\<close> of a delivery entry.\<close>

definition delivery_fields :: "json \<Rightarrow> json \<times> json" where
  "delivery_fields d =
     (the (js_or (js_prop d ''address'') (Some (JStr ''''))),
      the (js_or (js_prop d ''instructions'') (Some (JStr ''''))))"

text \<open>
  The \<open>try\<close> block: the address and instructions it has assigned, and either the
  normalised stages or the exception that left it.
\<close>

definition stages_try :: "stored \<Rightarrow> json \<Rightarrow> (json \<times> json) \<times> (js_error + stage list)" where
  "stages_try raw created =
     (let none = (JStr '''', JStr '''') in
      case json_parse_field raw of
        Inl e \<Rightarrow> (none, Inl e)
      | Inr p \<Rightarrow>
          (case delivery_record p of
             Inl e \<Rightarrow> (none, Inl e)
           | Inr (Some d) \<Rightarrow> (delivery_fields d, map_stages (default_stage_objs created))
           | Inr None \<Rightarrow>
               (case p of
                  JArr xs \<Rightarrow>
                    (case find_address xs of
                       Inl e \<Rightarrow> (none, Inl e)
                     | Inr None \<Rightarrow> (none, map_stages xs)
                     | Inr (Some d) \<Rightarrow> (delivery_fields d, map_stages xs))
                | _ \<Rightarrow> (none, Inl TypeError))))"

text \<open>The whole parse: stages, delivery address, instructions.\<close>

definition parse_stages :: "stored \<Rightarrow> json \<Rightarrow> stage list \<times> json \<times> json" where
  "parse_stages raw created =
     (case stages_try raw created of
        ((a, i), Inr ss) \<Rightarrow> (ss, a, i)
      | ((a, i), Inl e) \<Rightarrow> (default_stages created, a, i))"

text \<open>\<open>JSON.stringify(updatedStages)\<close> of the transitions, as the value it decodes to.\<close>

definition stage_json :: "stage \<Rightarrow> json" where
  "stage_json s = JObj [(''name'', stage_name s), (''timestamp'', timestamp s), (''completed'', JBool (completed s))]"

definition stages_json :: "stage list \<Rightarrow> json" where
  "stages_json ss = JArr (map stage_json ss)"

text \<open>The shape the parser produces: a truthy name, a truthy or empty timestamp.\<close>

definition stage_canonical :: "stage \<Rightarrow> bool" where
  "stage_canonical s \<longleftrightarrow>
     js_truthy (Some (stage_name s)) \<and> (js_truthy (Some (timestamp s)) \<or> timestamp s = JStr '''')"

text \<open>The legacy record that \<open>Checkout.tsx\<close> writes (lines 140--142).\<close>

definition delivery_stages_json :: "string \<Rightarrow> string \<Rightarrow> json" where
  "delivery_stages_json address instructions =
     JArr [JObj [(''stage'', JStr ''delivery''), (''address'', JStr address),
                 (''instructions'', JStr instructions), (''status'', JStr ''pending'')]]"

subsection \<open>Reading properties\<close>

lemma js_prop_JObj [simp]: "js_prop (JObj kvs) k = map_of (rev kvs) k"
  by (simp add: js_prop_def)

lemma js_get_not_null: "v \<noteq> JNull \<Longrightarrow> js_get (Some v) k = Inr (js_prop v k)"
  by (cases v) (simp_all add: js_prop_def)

subsection \<open>Serialised stages parse back\<close>

lemma normalize_stage_json [simp]:
  "stage_canonical s \<Longrightarrow> normalize_stage (stage_json s) = Inr s"
  by (cases s) (auto simp: normalize_stage_def stage_json_def stage_canonical_def)

lemma map_stages_json:
  "\<forall>s\<in>set ss. stage_canonical s \<Longrightarrow> map_stages (map stage_json ss) = Inr ss"
  by (induction ss) auto

lemma find_address_json [simp]: "find_address (map stage_json ss) = Inr None"
  by (induction ss) (auto simp: stage_json_def)

lemma delivery_record_json [simp]: "delivery_record (stages_json ss) = Inr None"
  by (cases ss) (auto simp: delivery_record_def stages_json_def stage_json_def js_eq_str_def)

lemma map_stages_default:
  "js_truthy (Some created) \<Longrightarrow> map_stages (default_stage_objs created) = Inr (default_stages created)"
  by (simp add: default_stage_objs_def default_stages_def default_stage_names_def normalize_stage_def)

subsection \<open>The parser always yields canonical stages\<close>

lemma normalize_stage_canonical:
  "normalize_stage s = Inr st \<Longrightarrow> stage_canonical st"
  by (auto simp: normalize_stage_def stage_canonical_def js_or_def split: if_splits)

lemma map_stages_canonical:
  "map_stages xs = Inr ss \<Longrightarrow> \<forall>s\<in>set ss. stage_canonical s"
proof (induction xs arbitrary: ss)
  case Nil
  then show ?case by simp
next
  case (Cons x xs)
  then show ?case
    by (auto simp: normalize_stage_canonical split: sum.splits)
qed

lemma default_stages_canonical:
  "js_truthy (Some created) \<Longrightarrow> \<forall>s\<in>set (default_stages created). stage_canonical s"
  by (simp add: default_stages_def default_stage_names_def stage_canonical_def)

lemma stages_try_Inr:
  "stages_try raw created = (ai, Inr ss) \<Longrightarrow> \<exists>xs. map_stages xs = Inr ss"
  by (auto simp: stages_try_def Let_def split: sum.splits option.splits json.splits)

lemma stages_try_delivery:
  "js_truthy (Some created) \<Longrightarrow>
   stages_try (SJson (delivery_stages_json a i)) created = ((JStr a, JStr i), Inr (default_stages created))"
  by (simp add: stages_try_def json_parse_field_def delivery_record_def
                delivery_stages_json_def js_eq_str_def delivery_fields_def map_stages_default js_or_def)

lemma default_stages_length [simp]: "length (default_stages created) = 6"
  by (simp add: default_stages_def default_stage_names_def)

subsection \<open>Properties of the parser\<close>

text \<open>
  C2. Legacy compatibility: the record that checkout stores (a single entry tagged
  \<open>stage: 'delivery'\<close> with a non-empty address) parses to the default six-stage
  workflow, \<open>Order Placed\<close> completed at the order's creation time, together with
  the address and instructions of the record.
\<close>

theorem parse_legacy_delivery:
  assumes "js_truthy (Some created)" and "address \<noteq> []"
  shows "parse_stages (SJson (delivery_stages_json address instructions)) created
         = (default_stages created, JStr address, JStr instructions)"
  using assms
  by (simp add: parse_stages_def stages_try_def json_parse_field_def delivery_record_def
                delivery_stages_json_def js_eq_str_def delivery_fields_def map_stages_default js_or_def)

theorem parse_legacy_delivery_witness:
  "parse_stages (SJson (delivery_stages_json ''Plot 7, Nairobi'' ''Gate B'')) (JStr ''2025-05-01'')
   = (default_stages (JStr ''2025-05-01''), JStr ''Plot 7, Nairobi'', JStr ''Gate B'')"
  by (rule parse_legacy_delivery) simp_all

text \<open>
  C8. Round trip: a list of canonical stages written back with
  \<open>JSON.stringify\<close>, as the transitions do, parses to the same list, with no
  delivery address.
\<close>

theorem parse_stages_roundtrip:
  "\<forall>s\<in>set ss. stage_canonical s \<Longrightarrow>
   parse_stages (SJson (stages_json ss)) created = (ss, JStr '''', JStr '''')"
  by (simp add: parse_stages_def stages_try_def json_parse_field_def map_stages_json)
     (simp add: stages_json_def map_stages_json)

theorem parse_stages_roundtrip_witness:
  "parse_stages (SJson (stages_json (default_stages (JStr ''2025-05-01'')))) (JStr ''2025-05-02'')
   = (default_stages (JStr ''2025-05-01''), JStr '''', JStr '''')"
proof -
  have "\<forall>s\<in>set (default_stages (JStr ''2025-05-01'')). stage_canonical s"
    by (simp add: default_stages_def default_stage_names_def stage_canonical_def)
  then show ?thesis by (rule parse_stages_roundtrip)
qed

text \<open>
  C27. Whatever the stored field holds, every stage the parser returns has a
  truthy name and a truthy or empty timestamp (given a truthy creation time), so
  its output is again in the domain of the round trip.
\<close>

theorem parse_stages_canonical:
  assumes "js_truthy (Some created)"
  shows "\<forall>s\<in>set (fst (parse_stages raw created)). stage_canonical s"
  using assms map_stages_canonical default_stages_canonical stages_try_Inr
  by (auto simp: parse_stages_def split: prod.split sum.split) blast

theorem parse_stages_canonical_witness:
  "list_all stage_canonical
     (fst (parse_stages (SJson (JArr [JObj [(''stage'', JStr ''Shipped'')], JNum 3])) (JStr ''2025-05-01'')))"
proof -
  have "\<forall>s\<in>set (fst (parse_stages (SJson (JArr [JObj [(''stage'', JStr ''Shipped'')], JNum 3]))
                                 (JStr ''2025-05-01''))). stage_canonical s"
    by (rule parse_stages_canonical) simp
  then show ?thesis by (simp only: list_all_iff)
qed

text \<open>
  Divergence: an absent or empty \<open>stages\<close> field is parsed as \<open>'[]'\<close>, so the
  parser returns no stage at all, where the specification requires the default
  six-stage workflow.
\<close>

theorem parse_absent: "parse_stages SAbsent created = ([], JStr '''', JStr '''')"
  by (simp add: parse_stages_def stages_try_def json_parse_field_def delivery_record_def)

text \<open>
  Decode failure is absorbed: a field \<open>JSON.parse\<close> rejects yields the default
  workflow with only \<open>Order Placed\<close> completed, at the creation time, and no address.
\<close>

theorem parse_unparsable:
  "parse_stages SUnparsable created = (default_stages created, JStr '''', JStr '''')"
  by (simp add: parse_stages_def stages_try_def json_parse_field_def)

text \<open>
  An exception after the address scan keeps the address: a list with an
  entry carrying an address and a later \<open>null\<close> entry falls back to the default
  workflow, but the address assigned before \<open>map\<close> raised is still reported.
\<close>

theorem parse_null_entry_keeps_address:
  "parse_stages (SJson (JArr [JObj [(''address'', JStr ''X'')], JNull])) created
   = (default_stages created, JStr ''X'', JStr '''')"
  by (simp add: parse_stages_def stages_try_def json_parse_field_def delivery_record_def
       delivery_fields_def normalize_stage_def)

end
