(* ===== verification/OrderMachine.thy ===== *)
theory OrderMachine
  imports Stages
begin

text \<open>
  The order-stage transitions of \<open>src/src/pages/TrackOrder.tsx\<close> and the storage
  they write to. The \<open>orders\<close> table is a map from order id to its row;
  \<open>update_owned\<close> is the conditional update
  \<open>.update(...).eq('id', orderId).eq('user_id', user.id)\<close>, which changes the row only
  when it belongs to the caller. \<open>advanceStage\<close> and \<open>confirmReceipt\<close> are the two
  handlers, with every guard and early return of the source; the outcome of the
  storage call (\<open>db_ok\<close>) and the clock (\<open>now\<close>) are inputs chosen by the
  environment, and the user-visible effect (alert, refetch, a rejected promise) is
  part of the result. Neither handler mutates the local \<open>order\<close>: the displayed state
  changes only through the refetch (theory \<open>Sync\<close>). \<open>track_view\<close> is what the
  tracking page renders from a loaded order: the status, one marker per stage and
  the two action buttons. \<open>ui_step\<close> is the stage machine as a buyer can drive it
  through those buttons.
\<close>

record order_row =
  row_user_id :: string
  row_items :: stored
  row_total_price :: json
  row_status :: json
  row_stages :: stored
  row_created_at :: json

type_synonym orders_table = "string \<rightharpoonup> order_row"

record order_item =
  oi_product_id :: "json option"
  oi_variant_id :: "json option"
  oi_quantity :: "json option"
  oi_name :: json
  oi_price :: "money option"
  oi_size :: json

record order =
  order_id :: string
  user_id :: string
  total_price :: json
  items :: "order_item list"
  status :: json
  stages :: "stage list"
  created_at :: json
  delivery_address :: json
  instructions :: json

datatype ui_effect =
    NoEffect
  | Refetch
  | Alert string
  | AlertRefetch string
  | Rejected js_error

definition update_owned ::
  "orders_table \<Rightarrow> string \<Rightarrow> string \<Rightarrow> (order_row \<Rightarrow> order_row) \<Rightarrow> orders_table" where
  "update_owned tbl oid uid f =
     (case tbl oid of
        Some r \<Rightarrow> if row_user_id r = uid then tbl(oid \<mapsto> f r) else tbl
      | None \<Rightarrow> tbl)"

text \<open>\<open>updatedStages[k] = { ...updatedStages[k], completed: true, timestamp: now }\<close>\<close>

definition complete_at :: "nat \<Rightarrow> json \<Rightarrow> stage list \<Rightarrow> stage list" where
  "complete_at k now ss = ss[k := (ss ! k)\<lparr>completed := True, timestamp := now\<rparr>]"

text \<open>\<open>order.stages.findIndex(s => !s.completed)\<close>\<close>

definition current_index :: "stage list \<Rightarrow> int" where
  "current_index ss = findIndex (\<lambda>s. \<not> completed s) ss"

definition advanceStage ::
  "order option \<Rightarrow> string option \<Rightarrow> string \<Rightarrow> json \<Rightarrow> bool \<Rightarrow> orders_table \<Rightarrow> orders_table \<times> ui_effect" where
  "advanceStage ord usr orderId now db_ok tbl =
     (case (ord, usr) of
        (Some od, Some u) \<Rightarrow>
          (let ss = stages od; i = current_index ss in
           if -1 < i \<and> i < int (length ss) - 1 then
             (let ss' = complete_at (nat i) now ss in
              if db_ok
              then (update_owned tbl orderId u
                      (\<lambda>r. r\<lparr>row_status := stage_name (ss' ! (nat i + 1)),
                             row_stages := SJson (stages_json ss')\<rparr>), Refetch)
              else (tbl, Alert ''Failed to advance stage. Please contact support.''))
           else (tbl, NoEffect))
      | _ \<Rightarrow> (tbl, NoEffect))"

definition confirmReceipt ::
  "order option \<Rightarrow> string option \<Rightarrow> string \<Rightarrow> json \<Rightarrow> bool \<Rightarrow> orders_table \<Rightarrow> orders_table \<times> ui_effect" where
  "confirmReceipt ord usr orderId now db_ok tbl =
     (case (ord, usr) of
        (Some od, Some u) \<Rightarrow>
          (let ss = stages od in
           if ss = [] then (tbl, Rejected TypeError)
           else if completed (last ss) then (tbl, NoEffect)
           else
             (let ss' = complete_at (length ss - 1) now ss in
              if db_ok
              then (update_owned tbl orderId u
                      (\<lambda>r. r\<lparr>row_status := JStr ''Confirmed Received'',
                             row_stages := SJson (stages_json ss')\<rparr>),
                    AlertRefetch ''Order confirmed as received! Thank you.'')
              else (tbl, Alert ''Failed to confirm receipt. Please contact support.'')))
      | _ \<Rightarrow> (tbl, NoEffect))"

subsection \<open>The tracking view\<close>

datatype marker = Done | Current | Pending nat

record track_view =
  tv_total :: money
  tv_status :: string
  tv_timeline :: "(json \<times> marker \<times> json option) list"
  tv_mark_done :: "nat list"
  tv_confirm_button :: bool

text \<open>\<open>isCurrent = !stage.completed && idx === order.stages.findIndex(s => !s.completed)\<close>\<close>

definition stage_marker :: "stage list \<Rightarrow> nat \<Rightarrow> marker" where
  "stage_marker ss idx =
     (if completed (ss ! idx) then Done
      else if int idx = current_index ss then Current
      else Pending (idx + 1))"

text \<open>
  The render: \<open>total_price.toFixed(2)\<close> and \<open>status.toLowerCase()\<close> raise unless
  the values are a number and a string, and \<open>order.stages[order.stages.length - 1].name\<close>
  raises on an empty list. A timestamp is shown when truthy.
\<close>

definition track_view :: "order \<Rightarrow> js_error + track_view" where
  "track_view od =
     (let ss = stages od in
      case (total_price od, status od) of
        (JNum t, JStr st) \<Rightarrow>
          if ss = [] then Inl TypeError
          else Inr \<lparr>tv_total = t, tv_status = st,
                    tv_timeline = map (\<lambda>idx. (stage_name (ss ! idx), stage_marker ss idx,
                                              if js_truthy (Some (timestamp (ss ! idx)))
                                              then Some (timestamp (ss ! idx)) else None))
                                    [0..<length ss],
                    tv_mark_done = filter (\<lambda>idx. stage_marker ss idx = Current
                                              \<and> stage_name (ss ! idx) = JStr ''Confirmed Received'')
                                    [0..<length ss],
                    tv_confirm_button = (stage_name (last ss) = JStr ''Delivered'' \<and> \<not> completed (last ss))\<rparr>
      | _ \<Rightarrow> Inl TypeError)"

subsection \<open>The stage machine a buyer drives\<close>

text \<open>
  One rule per button: \<open>Mark as Done\<close> (shown on the current stage when it is named
  \<open>Confirmed Received\<close>) runs \<open>advanceStage\<close>, whose guard needs the current stage to
  be before the last; \<open>Confirm Received\<close> (shown when the last stage is named
  \<open>Delivered\<close> and is not completed) runs \<open>confirmReceipt\<close>. Each rule writes what the
  handler writes when the storage call succeeds.
\<close>

inductive ui_step :: "stage list \<Rightarrow> stage list \<Rightarrow> bool" where
  mark_done:
    "current_index ss = int i \<Longrightarrow> i + 1 < length ss \<Longrightarrow>
     stage_name (ss ! i) = JStr ''Confirmed Received'' \<Longrightarrow>
     ui_step ss (complete_at i now ss)"
| confirm:
    "ss \<noteq> [] \<Longrightarrow> stage_name (last ss) = JStr ''Delivered'' \<Longrightarrow> \<not> completed (last ss) \<Longrightarrow>
     ui_step ss (complete_at (length ss - 1) now ss)"

text \<open>The machine of \<open>advanceStage\<close> alone, whatever the buttons show.\<close>

inductive advance_step :: "stage list \<Rightarrow> stage list \<Rightarrow> bool" where
  advance:
    "current_index ss = int i \<Longrightarrow> i + 1 < length ss \<Longrightarrow>
     advance_step ss (complete_at i now ss)"

text \<open>Completion is a prefix: no completed stage after a pending one.\<close>

definition prefix_completed :: "stage list \<Rightarrow> bool" where
  "prefix_completed ss \<longleftrightarrow> sorted_wrt (\<lambda>a b. completed b \<longrightarrow> completed a) ss"

subsection \<open>Sample data for the witnesses\<close>

definition sample_stages :: "stage list" where
  "sample_stages = default_stages (JStr ''2025-05-01'')"

text \<open>The default workflow with the first five stages completed: \<open>Confirmed Received\<close> is current.\<close>

definition last_current_stages :: "stage list" where
  "last_current_stages = map (\<lambda>s. s\<lparr>completed := True\<rparr>) (butlast sample_stages) @ [last sample_stages]"

text \<open>A five-stage workflow that ends with \<open>Delivered\<close>, on which the confirm button shows.\<close>

definition delivered_stages :: "stage list" where
  "delivered_stages = take 5 sample_stages"

definition sample_row :: order_row where
  "sample_row = \<lparr>row_user_id = ''u1'', row_items = SJson (JArr []), row_total_price = JNum 900,
                 row_status = JStr ''Order Placed (Making Order)'',
                 row_stages = SJson (delivery_stages_json ''Plot 7, Nairobi'' ''''),
                 row_created_at = JStr ''2025-05-01''\<rparr>"

definition sample_table :: orders_table where
  "sample_table = [''o1'' \<mapsto> sample_row]"

definition sample_order :: "stage list \<Rightarrow> order" where
  "sample_order ss = \<lparr>order_id = ''o1'', user_id = ''u1'', total_price = JNum 900, items = [],
                      status = JStr ''Payment Pending'', stages = ss, created_at = JStr ''2025-05-01'',
                      delivery_address = JStr ''Plot 7, Nairobi'', instructions = JStr ''''\<rparr>"

subsection \<open>Stage lists updated at one index\<close>

lemma length_complete_at [simp]: "length (complete_at k now ss) = length ss"
  by (simp add: complete_at_def)

lemma complete_at_Nil_iff [simp]: "complete_at k now ss = [] \<longleftrightarrow> ss = []"
  by (simp add: complete_at_def)

lemma nth_complete_at:
  "j < length ss \<Longrightarrow> complete_at k now ss ! j =
     (if j = k then (ss ! k)\<lparr>completed := True, timestamp := now\<rparr> else ss ! j)"
  by (simp add: complete_at_def)

lemma completed_complete_at:
  "j < length ss \<Longrightarrow> completed (complete_at k now ss ! j) = (j = k \<or> completed (ss ! j))"
  by (auto simp: nth_complete_at)

lemma name_complete_at [simp]:
  "j < length ss \<Longrightarrow> stage_name (complete_at k now ss ! j) = stage_name (ss ! j)"
  by (auto simp: nth_complete_at)

lemma last_complete_at:
  "k + 1 < length ss \<Longrightarrow> last (complete_at k now ss) = last ss"
  unfolding complete_at_def by (subst last_list_update) auto

lemma prefix_completed_iff:
  "prefix_completed ss \<longleftrightarrow> (\<forall>i j. i < j \<and> j < length ss \<and> completed (ss ! j) \<longrightarrow> completed (ss ! i))"
  by (auto simp: prefix_completed_def sorted_wrt_iff_nth_less)

lemma prefix_completed_complete_current:
  assumes "prefix_completed ss" and "current_index ss = int i"
  shows "prefix_completed (complete_at i now ss)"
proof -
  have before: "\<And>j. j < i \<Longrightarrow> completed (ss ! j)"
    using findIndex_before [of _ "\<lambda>s. \<not> completed s" ss] assms(2) by (simp add: current_index_def)
  show ?thesis
    unfolding prefix_completed_iff
  proof (intro allI impI)
    fix a b assume ab: "a < b \<and> b < length (complete_at i now ss) \<and> completed (complete_at i now ss ! b)"
    then have b: "b < length ss" by simp
    show "completed (complete_at i now ss ! a)"
    proof (cases "a < i")
      case True
      then show ?thesis using before b ab by (simp add: completed_complete_at)
    next
      case False
      then have "b \<noteq> i" using ab by simp
      with ab b have "completed (ss ! b)" by (simp add: completed_complete_at)
      with assms(1) ab b have "completed (ss ! a)" by (auto simp: prefix_completed_iff)
      with ab b show ?thesis by (simp add: completed_complete_at)
    qed
  qed
qed

subsection \<open>The conditional update\<close>

lemma update_owned_owner:
  "update_owned tbl oid uid f oid' \<noteq> tbl oid' \<Longrightarrow> \<exists>r. tbl oid' = Some r \<and> row_user_id r = uid"
  by (auto simp: update_owned_def split: option.splits if_splits)

lemma update_owned_other [simp]: "oid' \<noteq> oid \<Longrightarrow> update_owned tbl oid uid f oid' = tbl oid'"
  by (simp add: update_owned_def split: option.splits)

lemma advanceStage_other:
  "k \<noteq> oid \<Longrightarrow> fst (advanceStage ord usr oid now ok tbl) k = tbl k"
  by (simp add: advanceStage_def Let_def split: option.splits prod.splits)

lemma confirmReceipt_other:
  "k \<noteq> oid \<Longrightarrow> fst (confirmReceipt ord usr oid now ok tbl) k = tbl k"
  by (simp add: confirmReceipt_def Let_def split: option.splits prod.splits)

subsection \<open>The default workflow\<close>

lemma default_names_nth:
  "map stage_name ss = map JStr default_stage_names \<Longrightarrow> i < length ss \<Longrightarrow>
   stage_name (ss ! i) = JStr (default_stage_names ! i)"
  by (metis length_map nth_map)

lemma default_names_length:
  "map stage_name ss = map JStr default_stage_names \<Longrightarrow> length ss = 6"
  by (drule arg_cong [where f = length]) (simp add: default_stage_names_def)

lemma sample_current_index [simp]: "current_index sample_stages = 1"
  by (simp add: sample_stages_def default_stages_def default_stage_names_def current_index_def)

lemma sample_stages_length [simp]: "length sample_stages = 6"
  by (simp add: sample_stages_def default_stages_def default_stage_names_def)

subsection \<open>The transitions\<close>

text \<open>
  C1. \<open>advanceStage\<close> on every branch that writes: when the first pending stage
  \<open>i\<close> is not the last, the storage call succeeds and the caller owns the row, the
  row gets stage \<open>i\<close> completed at \<open>now\<close> and the name of stage \<open>i + 1\<close> as its
  status, no other row changes, and the page refetches.
\<close>

theorem advanceStage_completes_current:
  assumes "stages od = ss" and "current_index ss = int i" and "i + 1 < length ss"
    and "tbl oid = Some r" and "row_user_id r = u"
  shows "advanceStage (Some od) (Some u) oid now True tbl =
           (tbl(oid \<mapsto> r\<lparr>row_status := stage_name (ss ! (i + 1)),
                        row_stages := SJson (stages_json (complete_at i now ss))\<rparr>), Refetch)"
  using assms by (simp add: advanceStage_def update_owned_def Let_def)

theorem advanceStage_completes_current_witness:
  "advanceStage (Some (sample_order sample_stages)) (Some ''u1'') ''o1'' (JStr ''t1'') True sample_table =
     (sample_table(''o1'' \<mapsto> sample_row\<lparr>row_status := JStr ''Processing'',
        row_stages := SJson (stages_json (complete_at 1 (JStr ''t1'') sample_stages))\<rparr>), Refetch)"
proof -
  have "advanceStage (Some (sample_order sample_stages)) (Some ''u1'') ''o1'' (JStr ''t1'') True sample_table =
     (sample_table(''o1'' \<mapsto> sample_row\<lparr>row_status := stage_name (sample_stages ! (1 + 1)),
        row_stages := SJson (stages_json (complete_at 1 (JStr ''t1'') sample_stages))\<rparr>), Refetch)"
    by (rule advanceStage_completes_current) (simp_all add: sample_order_def sample_table_def sample_row_def)
  moreover have "stage_name (sample_stages ! (1 + 1)) = JStr ''Processing''"
    by (simp add: sample_stages_def default_stages_def default_stage_names_def)
  ultimately show ?thesis by simp
qed

text \<open>
  C10. Divergence: \<open>advanceStage\<close> does nothing when no stage is pending and also
  when the pending stage is the last one, so it never completes the last stage
  and never makes an order terminal; the specification has it complete the
  current stage unless the order is already terminal.
\<close>

theorem advanceStage_last_noop:
  assumes "current_index (stages od) < 0 \<or> current_index (stages od) = int (length (stages od)) - 1"
  shows "advanceStage (Some od) usr oid now ok tbl = (tbl, NoEffect)"
  using assms findIndex_ge [of "\<lambda>s. \<not> completed s" "stages od"]
  by (auto simp: advanceStage_def current_index_def Let_def split: option.split)

theorem advanceStage_last_noop_witness:
  "advanceStage (Some (sample_order last_current_stages)) (Some ''u1'') ''o1'' (JStr ''t1'') True sample_table
   = (sample_table, NoEffect)"
proof -
  have "current_index (stages (sample_order last_current_stages))
        = int (length (stages (sample_order last_current_stages))) - 1"
    by (simp add: sample_order_def last_current_stages_def sample_stages_def default_stages_def
                  default_stage_names_def current_index_def)
  then show ?thesis by (rule advanceStage_last_noop [OF disjI2])
qed

lemma advance_step_keeps_last:
  "advance_step ss ss' \<Longrightarrow> ss' \<noteq> [] \<and> last ss' = last ss"
  by (induction rule: advance_step.induct) (auto simp: last_complete_at)

lemma advance_step_prefix:
  "advance_step ss ss' \<Longrightarrow> prefix_completed ss \<Longrightarrow> prefix_completed ss'"
  by (induction rule: advance_step.induct) (rule prefix_completed_complete_current)

text \<open>
  C9. Invariant of the stage machine: every sequence of \<open>advanceStage\<close>
  transitions keeps completion a prefix of the workflow (no completed stage after
  a pending one).
\<close>

theorem advance_steps_prefix:
  "advance_step\<^sup>*\<^sup>* ss ss' \<Longrightarrow> prefix_completed ss \<Longrightarrow> prefix_completed ss'"
  by (induction rule: rtranclp_induct) (auto intro: advance_step_prefix)

theorem advance_steps_prefix_witness:
  "prefix_completed (complete_at 1 (JStr ''t1'') sample_stages)"
proof -
  have "advance_step sample_stages (complete_at 1 (JStr ''t1'') sample_stages)"
    by (rule advance_step.advance) (simp_all add: sample_stages_def default_stages_def default_stage_names_def
                                                 current_index_def)
  moreover have "prefix_completed sample_stages"
    by (simp add: prefix_completed_def sample_stages_def default_stages_def default_stage_names_def)
  ultimately show ?thesis by (rule advance_steps_prefix [OF r_into_rtranclp])
qed

text \<open>
  Liveness failure: from a workflow whose last stage is pending, no sequence
  of \<open>advanceStage\<close> transitions ever completes the last stage.
\<close>

theorem advance_steps_last_pending:
  "advance_step\<^sup>*\<^sup>* ss ss' \<Longrightarrow> ss \<noteq> [] \<Longrightarrow> \<not> completed (last ss) \<Longrightarrow> \<not> completed (last ss')"
  by (induction rule: rtranclp_induct) (auto dest: advance_step_keeps_last)

theorem advance_steps_last_pending_witness:
  "\<not> completed (last (complete_at 1 (JStr ''t1'') sample_stages))"
proof -
  have "advance_step sample_stages (complete_at 1 (JStr ''t1'') sample_stages)"
    by (rule advance_step.advance) (simp_all add: sample_stages_def default_stages_def default_stage_names_def
                                                 current_index_def)
  then show ?thesis
    by (rule advance_steps_last_pending [OF r_into_rtranclp])
       (simp_all add: sample_stages_def default_stages_def default_stage_names_def)
qed

lemma advance_step_pending:
  "advance_step ss ss' \<Longrightarrow>
   length (filter (\<lambda>s. \<not> completed s) ss') < length (filter (\<lambda>s. \<not> completed s) ss)"
proof (induction rule: advance_step.induct)
  case (advance ss i now)
  then have "i < length ss" and "\<not> completed (ss ! i)"
    using findIndex_nth[of "\<lambda>s. \<not> completed s" ss] by (simp_all add: current_index_def)
  moreover have "ss ! i \<in> set (filter (\<lambda>s. \<not> completed s) ss)"
    using calculation by simp
  then have "0 < length (filter (\<lambda>s. \<not> completed s) ss)"
    by (rule length_pos_if_in_set)
  ultimately show ?case by (simp add: complete_at_def length_filter_update_less)
qed

text \<open>
  C15. Termination of the stage machine: every \<open>advanceStage\<close> transition
  completes a pending stage, so a run of \<open>n\<close> transitions leaves at least \<open>n\<close>
  fewer pending stages, and no run is longer than the number of pending stages
  it starts from.
\<close>

theorem advance_steps_bounded:
  "(advance_step ^^ n) ss ss' \<Longrightarrow>
   n + length (filter (\<lambda>s. \<not> completed s) ss') \<le> length (filter (\<lambda>s. \<not> completed s) ss)"
proof (induction n arbitrary: ss')
  case 0 then show ?case by simp
next
  case (Suc n)
  then obtain m where "(advance_step ^^ n) ss m" and "advance_step m ss'" by auto
  with Suc.IH advance_step_pending[of m ss'] show ?case by fastforce
qed

theorem advance_steps_bounded_witness:
  "(advance_step ^^ 1) sample_stages (complete_at 1 (JStr ''t1'') sample_stages) \<and>
   1 + length (filter (\<lambda>s. \<not> completed s) (complete_at 1 (JStr ''t1'') sample_stages))
     \<le> length (filter (\<lambda>s. \<not> completed s) sample_stages)"
proof -
  have h: "(advance_step ^^ 1) sample_stages (complete_at 1 (JStr ''t1'') sample_stages)"
    by (simp only: relpowp_1) (rule advance_step.advance, simp_all add: sample_stages_def default_stages_def
                                                      default_stage_names_def current_index_def)
  from advance_steps_bounded[OF h] h show ?thesis by blast
qed

text \<open>
  C5. Ownership: whatever the handlers are given, the only rows of the
  \<open>orders\<close> table that \<open>advanceStage\<close> or \<open>confirmReceipt\<close> change are rows owned by
  the signed-in user.
\<close>

theorem transitions_write_only_own_rows:
  assumes "fst (advanceStage ord (Some u) oid now ok tbl) oid' \<noteq> tbl oid' \<or>
           fst (confirmReceipt ord (Some u) oid now ok tbl) oid' \<noteq> tbl oid'"
  shows "\<exists>r. tbl oid' = Some r \<and> row_user_id r = u"
  using assms update_owned_owner
  by (auto simp: advanceStage_def confirmReceipt_def Let_def split: option.splits if_splits)

theorem transitions_write_only_own_rows_witness:
  "\<exists>r. sample_table ''o1'' = Some r \<and> row_user_id r = ''u1''"
proof -
  have "fst (advanceStage (Some (sample_order sample_stages)) (Some ''u1'') ''o1'' (JStr ''t1'') True sample_table) ''o1''
        = Some (sample_row\<lparr>row_status := JStr ''Processing'',
                  row_stages := SJson (stages_json (complete_at 1 (JStr ''t1'') sample_stages))\<rparr>)"
    by (simp add: advanceStage_def update_owned_def sample_table_def sample_row_def sample_order_def Let_def)
       (simp add: sample_stages_def default_stages_def default_stage_names_def)
  then have "fst (advanceStage (Some (sample_order sample_stages)) (Some ''u1'') ''o1'' (JStr ''t1'') True sample_table) ''o1''
        \<noteq> sample_table ''o1''"
    by (simp add: sample_table_def sample_row_def)
  then show ?thesis by (rule transitions_write_only_own_rows [OF disjI1])
qed

text \<open>
  A failed storage call leaves the table unchanged, for both transitions:
  the alert is shown and no local state is touched.
\<close>

theorem transitions_failed_write_unchanged:
  "fst (advanceStage ord usr oid now False tbl) = tbl \<and> fst (confirmReceipt ord usr oid now False tbl) = tbl"
  by (auto simp: advanceStage_def confirmReceipt_def Let_def split: option.splits)

text \<open>
  C3. Divergence: \<open>confirmReceipt\<close> checks only that the last stage is pending. On
  a workflow with an earlier pending stage it still completes the last stage and
  sets the status to \<open>Confirmed Received\<close>, leaving a completed stage after a
  pending one; the specification requires the call to be rejected.
\<close>

theorem confirmReceipt_skips_pending:
  assumes "stages od = ss" and "tbl oid = Some r" and "row_user_id r = u"
    and "i < length ss - 1" and "\<not> completed (ss ! i)" and "\<not> completed (last ss)"
  shows "fst (confirmReceipt (Some od) (Some u) oid now True tbl) oid
           = Some (r\<lparr>row_status := JStr ''Confirmed Received'',
                     row_stages := SJson (stages_json (complete_at (length ss - 1) now ss))\<rparr>)
         \<and> \<not> prefix_completed (complete_at (length ss - 1) now ss)"
proof -
  have ne: "ss \<noteq> []" using assms(4) by auto
  have "completed (complete_at (length ss - 1) now ss ! (length ss - 1))"
    using ne by (simp add: completed_complete_at)
  moreover have "\<not> completed (complete_at (length ss - 1) now ss ! i)"
    using assms(4,5) by (simp add: completed_complete_at)
  ultimately have "\<not> prefix_completed (complete_at (length ss - 1) now ss)"
    using assms(4) ne unfolding prefix_completed_iff by force
  then show ?thesis
    using assms ne by (simp add: confirmReceipt_def update_owned_def Let_def)
qed

theorem confirmReceipt_skips_pending_witness:
  "\<not> prefix_completed (complete_at 4 (JStr ''t1'') delivered_stages)"
proof -
  have facts: "length delivered_stages = 5" "\<not> completed (delivered_stages ! Suc 0)"
    "\<not> completed (last delivered_stages)"
    by (simp_all add: delivered_stages_def sample_stages_def default_stages_def default_stage_names_def)
  have "fst (confirmReceipt (Some (sample_order delivered_stages)) (Some ''u1'') ''o1'' (JStr ''t1'') True
               sample_table) ''o1''
          = Some (sample_row\<lparr>row_status := JStr ''Confirmed Received'',
                     row_stages := SJson (stages_json (complete_at (length delivered_stages - 1) (JStr ''t1'')
                                                         delivered_stages))\<rparr>)
        \<and> \<not> prefix_completed (complete_at (length delivered_stages - 1) (JStr ''t1'') delivered_stages)"
    by (rule confirmReceipt_skips_pending [where i = 1])
       (simp_all add: facts sample_order_def sample_table_def sample_row_def)
  then show ?thesis by (simp add: facts)
qed

subsection \<open>What the buyer can do\<close>

text \<open>
  C23. Liveness failure of the buyer's controls: on any order whose stages carry
  the default workflow's names, neither button can change anything: \<open>Confirm
  Received\<close> needs a last stage named \<open>Delivered\<close>, and \<open>Mark as Done\<close> appears only
  on \<open>Confirmed Received\<close>, the last stage, where \<open>advanceStage\<close> refuses to act.
\<close>

theorem default_workflow_buyer_stuck:
  assumes "map stage_name ss = map JStr default_stage_names"
  shows "\<not> ui_step ss ss'"
proof
  assume "ui_step ss ss'"
  then show False
  proof cases
    case (mark_done i now)
    from assms have len: "length ss = 6" by (rule default_names_length)
    with mark_done have "i < 5" by simp
    then have i: "i \<in> {0, 1, 2, 3, 4}" by auto
    from mark_done have "stage_name (ss ! i) = JStr ''Confirmed Received''" by simp
    with default_names_nth [OF assms, of i] len \<open>i < 5\<close>
    have "default_stage_names ! i = ''Confirmed Received''" by simp
    with i show False by (auto simp: default_stage_names_def)
  next
    case (confirm now)
    from assms have "last (map stage_name ss) = JStr ''Confirmed Received''"
      by (simp add: default_stage_names_def)
    with confirm show False by (simp add: last_map)
  qed
qed

theorem default_workflow_buyer_stuck_witness:
  "\<not> ui_step last_current_stages (complete_at 5 (JStr ''t1'') last_current_stages)"
  by (rule default_workflow_buyer_stuck)
     (simp add: last_current_stages_def sample_stages_def default_stages_def default_stage_names_def)

lemma mark_done_current:
  assumes "track_view od = Inr v" and "idx \<in> set (tv_mark_done v)"
  shows "current_index (stages od) = int idx \<and> stage_name (stages od ! idx) = JStr ''Confirmed Received''
         \<and> idx < length (stages od)"
  using assms
  by (auto simp: track_view_def stage_marker_def Let_def split: json.splits if_splits)

text \<open>
  The \<open>Mark as Done\<close> button is dead: on an order with the default
  workflow's stage names, whenever the page shows the button, the handler it runs
  (\<open>advanceStage\<close>) writes nothing and triggers nothing.
\<close>

theorem mark_done_button_is_dead:
  assumes "map stage_name (stages od) = map JStr default_stage_names"
    and "track_view od = Inr v" and "idx \<in> set (tv_mark_done v)"
  shows "advanceStage (Some od) usr oid now ok tbl = (tbl, NoEffect)"
proof -
  from mark_done_current [OF assms(2,3)] have
    cur: "current_index (stages od) = int idx" and
    nm: "stage_name (stages od ! idx) = JStr ''Confirmed Received''" and
    lt: "idx < length (stages od)" by auto
  from assms(1) have len: "length (stages od) = 6" by (rule default_names_length)
  from default_names_nth [OF assms(1) lt] nm have "default_stage_names ! idx = ''Confirmed Received''"
    by simp
  with lt len have "idx = 5"
    by (auto simp: default_stage_names_def less_Suc_eq numeral_eq_Suc)
  with cur len have "current_index (stages od) = int (length (stages od)) - 1" by simp
  then show ?thesis by (rule advanceStage_last_noop [OF disjI2])
qed

theorem mark_done_button_is_dead_witness:
  "advanceStage (Some (sample_order last_current_stages)) (Some ''u1'') ''o1'' (JStr ''t1'') True sample_table
   = (sample_table, NoEffect) \<and>
   tv_mark_done (projr (track_view (sample_order last_current_stages))) = [5]"
proof -
  let ?o = "sample_order last_current_stages"
  have tv: "track_view ?o = Inr (projr (track_view ?o))"
    and md: "tv_mark_done (projr (track_view ?o)) = [5]"
    by (simp_all add: track_view_def sample_order_def last_current_stages_def sample_stages_def
         default_stages_def default_stage_names_def stage_marker_def current_index_def upt_rec)
  have names: "map stage_name (stages ?o) = map JStr default_stage_names"
    by (simp add: sample_order_def last_current_stages_def sample_stages_def default_stages_def
                  default_stage_names_def)
  have "advanceStage (Some ?o) (Some ''u1'') ''o1'' (JStr ''t1'') True sample_table = (sample_table, NoEffect)"
    by (rule mark_done_button_is_dead [OF names tv]) (simp add: md)
  then show ?thesis using md by simp
qed

end
