(* ===== verification/PriceText.thy ===== *)
theory PriceText
  imports Prelude "HOL-Library.Sublist"
begin

text \<open>
  Prices as the catalogue delivers them: a number, a text such as
  \<open>"KES 1,200.50"\<close>, or nothing. Three places turn them into numbers:
  \<open>parsePriceToNumber\<close> and \<open>formatPriceForDisplay\<close> of
  \<open>src/src/pages/ProductDetail.tsx\<close> (the price stored in the cart), and the item
  enrichment of \<open>src/src/pages/TrackOrder.tsx\<close> (lines 116 and 121), which has no
  \<open>|| 0\<close> after \<open>parseFloat\<close> and so can produce \<open>NaN\<close>. \<open>s.replace(/[^\d.]/g, '')\<close>
  is \<open>strip_price\<close>; \<open>parseFloat\<close> is modelled on the strings it is applied to here,
  strings of digits and dots, where it reads the longest prefix
  \<open>digits [. digits]\<close> and is \<open>NaN\<close> (\<open>None\<close>) when that prefix has no digit.
\<close>

datatype price_value = PNum money | PText string | PMissing

definition strip_price :: "string \<Rightarrow> string" where
  "strip_price s = filter (\<lambda>c. is_digit c \<or> c = CHR ''.'') s"

definition parseFloat_digits :: "string \<Rightarrow> money option" where
  "parseFloat_digits s =
     (let ip = takeWhile is_digit s;
          fp = (case dropWhile is_digit s of c # r \<Rightarrow> if c = CHR ''.'' then takeWhile is_digit r else [] | [] \<Rightarrow> [])
      in if ip = [] \<and> fp = [] then None
         else Some (of_nat (digits_nat ip) + of_nat (digits_nat fp) / 10 ^ length fp))"

text \<open>\<open>s.replace(pat, rep)\<close> with a string pattern: the first occurrence only.\<close>

fun replace_first :: "string \<Rightarrow> string \<Rightarrow> string \<Rightarrow> string" where
  "replace_first pat rep [] = (if pat = [] then rep else [])"
| "replace_first pat rep (c # cs) =
     (if take (length pat) (c # cs) = pat then rep @ drop (length pat) (c # cs)
      else c # replace_first pat rep cs)"

definition parsePriceToNumber :: "price_value \<Rightarrow> money" where
  "parsePriceToNumber raw =
     (case raw of
        PMissing \<Rightarrow> 0
      | PNum n \<Rightarrow> n
      | PText s \<Rightarrow>
          (case parseFloat_digits (strip_price (replace_first ''KES '' '''' s)) of
             None \<Rightarrow> 0
           | Some x \<Rightarrow> x))"

text \<open>The displayed price: a text, or \<open>"KES "\<close> followed by the JavaScript rendering of a number.\<close>

datatype price_display = DText string | DKesNumber money

definition formatPriceForDisplay :: "price_value \<Rightarrow> price_display" where
  "formatPriceForDisplay raw =
     (case raw of
        PMissing \<Rightarrow> DText ''KES ___''
      | PNum n \<Rightarrow> DKesNumber n
      | PText s \<Rightarrow> if sublist ''KES'' s then DText s else DText (''KES '' @ s))"

text \<open>Item enrichment (\<open>TrackOrder.tsx\<close> line 116): \<open>None\<close> is \<open>NaN\<close>.\<close>

definition product_item_price :: "price_value \<Rightarrow> money option" where
  "product_item_price raw =
     (case raw of
        PText s \<Rightarrow> parseFloat_digits (strip_price s)
      | PNum n \<Rightarrow> Some n
      | PMissing \<Rightarrow> Some 0)"

text \<open>Line 121: a variant price replaces the product price unless it is missing or \<open>0\<close>.\<close>

definition variant_item_price :: "price_value \<Rightarrow> money option \<Rightarrow> money option" where
  "variant_item_price raw itemPrice =
     (case raw of
        PText s \<Rightarrow> parseFloat_digits (strip_price s)
      | PNum n \<Rightarrow> if n \<noteq> 0 then Some n else itemPrice
      | PMissing \<Rightarrow> itemPrice)"

subsection \<open>Lemmas\<close>

lemma parseFloat_digits_nonneg: "parseFloat_digits s = Some x \<Longrightarrow> 0 \<le> x"
  by (auto simp: parseFloat_digits_def Let_def split: if_splits)

lemma strip_price_KES_prefix: "strip_price (''KES '' @ t) = strip_price t"
  by (simp add: strip_price_def is_digit_def)

lemma strip_price_replace_KES: "strip_price (replace_first ''KES '' '''' s) = strip_price s"
proof (induction s)
  case Nil
  then show ?case by simp
next
  case (Cons c cs)
  show ?case
  proof (cases "take (length ''KES '') (c # cs) = ''KES ''")
    case True
    then have "c # cs = ''KES '' @ drop (length ''KES '') (c # cs)"
      by (metis append_take_drop_id)
    then have "strip_price (c # cs) = strip_price (drop (length ''KES '') (c # cs))"
      by (metis strip_price_KES_prefix)
    with True show ?thesis by (simp only: replace_first.simps simp_thms if_True append_Nil)
  next
    case False
    then have "replace_first ''KES '' '''' (c # cs) = c # replace_first ''KES '' '''' cs"
      by (simp only: replace_first.simps if_False)
    then show ?thesis using Cons.IH by (simp only: strip_price_def filter.simps)
  qed
qed


lemma parsePriceToNumber_empty [simp]: "parsePriceToNumber (PText []) = 0"
  by (simp add: parsePriceToNumber_def strip_price_def parseFloat_digits_def)

lemma strip_price_no_digit:
  "\<not> list_ex is_digit s \<Longrightarrow> parseFloat_digits (strip_price s) = None"
proof -
  assume "\<not> list_ex is_digit s"
  then have "set (strip_price s) \<subseteq> {CHR ''.''}"
    by (auto simp: strip_price_def list_ex_iff)
  then have "\<forall>c \<in> set (strip_price s). \<not> is_digit c"
    by (auto simp: is_digit_def)
  then show ?thesis
    by (cases "dropWhile is_digit (strip_price s)")
       (auto simp: parseFloat_digits_def Let_def takeWhile_eq_Nil_iff dest: set_dropWhileD
             intro!: takeWhile_eq_Nil_iff[THEN iffD2])
qed

text \<open>On the examples of the specification, \<open>"KES 1,200.50"\<close> is read as
  \<open>1200.50\<close> and \<open>"n/a"\<close> as \<open>0\<close>, without an exception.\<close>

theorem parsePriceToNumber_spec_examples:
  "parsePriceToNumber (PText ''KES 1,200.50'') = 2401 / 2 \<and> parsePriceToNumber (PText ''n/a'') = 0"
  by (simp add: parsePriceToNumber_def strip_price_def parseFloat_digits_def is_digit_def
      digits_nat_def digit_val_def)

text \<open>C31. The two copies of the text-price reader agree: the cart price of
  \<open>ProductDetail\<close> (which first removes \<open>"KES "\<close>) is the enrichment price of
  \<open>TrackOrder\<close> with \<open>NaN\<close> read as \<open>0\<close>; removing \<open>"KES "\<close> changes nothing.\<close>

theorem parsePriceToNumber_eq_item_price:
  "parsePriceToNumber (PText s) = (case product_item_price (PText s) of None \<Rightarrow> 0 | Some x \<Rightarrow> x)"
  by (simp add: parsePriceToNumber_def product_item_price_def strip_price_replace_KES)

text \<open>A price text with no digit is \<open>0\<close> in the cart but \<open>NaN\<close> in the order
  tracking view, where the specification asks for \<open>0\<close>.\<close>

theorem item_price_NaN_without_digits:
  assumes "\<not> list_ex is_digit s"
  shows "product_item_price (PText s) = None \<and> parsePriceToNumber (PText s) = 0"
  using strip_price_no_digit[OF assms] strip_price_replace_KES[of s]
  by (simp add: parsePriceToNumber_def product_item_price_def)

theorem item_price_NaN_without_digits_witness:
  "product_item_price (PText ''n/a'') = None \<and> parsePriceToNumber (PText ''n/a'') = 0"
  by (rule item_price_NaN_without_digits) (simp add: is_digit_def)

text \<open>A price written with the other common currency prefix, \<open>"Ksh. 1,200"\<close>,
  keeps the dot of the abbreviation and is read as \<open>0.12\<close>.\<close>

theorem parsePriceToNumber_Ksh_misread:
  "parsePriceToNumber (PText ''Ksh. 1,200'') = 3 / 25"
  by (simp add: parsePriceToNumber_def strip_price_def parseFloat_digits_def is_digit_def
      digits_nat_def digit_val_def)

end
