(* ===== verification/Sync.thy ===== *)
theory Sync
  imports OrderMachine PriceText
begin

text \<open>
  The order query and the live synchronisation of \<open>src/src/pages/TrackOrder.tsx\<close>.
  \<open>queryFn\<close> is the query function of the \<open>useQuery\<close> call (lines 60--189): the
  access checks with their thrown errors, the decode of \<open>items\<close> with its fallback,
  the enrichment of every item from the catalogue (\<open>products\<close> and
  \<open>product_variants\<close>), and the stage parse of theory \<open>Stages\<close>. The storage
  answer to \<open>.select('*').eq('id', orderId).single()\<close> is an input
  (\<open>db_response\<close>); \<open>select_single\<close> gives it for a table. The second part is the
  session: the order page as a sequence of events (a run of the query, the
  change-feed subscription becoming active, a write to the store, the delivery of
  a change notification, unmounting), with the displayed state derived from the
  last result of the query.
\<close>

subsection \<open>The catalogue read by the item enrichment\<close>

record product_row =
  p_name :: json
  p_price :: price_value

record variant_row =
  v_size :: json
  v_price :: price_value

record catalog =
  cat_products :: "json \<rightharpoonup> product_row"
  cat_variants :: "json \<rightharpoonup> variant_row"

text \<open>\<open>.eq('id', key).single()\<close> returns no row for an \<open>undefined\<close> key; the code
  ignores the error and reads \<open>data\<close>, which is then \<open>null\<close>.\<close>

definition lookup_by :: "(json \<rightharpoonup> 'a) \<Rightarrow> json option \<Rightarrow> 'a option" where
  "lookup_by m k = (case k of None \<Rightarrow> None | Some j \<Rightarrow> m j)"

text \<open>
  One callback of \<open>parsedItems.map(async (item) => ...)\<close> (lines 109--128): reading
  \<open>item.size\<close> raises on a \<open>null\<close> entry before the \<open>try\<close>; inside it nothing
  raises. A missing product or variant is \<open>undefined\<close>, whose price is read as
  missing (\<open>price_value.PMissing\<close>).
\<close>

definition enrich_item :: "catalog \<Rightarrow> json \<Rightarrow> js_error + order_item" where
  "enrich_item cat item =
     (if item = JNull then Inl TypeError
      else
        (let size0 = the (js_or (js_prop item ''size'') (Some (JStr '''')));
             prod = lookup_by (cat_products cat) (js_prop item ''product_id'');
             name = (case prod of
                       None \<Rightarrow> JStr ''Unknown Product''
                     | Some p \<Rightarrow> the (js_or (Some (p_name p)) (Some (JStr ''Unknown Product''))));
             price0 = product_item_price (case prod of None \<Rightarrow> PMissing | Some p \<Rightarrow> p_price p);
             (size, price) =
               (if js_truthy (js_prop item ''variant_id'')
                then (let var = lookup_by (cat_variants cat) (js_prop item ''variant_id'') in
                      ((case var of
                          None \<Rightarrow> JStr ''''
                        | Some v \<Rightarrow> the (js_or (Some (v_size v)) (Some (JStr '''')))),
                       variant_item_price (case var of None \<Rightarrow> PMissing | Some v \<Rightarrow> v_price v) price0))
                else (size0, price0))
         in Inr \<lparr>oi_product_id = js_prop item ''product_id'', oi_variant_id = js_prop item ''variant_id'',
                 oi_quantity = js_prop item ''quantity'', oi_name = name, oi_price = price,
                 oi_size = size\<rparr>))"

text \<open>\<open>Promise.all\<close> over the callbacks: the first rejection is the result.\<close>

fun enrich_items :: "catalog \<Rightarrow> json list \<Rightarrow> js_error + order_item list" where
  "enrich_items cat [] = Inr []"
| "enrich_items cat (x # xs) =
     (case enrich_item cat x of
        Inl e \<Rightarrow> Inl e
      | Inr it \<Rightarrow> (case enrich_items cat xs of Inl e \<Rightarrow> Inl e | Inr its \<Rightarrow> Inr (it # its)))"

text \<open>
  Lines 97--105: \<open>JSON.parse(data.items || '[]')\<close> inside a \<open>try\<close> whose \<open>catch\<close>
  substitutes \<open>[]\<close>; the following \<open>parsedItems.map\<close> raises outside the \<open>try\<close> when
  the decoded value is not an array.
\<close>

definition parse_items :: "stored \<Rightarrow> js_error + json list" where
  "parse_items raw =
     (case json_parse_field raw of
        Inl e \<Rightarrow> Inr []
      | Inr (JArr xs) \<Rightarrow> Inr xs
      | Inr v \<Rightarrow> Inl TypeError)"

subsection \<open>The query function\<close>

datatype db_response = DbError string | DbData "order_row option"

text \<open>\<open>.single()\<close> on a table: the row, or the error of a query with no row.\<close>

definition select_single :: "orders_table \<Rightarrow> string \<Rightarrow> db_response" where
  "select_single tbl oid =
     (case tbl oid of
        Some r \<Rightarrow> DbData (Some r)
      | None \<Rightarrow> DbError ''JSON object requested, multiple (or no) rows returned'')"

datatype fetch_error =
    NoOrderId
  | SignIn
  | NotAuthenticated
  | StoreError string
  | OrderNotFound
  | AccessDenied
  | Thrown js_error

text \<open>\<open>error.message\<close> of each error the code throws itself; a storage error
  carries its own; the message of a runtime \<open>TypeError\<close> is not modelled.\<close>

fun fetch_error_message :: "fetch_error \<Rightarrow> string option" where
  "fetch_error_message NoOrderId = Some ''No order ID provided''"
| "fetch_error_message SignIn = Some ''Please sign in''"
| "fetch_error_message NotAuthenticated = Some ''User not authenticated''"
| "fetch_error_message (StoreError m) = Some m"
| "fetch_error_message OrderNotFound = Some ''Order not found''"
| "fetch_error_message AccessDenied = Some ''Access denied''"
| "fetch_error_message (Thrown e) = None"

definition queryFn ::
  "string option \<Rightarrow> bool \<Rightarrow> string option \<Rightarrow> db_response \<Rightarrow> catalog \<Rightarrow> fetch_error + order" where
  "queryFn orderId session usr resp cat =
     (case orderId of
        None \<Rightarrow> Inl NoOrderId
      | Some oid \<Rightarrow>
          if \<not> session then Inl SignIn
          else (case usr of
                  None \<Rightarrow> Inl NotAuthenticated
                | Some u \<Rightarrow>
                    (case resp of
                       DbError m \<Rightarrow> Inl (StoreError m)
                     | DbData None \<Rightarrow> Inl OrderNotFound
                     | DbData (Some r) \<Rightarrow>
                         if row_user_id r \<noteq> u then Inl AccessDenied
                         else (case parse_items (row_items r) of
                                 Inl e \<Rightarrow> Inl (Thrown e)
                               | Inr xs \<Rightarrow>
                                   (case enrich_items cat xs of
                                      Inl e \<Rightarrow> Inl (Thrown e)
                                    | Inr its \<Rightarrow>
                                        (let (ss, addr, instr) = parse_stages (row_stages r) (row_created_at r)
                                         in Inr \<lparr>order_id = oid, user_id = row_user_id r,
                                                 total_price = row_total_price r, items = its,
                                                 status = row_status r, stages = ss,
                                                 created_at = row_created_at r,
                                                 delivery_address = addr, instructions = instr\<rparr>))))))"

subsection \<open>The order page as a sequence of events\<close>

text \<open>
  What the page is mounted with: the route parameter, whether there is a session,
  the signed-in user's id, and the catalogue the enrichment reads.
\<close>

record page =
  pg_order_id :: "string option"
  pg_session :: bool
  pg_user :: "string option"
  pg_catalog :: catalog

text \<open>
  The state of one mounted page: the store, whether the channel of lines 199--216
  is active, the change notifications delivered to it and not yet handled, the
  result of the latest run of the query, the query's \<open>data\<close> (kept when a later
  run fails, as \<open>useQuery\<close> does) and the local \<open>order\<close> (set from \<open>data\<close> by the
  effect of lines 191--196).
\<close>

record sync_state =
  st_db :: orders_table
  st_subscribed :: bool
  st_pending :: nat
  st_result :: "(fetch_error + order) option"
  st_data :: "order option"
  st_order :: "order option"

datatype sync_event =
    RunQuery
  | Subscribe
  | StoreWrite string "order_row option"
  | Deliver
  | Unmount
  | Advance json bool
  | Confirm json bool

definition sync_init :: "orders_table \<Rightarrow> sync_state" where
  "sync_init db = \<lparr>st_db = db, st_subscribed = False, st_pending = 0, st_result = None,
                   st_data = None, st_order = None\<rparr>"

text \<open>The query run against the store as it is now.\<close>

definition fetch_now :: "page \<Rightarrow> orders_table \<Rightarrow> fetch_error + order" where
  "fetch_now pg db =
     queryFn (pg_order_id pg) (pg_session pg) (pg_user pg)
       (select_single db (the (pg_order_id pg))) (pg_catalog pg)"

text \<open>
  A run of the query (on mount, \<open>refetch()\<close> and the Retry button). The query is
  disabled without an order id (\<open>enabled: !!orderId\<close>).
\<close>

definition run_query :: "page \<Rightarrow> sync_state \<Rightarrow> sync_state" where
  "run_query pg s =
     (if pg_order_id pg = None then s
      else (let r = fetch_now pg (st_db s) in
            case r of
              Inr od \<Rightarrow> s\<lparr>st_result := Some r, st_data := Some od, st_order := Some od\<rparr>
            | Inl e \<Rightarrow> s\<lparr>st_result := Some r\<rparr>))"

text \<open>A change of the stored row of this order is signalled to an active channel
  (filter \<open>id=eq.orderId\<close>).\<close>

definition notify :: "page \<Rightarrow> orders_table \<Rightarrow> sync_state \<Rightarrow> sync_state" where
  "notify pg db' s =
     (if st_subscribed s \<and> (case pg_order_id pg of None \<Rightarrow> False | Some oid \<Rightarrow> db' oid \<noteq> st_db s oid)
      then s\<lparr>st_db := db', st_pending := Suc (st_pending s)\<rparr>
      else s\<lparr>st_db := db'\<rparr>)"

text \<open>A transition handler of theory \<open>OrderMachine\<close> run from the page: its write,
  the notification the write causes, and its \<open>refetch()\<close>.\<close>

definition run_handler :: "page \<Rightarrow> orders_table \<times> ui_effect \<Rightarrow> sync_state \<Rightarrow> sync_state" where
  "run_handler pg res s =
     (let s' = notify pg (fst res) s in
      case snd res of
        Refetch \<Rightarrow> run_query pg s'
      | AlertRefetch m \<Rightarrow> run_query pg s'
      | _ \<Rightarrow> s')"

fun sync_step :: "page \<Rightarrow> sync_state \<Rightarrow> sync_event \<Rightarrow> sync_state" where
  "sync_step pg s RunQuery = run_query pg s"
| "sync_step pg s Subscribe =
     (if pg_order_id pg \<noteq> None \<and> pg_session pg then s\<lparr>st_subscribed := True\<rparr> else s)"
| "sync_step pg s (StoreWrite k v) = notify pg ((st_db s)(k := v)) s"
| "sync_step pg s Deliver =
     (if st_subscribed s \<and> 0 < st_pending s
      then run_query pg (s\<lparr>st_pending := st_pending s - 1\<rparr>) else s)"
| "sync_step pg s Unmount = s\<lparr>st_subscribed := False, st_pending := 0\<rparr>"
| "sync_step pg s (Advance now ok) =
     (case pg_order_id pg of
        None \<Rightarrow> s
      | Some oid \<Rightarrow> run_handler pg (advanceStage (st_order s) (pg_user pg) oid now ok (st_db s)) s)"
| "sync_step pg s (Confirm now ok) =
     (case pg_order_id pg of
        None \<Rightarrow> s
      | Some oid \<Rightarrow> run_handler pg (confirmReceipt (st_order s) (pg_user pg) oid now ok (st_db s)) s)"

definition sync_run :: "page \<Rightarrow> sync_state \<Rightarrow> sync_event list \<Rightarrow> sync_state" where
  "sync_run pg = foldl (sync_step pg)"

subsection \<open>What the page shows\<close>

datatype screen = Loading | ErrorScreen "fetch_error option" | OrderScreen order

text \<open>Lines 267--291: \<open>isLoading\<close> before the first result; the error screen when the
  latest run failed or there is no data or no local order; else the order view.\<close>

definition screen :: "page \<Rightarrow> sync_state \<Rightarrow> screen" where
  "screen pg s =
     (if pg_order_id pg = None then ErrorScreen None
      else case st_result s of
             None \<Rightarrow> Loading
           | Some (Inl e) \<Rightarrow> ErrorScreen (Some e)
           | Some (Inr _) \<Rightarrow>
               (case (st_data s, st_order s) of
                  (Some _, Some od) \<Rightarrow> OrderScreen od
                | _ \<Rightarrow> ErrorScreen None))"

text \<open>What a fresh load of the page shows for a store.\<close>

definition fresh_screen :: "page \<Rightarrow> orders_table \<Rightarrow> screen" where
  "fresh_screen pg db =
     (if pg_order_id pg = None then ErrorScreen None
      else case fetch_now pg db of Inl e \<Rightarrow> ErrorScreen (Some e) | Inr od \<Rightarrow> OrderScreen od)"

text \<open>
  The invariant of a page whose channel is active: when no notification is
  waiting, the latest result of the query is the result of a query on the store
  as it is now, and a successful result is the query's data and the local order.
\<close>

definition sync_inv :: "page \<Rightarrow> sync_state \<Rightarrow> bool" where
  "sync_inv pg s \<longleftrightarrow>
     st_subscribed s \<and>
     (st_pending s = 0 \<longrightarrow> st_result s \<noteq> None \<longrightarrow> st_result s = Some (fetch_now pg (st_db s))) \<and>
     (\<forall>od. st_result s = Some (Inr od) \<longrightarrow> st_data s = Some od \<and> st_order s = Some od)"

text \<open>Sample data: a page for order \<open>o1\<close> of user \<open>u1\<close> and an empty catalogue.\<close>

definition empty_catalog :: catalog where
  "empty_catalog = \<lparr>cat_products = Map.empty, cat_variants = Map.empty\<rparr>"

definition sample_page :: page where
  "sample_page = \<lparr>pg_order_id = Some ''o1'', pg_session = True, pg_user = Some ''u1'',
                  pg_catalog = empty_catalog\<rparr>"

text \<open>A run in which the first query reads the store before a write and the
  channel becomes active after it.\<close>

definition race_events :: "sync_event list" where
  "race_events = [RunQuery, StoreWrite ''o1'' (Some (sample_row\<lparr>row_status := JStr ''Processing''\<rparr>)), Subscribe]"

subsection \<open>Lemmas\<close>

lemma fetch_now_row:
  "db' oid = db oid \<Longrightarrow> pg_order_id pg = Some oid \<Longrightarrow> fetch_now pg db' = fetch_now pg db"
  by (simp add: fetch_now_def select_single_def)

lemma run_query_result:
  "pg_order_id pg = Some oid \<Longrightarrow> st_result (run_query pg s) = Some (fetch_now pg (st_db s))"
  by (simp add: run_query_def Let_def split: sum.split)

lemma run_query_fields [simp]:
  "st_db (run_query pg s) = st_db s"
  "st_subscribed (run_query pg s) = st_subscribed s"
  "st_pending (run_query pg s) = st_pending s"
  by (simp_all add: run_query_def Let_def split: sum.split)

lemma sync_inv_run_query:
  assumes "pg_order_id pg = Some oid" and "st_subscribed s"
  shows "sync_inv pg (run_query pg s)"
  using assms by (auto simp: sync_inv_def run_query_def Let_def split: sum.splits)

lemma sync_inv_notify:
  assumes "sync_inv pg s" and "pg_order_id pg = Some oid"
  shows "sync_inv pg (notify pg db' s)"
proof (cases "db' oid = st_db s oid")
  case True
  then have "fetch_now pg db' = fetch_now pg (st_db s)" using assms(2) by (rule fetch_now_row)
  with True assms show ?thesis by (auto simp: sync_inv_def notify_def)
next
  case False
  with assms show ?thesis by (auto simp: sync_inv_def notify_def)
qed

lemma sync_inv_handler:
  assumes "sync_inv pg s" and "pg_order_id pg = Some oid"
  shows "sync_inv pg (run_handler pg res s)"
proof -
  have n: "sync_inv pg (notify pg (fst res) s)" using assms by (rule sync_inv_notify)
  then have "st_subscribed (notify pg (fst res) s)" by (simp add: sync_inv_def)
  with n assms(2) show ?thesis
    by (auto simp: run_handler_def Let_def intro: sync_inv_run_query split: ui_effect.split)
qed

lemma sync_inv_step:
  assumes "sync_inv pg s" and "pg_order_id pg = Some oid" and "e \<noteq> Unmount"
  shows "sync_inv pg (sync_step pg s e)"
proof -
  have sub: "st_subscribed s" using assms(1) by (simp add: sync_inv_def)
  have rq: "sync_inv pg (run_query pg s')" if "st_subscribed s'" for s'
    using assms(2) that by (rule sync_inv_run_query)
  show ?thesis
  proof (cases e)
    case RunQuery
    with sub rq show ?thesis by simp
  next
    case Deliver
    with assms(1) sub rq show ?thesis by simp
  next
    case Subscribe
    have "s\<lparr>st_subscribed := True\<rparr> = s" using sub by simp
    with Subscribe assms(1) show ?thesis by simp
  next
    case (StoreWrite k v)
    with assms(1,2) show ?thesis by (simp add: sync_inv_notify)
  next
    case (Advance now ok)
    with assms(1,2) show ?thesis by (simp add: sync_inv_handler)
  next
    case (Confirm now ok)
    with assms(1,2) show ?thesis by (simp add: sync_inv_handler)
  qed (use assms(3) in simp)
qed

lemma sync_run_Nil [simp]: "sync_run pg s [] = s"
  by (simp add: sync_run_def)

lemma sync_run_Cons [simp]: "sync_run pg s (e # es) = sync_run pg (sync_step pg s e) es"
  by (simp add: sync_run_def)

lemma sync_inv_run:
  assumes "sync_inv pg s" and "pg_order_id pg = Some oid" and "list_all (\<lambda>e. e \<noteq> Unmount) es"
  shows "sync_inv pg (sync_run pg s es)"
  using assms by (induction es arbitrary: s) (simp_all add: sync_inv_step)

lemma result_kept_step:
  "st_result s \<noteq> None \<Longrightarrow> st_result (sync_step pg s e) \<noteq> None"
  by (cases e)
     (auto simp: run_query_def notify_def run_handler_def Let_def
           split: option.splits sum.splits ui_effect.splits)

lemma result_kept_run:
  "st_result s \<noteq> None \<Longrightarrow> st_result (sync_run pg s es) \<noteq> None"
  by (induction es arbitrary: s) (simp, metis sync_run_Cons result_kept_step)

lemma deliver_all:
  assumes "sync_inv pg s" and "pg_order_id pg = Some oid" and "st_pending s = n"
  shows "st_pending (sync_run pg s (replicate n Deliver)) = 0 \<and>
         st_db (sync_run pg s (replicate n Deliver)) = st_db s \<and>
         sync_inv pg (sync_run pg s (replicate n Deliver))"
  using assms
proof (induction n arbitrary: s)
  case 0
  then show ?case by simp
next
  case (Suc n)
  have sub: "st_subscribed s" using Suc.prems(1) by (simp add: sync_inv_def)
  let ?s1 = "run_query pg (s\<lparr>st_pending := n\<rparr>)"
  have step: "sync_step pg s Deliver = ?s1" using sub Suc.prems(3) by simp
  have "sync_inv pg ?s1" using Suc.prems(2) sub by (simp add: sync_inv_run_query)
  moreover have "st_pending ?s1 = n" and "st_db ?s1 = st_db s" by simp_all
  ultimately show ?case using Suc.IH[of ?s1] Suc.prems(2) step by simp
qed

lemma screen_synced:
  assumes "sync_inv pg s" and "pg_order_id pg = Some oid" and "st_pending s = 0"
    and "st_result s \<noteq> None"
  shows "screen pg s = fresh_screen pg (st_db s)"
  using assms by (auto simp: sync_inv_def screen_def fresh_screen_def split: sum.split)

text \<open>
  C6. Convergence: on a page mounted with an order id and a session, whose channel
  is active before the first query runs, after any events except unmounting and
  once the pending change notifications are delivered, the page shows what a fresh
  load of the page would show for the store as it is then.
\<close>

theorem sync_converges:
  assumes "pg_order_id pg = Some oid" and "pg_session pg" and "list_all (\<lambda>e. e \<noteq> Unmount) es"
  shows "let s = sync_run pg (sync_init db) (Subscribe # RunQuery # es);
             s' = sync_run pg s (replicate (st_pending s) Deliver)
         in screen pg s' = fresh_screen pg (st_db s') \<and> st_db s' = st_db s"
proof -
  let ?s0 = "sync_step pg (sync_step pg (sync_init db) Subscribe) RunQuery"
  have i0: "sync_inv pg ?s0" and r0: "st_result ?s0 \<noteq> None"
    using assms(1,2) by (auto simp: sync_init_def sync_inv_def run_query_def Let_def split: sum.split)
  have i: "sync_inv pg (sync_run pg ?s0 es)" using i0 assms(1,3) by (rule sync_inv_run)
  have r: "st_result (sync_run pg ?s0 es) \<noteq> None" using r0 by (rule result_kept_run)
  define s where "s = sync_run pg ?s0 es"
  define s' where "s' = sync_run pg s (replicate (st_pending s) Deliver)"
  have d: "st_pending s' = 0 \<and> st_db s' = st_db s \<and> sync_inv pg s'"
    using deliver_all[OF _ assms(1)] i unfolding s_def s'_def by blast
  have "st_result s' \<noteq> None" using r result_kept_run unfolding s_def s'_def by blast
  with d assms(1) have "screen pg s' = fresh_screen pg (st_db s')" by (metis screen_synced)
  with d show ?thesis by (simp add: s_def s'_def Let_def)
qed

lemma queryFn_loads:
  assumes "row_user_id r = u" and "parse_items (row_items r) = Inr xs" and "enrich_items cat xs = Inr its"
  shows "queryFn (Some oid) True (Some u) (DbData (Some r)) cat =
           Inr \<lparr>order_id = oid, user_id = u, total_price = row_total_price r, items = its,
                status = row_status r, stages = fst (parse_stages (row_stages r) (row_created_at r)),
                created_at = row_created_at r,
                delivery_address = fst (snd (parse_stages (row_stages r) (row_created_at r))),
                instructions = snd (snd (parse_stages (row_stages r) (row_created_at r)))\<rparr>"
  using assms by (simp add: queryFn_def split: prod.split)


lemma parse_items_SObjArray [simp]: "parse_items (SObjArray objs) = Inr []"
  by (simp add: parse_items_def json_parse_field_def)

lemma parse_items_SJson_Nil [simp]: "parse_items (SJson (JArr [])) = Inr []"
  by (simp add: parse_items_def json_parse_field_def)


theorem sync_converges_witness:
  "pg_order_id sample_page = Some ''o1'' \<and> pg_session sample_page \<and>
   list_all (\<lambda>e. e \<noteq> Unmount) race_events \<and>
   (let s = sync_run sample_page (sync_init sample_table) (Subscribe # RunQuery # race_events);
        s' = sync_run sample_page s (replicate (st_pending s) Deliver)
    in screen sample_page s' = fresh_screen sample_page (st_db s') \<and> st_db s' = st_db s)"
proof -
  have h: "pg_order_id sample_page = Some ''o1''" "pg_session sample_page"
    "list_all (\<lambda>e. e \<noteq> Unmount) race_events"
    by (simp_all add: sample_page_def race_events_def)
  show ?thesis using h sync_converges[OF h] by simp
qed

lemma enrich_item_ok: "item \<noteq> JNull \<Longrightarrow> \<exists>it. enrich_item cat item = Inr it"
  by (simp add: enrich_item_def Let_def split: prod.split)

lemma enrich_items_ok:
  "list_all (\<lambda>x. x \<noteq> JNull) xs \<Longrightarrow> \<exists>its. enrich_items cat xs = Inr its \<and> length its = length xs"
proof (induction xs)
  case Nil
  then show ?case by simp
next
  case (Cons x xs)
  then obtain it its where "enrich_item cat x = Inr it" and "enrich_items cat xs = Inr its"
    and "length its = length xs"
    using enrich_item_ok by fastforce
  then show ?case by simp
qed

text \<open>
  C26. For the owner, a row whose items decode to entries that are not \<open>null\<close>
  loads whatever its \<open>stages\<close> field holds: the order has the parser's stages and
  one enriched line per item, so stage decoding failures never reach the user.
\<close>

theorem queryFn_absorbs_parse_failures:
  assumes "row_user_id r = u" and "parse_items (row_items r) = Inr xs"
    and "list_all (\<lambda>x. x \<noteq> JNull) xs"
  shows "\<exists>od. queryFn (Some oid) True (Some u) (DbData (Some r)) cat = Inr od \<and>
              stages od = fst (parse_stages (row_stages r) (row_created_at r)) \<and>
              length (items od) = length xs"
proof -
  obtain its where "enrich_items cat xs = Inr its" and "length its = length xs"
    using enrich_items_ok[OF assms(3)] by blast
  with assms(1,2) show ?thesis by (simp add: queryFn_loads)
qed

theorem queryFn_absorbs_parse_failures_witness:
  "row_user_id (sample_row\<lparr>row_stages := SUnparsable\<rparr>) = ''u1'' \<and>
   parse_items (row_items (sample_row\<lparr>row_stages := SUnparsable\<rparr>)) = Inr [] \<and>
   list_all (\<lambda>x. x \<noteq> JNull) [] \<and>
   (\<exists>od. queryFn (Some ''o1'') True (Some ''u1'') (DbData (Some (sample_row\<lparr>row_stages := SUnparsable\<rparr>))) empty_catalog = Inr od \<and>
         stages od = fst (parse_stages (row_stages (sample_row\<lparr>row_stages := SUnparsable\<rparr>))
                                       (row_created_at (sample_row\<lparr>row_stages := SUnparsable\<rparr>))) \<and>
         length (items od) = length ([] :: json list))"
proof -
  have h: "row_user_id (sample_row\<lparr>row_stages := SUnparsable\<rparr>) = ''u1''"
    "parse_items (row_items (sample_row\<lparr>row_stages := SUnparsable\<rparr>)) = Inr []"
    "list_all (\<lambda>x. x \<noteq> JNull) ([] :: json list)"
    by (simp_all add: sample_row_def)
  from queryFn_absorbs_parse_failures[OF h, of "''o1''" empty_catalog] h show ?thesis by blast
qed

text \<open>
  Divergence: a \<open>null\<close> entry in the decoded items makes \<open>item.size\<close> raise
  outside any \<open>try\<close>, so the whole query fails and the page shows an error instead
  of absorbing the malformed item.
\<close>

theorem queryFn_null_item_fails:
  assumes "row_user_id r = u" and "parse_items (row_items r) = Inr xs" and "JNull \<in> set xs"
  shows "queryFn (Some oid) True (Some u) (DbData (Some r)) cat = Inl (Thrown TypeError)"
proof -
  have "enrich_items cat xs = Inl TypeError" using assms(3)
  proof (induction xs)
    case (Cons x xs)
    then show ?case
      by (cases "x = JNull") (auto simp: enrich_item_def Let_def dest: enrich_item_ok)
  qed simp
  with assms(1,2) show ?thesis by (simp add: queryFn_def)
qed

text \<open>
  C28. The error branches of the query, in the code's order: no order id, no
  session, no user, a storage error, no row, and a row of another user, which is
  reported as \<open>Access denied\<close>, distinct from a missing order.
\<close>

theorem queryFn_errors:
  assumes "row_user_id r \<noteq> u"
  shows "queryFn None sess usr resp cat = Inl NoOrderId \<and>
         queryFn (Some oid) False usr resp cat = Inl SignIn \<and>
         queryFn (Some oid) True None resp cat = Inl NotAuthenticated \<and>
         queryFn (Some oid) True (Some u) (DbError m) cat = Inl (StoreError m) \<and>
         queryFn (Some oid) True (Some u) (DbData None) cat = Inl OrderNotFound \<and>
         queryFn (Some oid) True (Some u) (DbData (Some r)) cat = Inl AccessDenied"
  using assms by (simp add: queryFn_def)

theorem queryFn_errors_witness:
  "row_user_id sample_row \<noteq> ''u2'' \<and>
   (queryFn None True (Some ''u2'') (DbData None) empty_catalog = Inl NoOrderId \<and>
    queryFn (Some ''o1'') False (Some ''u2'') (DbData None) empty_catalog = Inl SignIn \<and>
    queryFn (Some ''o1'') True None (DbData None) empty_catalog = Inl NotAuthenticated \<and>
    queryFn (Some ''o1'') True (Some ''u2'') (DbError ''e'') empty_catalog = Inl (StoreError ''e'') \<and>
    queryFn (Some ''o1'') True (Some ''u2'') (DbData None) empty_catalog = Inl OrderNotFound \<and>
    queryFn (Some ''o1'') True (Some ''u2'') (DbData (Some sample_row)) empty_catalog = Inl AccessDenied)"
proof -
  have h: "row_user_id sample_row \<noteq> ''u2''" by (simp add: sample_row_def)
  from queryFn_errors[OF h] h show ?thesis by blast
qed

theorem queryFn_null_item_fails_witness:
  "row_user_id (sample_row\<lparr>row_items := SJson (JArr [JNull])\<rparr>) = ''u1'' \<and>
   parse_items (row_items (sample_row\<lparr>row_items := SJson (JArr [JNull])\<rparr>)) = Inr [JNull] \<and>
   JNull \<in> set [JNull] \<and>
   queryFn (Some ''o1'') True (Some ''u1'') (DbData (Some (sample_row\<lparr>row_items := SJson (JArr [JNull])\<rparr>)))
     empty_catalog = Inl (Thrown TypeError)"
proof -
  have h: "row_user_id (sample_row\<lparr>row_items := SJson (JArr [JNull])\<rparr>) = ''u1''"
    "parse_items (row_items (sample_row\<lparr>row_items := SJson (JArr [JNull])\<rparr>)) = Inr [JNull]"
    "JNull \<in> set [JNull]"
    by (simp_all add: sample_row_def parse_items_def json_parse_field_def)
  from queryFn_null_item_fails[OF h] h show ?thesis by blast
qed

end
