(* ===== verification/Account.thy ===== *)
theory Account
  imports Prelude "HOL-Library.Sublist"
begin

text \<open>
  Authentication state and the account page. \<open>AuthProvider\<close> of
  \<open>src/src/contexts/AuthContext.tsx\<close> (lines 25--85) keeps the session and a loading
  flag, fed by the initial \<open>getSession()\<close> and by auth state change events; it
  provides \<open>signUp\<close>, \<open>signIn\<close> and \<open>signOut\<close> only. \<open>src/src/pages/Account.tsx\<close> holds
  the sign-in/sign-up form with its validations (lines 45--139) and the saved
  delivery addresses (lines 141--166), persisted to local storage and read back by
  the checkout page (theory \<open>Checkout\<close>). The outcome of a call to the
  authentication service is an input: \<open>None\<close> when it succeeds, \<open>Some m\<close> when
  it throws an error with message \<open>m\<close>. The page calls \<open>supabase.auth\<close> without
  importing \<open>supabase\<close> and calls \<open>signInWithGoogle\<close>, which the context does not
  provide: both are modelled as what they are at run time.
\<close>

subsection \<open>The authentication provider\<close>

record session =
  se_user_id :: string
  se_email :: string
  se_role :: "string option"

record auth_provider =
  ap_session :: "session option"
  ap_loading :: bool
  ap_initial :: bool

datatype auth_event =
    GetSessionResolved "session option"
  | GetSessionFailed
  | AuthStateChange "session option"

definition auth_init :: auth_provider where
  "auth_init = \<lparr>ap_session = None, ap_loading = True, ap_initial = True\<rparr>"

text \<open>Lines 31--50: \<open>getSession().then(setSession).finally(...)\<close> and the
  \<open>onAuthStateChange\<close> callback, which clears loading only on the initial load.\<close>

fun auth_step :: "auth_provider \<Rightarrow> auth_event \<Rightarrow> auth_provider" where
  "auth_step st (GetSessionResolved s) = st\<lparr>ap_session := s, ap_loading := False, ap_initial := False\<rparr>"
| "auth_step st GetSessionFailed = st\<lparr>ap_loading := False, ap_initial := False\<rparr>"
| "auth_step st (AuthStateChange s) =
     (if ap_initial st then st\<lparr>ap_session := s, ap_loading := False, ap_initial := False\<rparr>
      else st\<lparr>ap_session := s\<rparr>)"

definition auth_run :: "auth_event list \<Rightarrow> auth_provider" where
  "auth_run es = foldl auth_step auth_init es"

text \<open>\<open>isAdmin = session?.user?.user_metadata?.role === 'admin'\<close>; \<open>user\<close> is the
  session's user.\<close>

definition isAdmin :: "auth_provider \<Rightarrow> bool" where
  "isAdmin st \<longleftrightarrow> (case ap_session st of None \<Rightarrow> False | Some s \<Rightarrow> se_role s = Some ''admin'')"

definition auth_user :: "auth_provider \<Rightarrow> string option" where
  "auth_user st = map_option se_user_id (ap_session st)"

text \<open>\<open>signUp\<close>, \<open>signIn\<close> and \<open>signOut\<close> of the provider (lines 53--66): each awaits
  its call to the authentication service and throws the error it answers with.\<close>

definition auth_call :: "string option \<Rightarrow> string + unit" where
  "auth_call err = (case err of Some m \<Rightarrow> Inl m | None \<Rightarrow> Inr ())"

text \<open>\<open>useAuth\<close> (lines 84--91): the context, or an error outside the provider.\<close>

definition useAuth :: "'a option \<Rightarrow> string + 'a" where
  "useAuth ctx = (case ctx of None \<Rightarrow> Inl ''useAuth must be used within an AuthProvider'' | Some c \<Rightarrow> Inr c)"

subsection \<open>The sign-in and sign-up form\<close>

record auth_form =
  af_email :: string
  af_password :: string
  af_confirm :: string

datatype auth_mode = SignInMode | SignUpMode

record account_auth =
  au_form :: auth_form
  au_error :: string
  au_otp_sent :: bool
  au_mode :: auth_mode
  au_alerts :: "string list"

text \<open>The identifier \<open>supabase\<close> as \<open>Account.tsx\<close> sees it: it is not imported
  (\<open>Unbound\<close>); a bound client would return the outcome of the call.\<close>

datatype otp_client = Unbound | Bound "string option"

definition account_client :: otp_client where
  "account_client = Unbound"

definition empty_form :: auth_form where
  "empty_form = \<lparr>af_email = [], af_password = [], af_confirm = []\<rparr>"

text \<open>\<open>error.message || fallback\<close>\<close>

definition msg_or :: "string \<Rightarrow> string \<Rightarrow> string" where
  "msg_or m d = (if m = [] then d else m)"

text \<open>
  \<open>sendOtp\<close> (lines 45--61). \<open>signInWithOtp\<close> reports failure in its result, which
  the code ignores, so a bound client always leads to the confirmation alert;
  the unbound identifier raises a \<open>ReferenceError\<close>, caught.
\<close>

definition sendOtp :: "otp_client \<Rightarrow> account_auth \<Rightarrow> account_auth" where
  "sendOtp cl st =
     (if af_email (au_form st) = [] then st\<lparr>au_error := ''Please enter your email.''\<rparr>
      else (case cl of
              Unbound \<Rightarrow> st\<lparr>au_error := ''supabase is not defined''\<rparr>
            | Bound r \<Rightarrow>
                st\<lparr>au_otp_sent := True, au_error := [],
                   au_alerts := au_alerts st @
                     [''Confirmation code sent to your email. Check your inbox (and spam folder).'']\<rparr>))"

text \<open>\<open>handleSignIn\<close> (lines 63--84): \<open>res\<close> is the outcome of \<open>signIn\<close>, \<open>resend\<close>
  the answer to the \<open>confirm\<close> dialog.\<close>

definition handleSignIn ::
  "string option \<Rightarrow> bool \<Rightarrow> otp_client \<Rightarrow> account_auth \<Rightarrow> account_auth \<times> (string \<times> string) option" where
  "handleSignIn res resend cl st =
     (let f = au_form st in
      if af_email f = [] \<or> af_password f = [] then (st\<lparr>au_error := ''Please fill in all fields.''\<rparr>, None)
      else
        (let call = Some (af_email f, af_password f) in
         case res of
           None \<Rightarrow> (st\<lparr>au_form := empty_form, au_otp_sent := False\<rparr>, call)
         | Some m \<Rightarrow>
             if sublist ''Email not confirmed'' m
             then (let st' = st\<lparr>au_error := ''Email not confirmed. Resend confirmation?''\<rparr> in
                   (if resend then sendOtp cl st' else st', call))
             else (st\<lparr>au_error := msg_or m ''Sign in failed. Please try again.''\<rparr>, call)))"

text \<open>\<open>handleSignUp\<close> (lines 86--110); the result names the call made to \<open>signUp\<close>.\<close>

definition handleSignUp ::
  "string option \<Rightarrow> account_auth \<Rightarrow> account_auth \<times> (string \<times> string) option" where
  "handleSignUp res st =
     (let f = au_form st in
      if af_email f = [] \<or> af_password f = [] \<or> af_confirm f = []
      then (st\<lparr>au_error := ''Please fill in all fields.''\<rparr>, None)
      else if af_password f \<noteq> af_confirm f then (st\<lparr>au_error := ''Passwords do not match.''\<rparr>, None)
      else if length (af_password f) < 6
      then (st\<lparr>au_error := ''Password must be at least 6 characters.''\<rparr>, None)
      else
        (let call = Some (af_email f, af_password f) in
         case res of
           None \<Rightarrow>
             (st\<lparr>au_alerts := au_alerts st @
                   [''Account created! Confirmation code sent to your email. Enter it below to verify.''],
                 au_otp_sent := True,
                 au_form := \<lparr>af_email = af_email f, af_password = [], af_confirm = []\<rparr>\<rparr>, call)
         | Some m \<Rightarrow> (st\<lparr>au_error := msg_or m ''Account creation failed. Please try again.''\<rparr>, call)))"

text \<open>\<open>verifyOtp\<close> (lines 112--128): \<open>otp\<close> is the answer to the prompt (\<open>None\<close> when
  cancelled).\<close>

definition verifyOtp :: "otp_client \<Rightarrow> string option \<Rightarrow> account_auth \<Rightarrow> account_auth" where
  "verifyOtp cl otp st =
     (case otp of
        None \<Rightarrow> st\<lparr>au_error := ''Invalid OTP code.''\<rparr>
      | Some c \<Rightarrow>
          if c = [] \<or> length c \<noteq> 6 then st\<lparr>au_error := ''Invalid OTP code.''\<rparr>
          else (case cl of
                  Unbound \<Rightarrow> st\<lparr>au_error := ''supabase is not defined''\<rparr>
                | Bound None \<Rightarrow>
                    st\<lparr>au_alerts := au_alerts st @ [''Account verified! You can now sign in.''],
                       au_otp_sent := False, au_mode := SignInMode\<rparr>
                | Bound (Some m) \<Rightarrow> st\<lparr>au_error := msg_or m ''OTP verification failed.''\<rparr>))"

text \<open>\<open>handleGoogleAuth\<close> (lines 134--140): \<open>signInWithGoogle\<close> is \<open>undefined\<close>.\<close>

definition handleGoogleAuth :: "account_auth \<Rightarrow> account_auth" where
  "handleGoogleAuth st = st\<lparr>au_error := ''signInWithGoogle is not a function''\<rparr>"

subsection \<open>Saved delivery addresses\<close>

record saved_address =
  sa_id :: string
  sa_label :: string
  sa_fullAddress :: string
  sa_isDefault :: bool

text \<open>\<open>addAddress\<close> (lines 142--156): \<open>now\<close> is \<open>Date.now()\<close>; the form is shown
  only with a session and the handler also needs a user.\<close>

definition addAddress :: "bool \<Rightarrow> nat \<Rightarrow> string \<Rightarrow> string \<Rightarrow> saved_address list \<Rightarrow> saved_address list" where
  "addAddress has_user now label full xs =
     (if label \<noteq> [] \<and> full \<noteq> [] \<and> has_user
      then xs @ [\<lparr>sa_id = nat_str now, sa_label = label, sa_fullAddress = full, sa_isDefault = (xs = [])\<rparr>]
      else xs)"

definition setDefaultAddress :: "string \<Rightarrow> saved_address list \<Rightarrow> saved_address list" where
  "setDefaultAddress i xs = map (\<lambda>a. a\<lparr>sa_isDefault := (sa_id a = i)\<rparr>) xs"

definition deleteAddress :: "string \<Rightarrow> saved_address list \<Rightarrow> saved_address list" where
  "deleteAddress i xs = filter (\<lambda>a. sa_id a \<noteq> i) xs"

datatype address_action =
    AddAddress nat string string
  | SetDefault string
  | DeleteAddress string

fun address_step :: "bool \<Rightarrow> saved_address list \<Rightarrow> address_action \<Rightarrow> saved_address list" where
  "address_step u xs (AddAddress now l f) = addAddress u now l f xs"
| "address_step u xs (SetDefault i) = setDefaultAddress i xs"
| "address_step u xs (DeleteAddress i) = deleteAddress i xs"

definition address_run :: "bool \<Rightarrow> saved_address list \<Rightarrow> address_action list \<Rightarrow> saved_address list" where
  "address_run u = foldl (address_step u)"

text \<open>The clock readings of the additions, in order.\<close>

fun add_times :: "address_action list \<Rightarrow> nat list" where
  "add_times [] = []"
| "add_times (AddAddress t l f # as) = t # add_times as"
| "add_times (a # as) = add_times as"

definition one_default :: "saved_address list \<Rightarrow> bool" where
  "one_default xs \<longleftrightarrow> length (filter sa_isDefault xs) \<le> 1"

text \<open>The invariant of the address book: at most one default, distinct ids, and
  every id the numeral of a clock reading before every later addition.\<close>

definition book_inv :: "nat list \<Rightarrow> saved_address list \<Rightarrow> bool" where
  "book_inv ts xs \<longleftrightarrow> one_default xs \<and> distinct (map sa_id xs) \<and>
     (\<forall>a\<in>set xs. \<exists>t. sa_id a = nat_str t \<and> (\<forall>t'\<in>set ts. t < t'))"

subsection \<open>Lemmas\<close>

lemma filter_id_le_1:
  "distinct (map f xs) \<Longrightarrow> length (filter (\<lambda>a. f a = i) xs) \<le> 1"
proof (induction xs)
  case Nil
  then show ?case by simp
next
  case (Cons x xs)
  then show ?case
    by (cases "f x = i") (auto simp: filter_empty_conv image_iff)
qed

lemma length_filter_filter_le: "length (filter P (filter Q xs)) \<le> length (filter P xs)"
  by (induction xs) auto

lemma book_inv_step:
  assumes "book_inv (add_times (a # as)) xs" and "sorted_wrt (<) (add_times (a # as))"
  shows "book_inv (add_times as) (address_step u xs a)"
proof (cases a)
  case (AddAddress now l f)
  have old: "\<forall>b\<in>set xs. \<exists>t. sa_id b = nat_str t \<and> t < now \<and> (\<forall>t'\<in>set (add_times as). t < t')"
    using assms(1) AddAddress by (auto simp: book_inv_def)
  then have fresh: "nat_str now \<notin> sa_id ` set xs" by fastforce
  have later: "\<forall>t'\<in>set (add_times as). now < t'" using assms(2) AddAddress by simp
  show ?thesis
  proof (cases "l \<noteq> [] \<and> f \<noteq> [] \<and> u")
    case True
    have "one_default (addAddress u now l f xs)"
      using assms(1) True by (auto simp: book_inv_def one_default_def addAddress_def)
    with True fresh old later assms(1) AddAddress show ?thesis
      by (auto simp: book_inv_def addAddress_def)
  next
    case False
    with old AddAddress assms(1) show ?thesis by (auto simp: book_inv_def addAddress_def)
  qed
next
  case (SetDefault i)
  have "distinct (map sa_id xs)" using assms(1) by (simp add: book_inv_def)
  then have "length (filter (\<lambda>b. sa_id b = i) xs) \<le> 1" by (rule filter_id_le_1)
  then have "one_default (setDefaultAddress i xs)"
    by (simp add: one_default_def setDefaultAddress_def filter_map comp_def)
  with assms(1) SetDefault show ?thesis
    by (auto simp: book_inv_def setDefaultAddress_def comp_def)
next
  case (DeleteAddress i)
  have "length (filter sa_isDefault (deleteAddress i xs)) \<le> length (filter sa_isDefault xs)"
    by (simp only: deleteAddress_def length_filter_filter_le)
  with assms(1) DeleteAddress show ?thesis
    by (auto simp: book_inv_def deleteAddress_def one_default_def distinct_map_filter)
qed


lemma book_inv_run:
  "book_inv (add_times as) xs \<Longrightarrow> sorted_wrt (<) (add_times as) \<Longrightarrow>
   book_inv [] (address_run u xs as)"
proof (induction as arbitrary: xs)
  case Nil
  then show ?case by (simp add: address_run_def book_inv_def)
next
  case (Cons a as)
  have "book_inv (add_times as) (address_step u xs a)" using Cons.prems by (rule book_inv_step)
  moreover have "sorted_wrt (<) (add_times as)" using Cons.prems(2) by (cases a) simp_all
  ultimately show ?case using Cons.IH by (simp add: address_run_def)
qed

text \<open>
  C36. Invariant of the address book: from an empty book, through any additions
  (with a clock that increases between them), choices of the default and
  deletions, the ids stay distinct and at most one address is the default.
\<close>

theorem address_book_one_default:
  assumes "sorted_wrt (<) (add_times as)"
  shows "one_default (address_run u [] as) \<and> distinct (map sa_id (address_run u [] as))"
proof -
  have "book_inv (add_times as) []" by (simp add: book_inv_def one_default_def)
  from book_inv_run[OF this assms] show ?thesis by (simp add: book_inv_def)
qed

theorem address_book_one_default_witness:
  "sorted_wrt (<) (add_times [AddAddress 5 ''Home'' ''Plot 7'', AddAddress 9 ''Farm'' ''Limuru'', SetDefault (nat_str 9)]) \<and>
   one_default (address_run True [] [AddAddress 5 ''Home'' ''Plot 7'', AddAddress 9 ''Farm'' ''Limuru'', SetDefault (nat_str 9)]) \<and>
   distinct (map sa_id (address_run True [] [AddAddress 5 ''Home'' ''Plot 7'', AddAddress 9 ''Farm'' ''Limuru'', SetDefault (nat_str 9)]))"
proof -
  have h: "sorted_wrt (<) (add_times [AddAddress 5 ''Home'' ''Plot 7'', AddAddress 9 ''Farm'' ''Limuru'', SetDefault (nat_str 9)])"
    by simp
  from address_book_one_default[OF h] h show ?thesis by blast
qed

text \<open>
  The account page's one-time-code flow cannot complete: \<open>supabase\<close> is not
  imported, so \<open>sendOtp\<close> and \<open>verifyOtp\<close> only ever set an error, never the
  confirmation alerts or the code flag, and the Google button always fails because
  the authentication context provides no \<open>signInWithGoogle\<close>.
\<close>

theorem account_otp_flow_dead:
  "au_otp_sent (verifyOtp account_client otp st) = au_otp_sent st \<and>
   au_alerts (verifyOtp account_client otp st) = au_alerts st \<and>
   au_otp_sent (sendOtp account_client st) = au_otp_sent st \<and>
   au_alerts (sendOtp account_client st) = au_alerts st \<and>
   au_error (handleGoogleAuth st) = ''signInWithGoogle is not a function''"
  by (simp add: verifyOtp_def sendOtp_def account_client_def handleGoogleAuth_def split: option.split)

end
