(* ===== verification/Checkout.thy ===== *)
theory Checkout
  imports Cart Account Sync
begin

text \<open>
  The checkout page of \<open>src/src/pages/Checkout.tsx\<close> (lines 33--311): the
  delivery form with the saved addresses written by the account page, the
  \<open>SAVE10\<close> discount applied by the Paste button, the order summary, and
  \<open>handlePlaceOrder\<close>, which inserts the order row that the tracking page reads
  (theory \<open>Sync\<close>). The storage answers (the insert, with the new order's id and
  creation time) and the browser dialogs are inputs. The row's \<open>items\<close> are
  written as a native array of objects (\<open>stored.SObjArray\<close>) and its \<open>stages\<close> as
  the text of the legacy delivery record (\<open>delivery_stages_json\<close>).
\<close>

record checkout_state =
  co_address :: string
  co_instructions :: string
  co_saved :: "saved_address list"
  co_selected :: string
  co_code :: string
  co_discount :: money
  co_placing :: bool

definition checkout_init :: checkout_state where
  "checkout_init = \<lparr>co_address = [], co_instructions = [], co_saved = [], co_selected = [],
                    co_code = [], co_discount = 0, co_placing = False\<rparr>"

subsection \<open>Saved addresses and the delivery form\<close>

text \<open>Lines 45--53: the saved addresses are read from local storage when there is
  a session.\<close>

definition loadSaved :: "bool \<Rightarrow> saved_address list option \<Rightarrow> checkout_state \<Rightarrow> checkout_state" where
  "loadSaved session stored st =
     (case stored of
        Some xs \<Rightarrow> if session then st\<lparr>co_saved := xs\<rparr> else st
      | None \<Rightarrow> st)"

text \<open>Lines 56--64: fill the address from the default saved address while the
  address is empty.\<close>

definition autofill :: "checkout_state \<Rightarrow> checkout_state" where
  "autofill st =
     (if co_saved st \<noteq> [] \<and> co_address st = []
      then (case find sa_isDefault (co_saved st) of
              Some d \<Rightarrow> st\<lparr>co_selected := sa_id d, co_address := sa_fullAddress d\<rparr>
            | None \<Rightarrow> st)
      else st)"

definition handleAddressSelect :: "string \<Rightarrow> checkout_state \<Rightarrow> checkout_state" where
  "handleAddressSelect i st =
     (case find (\<lambda>a. sa_id a = i) (co_saved st) of
        Some a \<Rightarrow> st\<lparr>co_selected := i, co_address := sa_fullAddress a\<rparr>
      | None \<Rightarrow> st\<lparr>co_selected := i\<rparr>)"

datatype form_field = AddressField | InstructionsField

definition handleInputChange :: "form_field \<Rightarrow> string \<Rightarrow> checkout_state \<Rightarrow> checkout_state" where
  "handleInputChange f v st =
     (case f of AddressField \<Rightarrow> st\<lparr>co_address := v\<rparr> | InstructionsField \<Rightarrow> st\<lparr>co_instructions := v\<rparr>)"

subsection \<open>The discount code\<close>

text \<open>Typing in the code field (line 274) only sets the code.\<close>

definition typeCode :: "string \<Rightarrow> checkout_state \<Rightarrow> checkout_state" where
  "typeCode v st = st\<lparr>co_code := v\<rparr>"

text \<open>\<open>handlePaste\<close> (lines 93--110): \<open>clip\<close> is the clipboard text, \<open>None\<close> when
  the clipboard cannot be read.\<close>

definition handlePaste :: "money \<Rightarrow> string option \<Rightarrow> checkout_state \<Rightarrow> checkout_state" where
  "handlePaste sub clip st =
     (case clip of
        None \<Rightarrow> st
      | Some text \<Rightarrow>
          (let code = js_trim text in
           st\<lparr>co_code := code, co_discount := (if code = ''SAVE10'' then sub * (1 / 10) else 0)\<rparr>))"

definition discountedTotal :: "money \<Rightarrow> checkout_state \<Rightarrow> money" where
  "discountedTotal sub st = sub - co_discount st"

text \<open>The code field over time: typing (line 274) and the Paste button (lines
  93--110), at the subtotal of the cart, which the page cannot change.\<close>

datatype code_event = TypeCode string | PasteCode "string option"

fun code_step :: "money \<Rightarrow> checkout_state \<Rightarrow> code_event \<Rightarrow> checkout_state" where
  "code_step sub st (TypeCode v) = typeCode v st"
| "code_step sub st (PasteCode clip) = handlePaste sub clip st"

definition code_run :: "money \<Rightarrow> checkout_state \<Rightarrow> code_event list \<Rightarrow> checkout_state" where
  "code_run sub = foldl (code_step sub)"

subsection \<open>Placing the order\<close>

text \<open>One element of \<open>orderItems\<close> (lines 131--136); \<open>undefined\<close> fields are dropped
  when the array is serialised.\<close>

definition order_item_obj :: "cart_item \<Rightarrow> (string \<times> json) list" where
  "order_item_obj it =
     [(''product_id'', JStr (item_id it))] @
     (case variant_id it of Some v \<Rightarrow> [(''variant_id'', JStr v)] | None \<Rightarrow> []) @
     (case item_size it of Some z \<Rightarrow> [(''size'', JStr z)] | None \<Rightarrow> []) @
     [(''quantity'', JNum (of_int (quantity it)))]"

text \<open>The row inserted at lines 143--151; the store adds the id and \<open>created_at\<close>.\<close>

definition checkout_row :: "string \<Rightarrow> cart_item list \<Rightarrow> money \<Rightarrow> checkout_state \<Rightarrow> json \<Rightarrow> order_row" where
  "checkout_row u cart sub st created =
     \<lparr>row_user_id = u, row_items = SObjArray (map order_item_obj cart),
      row_total_price = JNum (discountedTotal sub st),
      row_status = JStr ''Order Placed (Making Order)'',
      row_stages = SJson (delivery_stages_json (co_address st) (co_instructions st)),
      row_created_at = created\<rparr>"

datatype insert_result = InsertError string | Inserted string json

datatype checkout_effect =
    CAlert string
  | CSignUp string string
  | CNotify string string
  | CClearCart
  | CNavigate string

text \<open>
  The part of \<open>handlePlaceOrder\<close> after the sign-in check (lines 129--172):
  \<open>usr\<close> is the user of the render the handler belongs to, \<open>ins\<close> the answer to
  the insert, \<open>effs\<close> the effects so far. The result is the new page state, the
  orders table and the effects in order.
\<close>

definition place_order ::
  "string option \<Rightarrow> insert_result \<Rightarrow> cart_item list \<Rightarrow> checkout_state \<Rightarrow> orders_table \<Rightarrow>
   checkout_effect list \<Rightarrow> checkout_state \<times> orders_table \<times> checkout_effect list" where
  "place_order usr ins cart st tbl effs =
     (let sub = subtotal cart in
      case usr of
        Some u \<Rightarrow>
          if co_address st \<noteq> [] then
            (case ins of
               InsertError m \<Rightarrow>
                 (st\<lparr>co_placing := False\<rparr>, tbl, effs @ [CAlert (''Order creation failed: '' @ m)])
             | Inserted oid created \<Rightarrow>
                 (st\<lparr>co_placing := False\<rparr>, tbl(oid \<mapsto> checkout_row u cart sub st created),
                  effs @ [CNotify u (''Your order #'' @ short_id oid @
                            '' has been placed successfully. Call 0725600710 to complete payment.''),
                          CAlert (''Order placed! Call 0725600710. Order ID: '' @ short_id oid),
                          CClearCart, CNavigate ''/orders'']))
          else (st\<lparr>co_placing := False\<rparr>, tbl, effs)
      | None \<Rightarrow> (st\<lparr>co_placing := False\<rparr>, tbl, effs))"

text \<open>
  \<open>handlePlaceOrder\<close> (lines 114--173). Without a session the two \<open>prompt\<close>
  answers (\<open>None\<close> when cancelled) are passed to \<open>signUp\<close>, whose outcome is
  \<open>signup\<close>; a sign-up does not change the user of the running handler.
\<close>

definition handlePlaceOrder ::
  "bool \<Rightarrow> string option \<Rightarrow> (string option \<times> string option) \<Rightarrow> string option \<Rightarrow> insert_result \<Rightarrow>
   cart_item list \<Rightarrow> checkout_state \<Rightarrow> orders_table \<Rightarrow>
   checkout_state \<times> orders_table \<times> checkout_effect list" where
  "handlePlaceOrder session usr prompts signup ins cart st tbl =
     (if session then place_order usr ins cart st tbl []
      else (case prompts of
              (Some e, Some p) \<Rightarrow>
                if e \<noteq> [] \<and> p \<noteq> [] then
                  (case signup of
                     Some m \<Rightarrow> (st, tbl, [CSignUp e p, CAlert ''Account creation failed''])
                   | None \<Rightarrow> place_order usr ins cart st tbl [CSignUp e p])
                else (st, tbl, [])
            | _ \<Rightarrow> (st, tbl, [])))"

subsection \<open>The page\<close>

record checkout_view =
  cv_lines :: "(string \<times> string option \<times> int \<times> money) list"
  cv_total :: money
  cv_discount_line :: "money option"
  cv_signin_notice :: bool
  cv_saved_select :: bool
  cv_place_disabled :: bool
  cv_place_label :: "money option"

text \<open>Lines 175--308: one summary line per cart item with its \<open>lineTotal\<close>, the
  total, the discount line when positive, the sign-in notice, the saved-address
  select, and the Place Order button (its label shows the total unless an order
  is being placed).\<close>

definition checkout_view :: "bool \<Rightarrow> cart_item list \<Rightarrow> checkout_state \<Rightarrow> checkout_view" where
  "checkout_view session cart st =
     (let sub = subtotal cart; total = discountedTotal sub st in
      \<lparr>cv_lines = map (\<lambda>it. (item_name it, item_size it, quantity it, lineTotal it)) cart,
       cv_total = total,
       cv_discount_line = (if 0 < co_discount st then Some (co_discount st) else None),
       cv_signin_notice = (\<not> session),
       cv_saved_select = (session \<and> co_saved st \<noteq> []),
       cv_place_disabled = (co_placing st \<or> co_address st = [] \<or> sub = 0),
       cv_place_label = (if co_placing st then None else Some total)\<rparr>)"

subsection \<open>Lemmas\<close>

lemma place_order_inserted:
  assumes "co_address st \<noteq> []"
  shows "fst (snd (place_order (Some u) (Inserted oid created) cart st tbl effs)) =
         tbl(oid \<mapsto> checkout_row u cart (subtotal cart) st created)"
  using assms by (simp add: place_order_def Let_def)

lemma place_order_no_user [simp]:
  "place_order None ins cart st tbl effs = (st\<lparr>co_placing := False\<rparr>, tbl, effs)"
  by (simp add: place_order_def)

text \<open>
  The \<open>SAVE10\<close> code takes effect only through the Paste button: pasting a
  text that trims to \<open>SAVE10\<close> takes 10\% off the subtotal, while typing the same
  text into the code field leaves the total as it was.
\<close>

theorem discount_only_by_paste:
  assumes "js_trim t = ''SAVE10''"
  shows "discountedTotal sub (handlePaste sub (Some t) st) = sub * (9 / 10) \<and>
         discountedTotal sub (typeCode t st) = discountedTotal sub st"
  using assms by (simp add: handlePaste_def discountedTotal_def typeCode_def)

theorem discount_only_by_paste_witness:
  "js_trim '' SAVE10 '' = ''SAVE10'' \<and>
   discountedTotal 1000 (handlePaste 1000 (Some '' SAVE10 '') checkout_init) = 1000 * (9 / 10) \<and>
   discountedTotal 1000 (typeCode '' SAVE10 '' checkout_init) = discountedTotal 1000 checkout_init"
proof -
  have h: "js_trim '' SAVE10 '' = ''SAVE10''" by (simp add: js_trim_def js_space_def)
  from discount_only_by_paste[OF h] h show ?thesis by blast
qed

lemma code_run_discount:
  "co_discount st = 0 \<or> co_discount st = sub * (1 / 10) \<Longrightarrow>
   co_discount (code_run sub st evs) = 0 \<or> co_discount (code_run sub st evs) = sub * (1 / 10)"
proof (induction evs arbitrary: st)
  case Nil then show ?case by (simp add: code_run_def)
next
  case (Cons e evs)
  have "co_discount (code_step sub st e) = 0 \<or> co_discount (code_step sub st e) = sub * (1 / 10)"
    using Cons.prems by (cases e) (auto simp: typeCode_def handlePaste_def Let_def split: option.split)
  then show ?case using Cons.IH by (simp add: code_run_def)
qed

text \<open>
  C13. Bounds of the total written to the order: whatever is typed or pasted into
  the code field, an order placed from a cart with a non-negative subtotal
  carries a total between 90\% of the subtotal and the subtotal, so the discount
  never exceeds 10\% and the total is never negative.
\<close>

theorem placed_total_bounds:
  assumes "0 \<le> subtotal cart" and "co_discount st = 0"
  shows "\<exists>t. row_total_price (checkout_row u cart (subtotal cart) (code_run (subtotal cart) st evs) created) = JNum t \<and>
             subtotal cart * (9 / 10) \<le> t \<and> t \<le> subtotal cart"
proof -
  have "co_discount (code_run (subtotal cart) st evs) = 0 \<or>
        co_discount (code_run (subtotal cart) st evs) = subtotal cart * (1 / 10)"
    using assms(2) by (intro code_run_discount) simp
  then show ?thesis using assms(1) by (auto simp: checkout_row_def discountedTotal_def)
qed

theorem placed_total_bounds_witness:
  "0 \<le> subtotal [sample_bulk_item] \<and> co_discount checkout_init = 0 \<and>
   (\<exists>t. row_total_price (checkout_row ''u1'' [sample_bulk_item] (subtotal [sample_bulk_item])
          (code_run (subtotal [sample_bulk_item]) checkout_init [PasteCode (Some '' SAVE10 ''), TypeCode ''X'']) (JStr ''t0''))
        = JNum t \<and> subtotal [sample_bulk_item] * (9 / 10) \<le> t \<and> t \<le> subtotal [sample_bulk_item])"
proof -
  have h: "0 \<le> subtotal [sample_bulk_item]" "co_discount checkout_init = 0"
    by (simp_all add: subtotal_def getUnitPrice_def sample_bulk_item_def checkout_init_def)
  from placed_total_bounds[OF h] h show ?thesis by blast
qed

end
