(* ===== verification/Product.thy ===== *)
theory Product
  imports Cart PriceText Json
begin

text \<open>
  The product page of \<open>src/src/pages/ProductDetail.tsx\<close>: the catalogue rows it
  reads (\<open>products\<close>, \<open>product_variants\<close>, \<open>reviews\<close>), its state (quantity,
  selected size and variant, the review form), the size selector, the price shown
  and the price put in the cart (theory \<open>PriceText\<close>), \<open>handleAddToCart\<close>, which
  dispatches \<open>ADD_ITEM\<close> to the cart of theory \<open>Cart\<close> with the product's tiers
  read through \<open>parsePriceToNumber\<close>, the review form with its mutation, and the
  page as rendered. Prices and tier prices come from the store as numbers or
  texts (\<open>price_value\<close>).
\<close>

record product_rec =
  prod_id :: string
  prod_name :: string
  prod_description :: string
  prod_price :: price_value
  prod_benefits :: "string option"
  prod_image :: "string option"
  prod_tiers :: "(int \<times> price_value) list option"

record variant_rec =
  var_id :: string
  var_product_id :: string
  var_size :: string
  var_price :: price_value
  var_stock :: int

record review_row =
  rv_product_id :: string
  rv_user_id :: string
  rv_comment :: string
  rv_rating :: int

record pd_state =
  pd_quantity :: int
  pd_size :: string
  pd_variant :: string
  pd_comment :: string
  pd_rating :: int
  pd_review_error :: string

definition pd_init :: pd_state where
  "pd_init = \<lparr>pd_quantity = 1, pd_size = [], pd_variant = [], pd_comment = [], pd_rating = 5,
              pd_review_error = []\<rparr>"

subsection \<open>Quantity, size and price\<close>

definition handleQuantityChange :: "int \<Rightarrow> pd_state \<Rightarrow> pd_state" where
  "handleQuantityChange delta st = st\<lparr>pd_quantity := max 1 (pd_quantity st + delta)\<rparr>"

text \<open>The size selector's \<open>onChange\<close> (lines 284--289): the variant is the first
  with that size; without one the previous variant stays selected.\<close>

definition selectSize :: "variant_rec list \<Rightarrow> string \<Rightarrow> pd_state \<Rightarrow> pd_state" where
  "selectSize vs sz st =
     (case find (\<lambda>v. var_size v = sz) vs of
        Some v \<Rightarrow> st\<lparr>pd_size := sz, pd_variant := var_id v\<rparr>
      | None \<Rightarrow> st\<lparr>pd_size := sz\<rparr>)"

text \<open>The raw price both \<open>getPriceForVariant\<close> and \<open>getNumericPriceForCart\<close> start
  from (lines 147--153 and 161--167).\<close>

definition selected_raw_price :: "product_rec \<Rightarrow> variant_rec list \<Rightarrow> pd_state \<Rightarrow> price_value" where
  "selected_raw_price p vs st =
     (if pd_variant st = [] then prod_price p
      else (case find (\<lambda>v. var_id v = pd_variant st) vs of Some v \<Rightarrow> var_price v | None \<Rightarrow> PMissing))"

definition getPriceForVariant :: "product_rec \<Rightarrow> variant_rec list \<Rightarrow> pd_state \<Rightarrow> price_display" where
  "getPriceForVariant p vs st = formatPriceForDisplay (selected_raw_price p vs st)"

definition getNumericPriceForCart :: "product_rec \<Rightarrow> variant_rec list \<Rightarrow> pd_state \<Rightarrow> money" where
  "getNumericPriceForCart p vs st = parsePriceToNumber (selected_raw_price p vs st)"

text \<open>\<open>product.pricing_tiers?.map(t => ({min_quantity, price: parsePriceToNumber(t.price)}))\<close>\<close>

definition numeric_tiers :: "(int \<times> price_value) list option \<Rightarrow> tier list option" where
  "numeric_tiers ts =
     map_option (map (\<lambda>(m, pr). \<lparr>min_quantity = m, tier_price = parsePriceToNumber pr\<rparr>)) ts"

text \<open>\<open>handleAddToCart\<close> (lines 171--193): the item passed to \<open>addItem\<close>, which
  dispatches \<open>ADD_ITEM\<close>; the page then navigates to the cart.\<close>

definition handleAddToCart :: "product_rec option \<Rightarrow> variant_rec list \<Rightarrow> pd_state \<Rightarrow> cart_item option" where
  "handleAddToCart po vs st =
     (case po of
        None \<Rightarrow> None
      | Some p \<Rightarrow>
          if pd_variant st = [] then None
          else (case find (\<lambda>v. var_id v = pd_variant st) vs of
                  None \<Rightarrow> None
                | Some v \<Rightarrow>
                    Some \<lparr>item_id = prod_id p, item_name = prod_name p @ '' - '' @ var_size v,
                          price = getNumericPriceForCart p vs st, quantity = pd_quantity st,
                          imageUrl = prod_image p, pricing_tiers = numeric_tiers (prod_tiers p),
                          item_size = Some (var_size v), variant_id = Some (var_id v)\<rparr>))"

subsection \<open>Reviews\<close>

text \<open>\<open>addReviewMutation\<close> (lines 119--140): \<open>usr\<close> is the signed-in user, \<open>res\<close> the
  outcome of the insert.\<close>

definition addReview ::
  "string \<Rightarrow> string option \<Rightarrow> string option \<Rightarrow> pd_state \<Rightarrow> review_row list \<Rightarrow> pd_state \<times> review_row list" where
  "addReview pid usr res st rvs =
     (case usr of
        None \<Rightarrow> (st\<lparr>pd_review_error := ''Must be signed in''\<rparr>, rvs)
      | Some u \<Rightarrow>
          (case res of
             Some m \<Rightarrow> (st\<lparr>pd_review_error := (if m = [] then ''Failed to add review.'' else m)\<rparr>, rvs)
           | None \<Rightarrow>
               (st\<lparr>pd_comment := [], pd_rating := 5, pd_review_error := []\<rparr>,
                rvs @ [\<lparr>rv_product_id = pid, rv_user_id = u, rv_comment = pd_comment st,
                        rv_rating = pd_rating st\<rparr>])))"

text \<open>\<open>handleAddReview\<close> (lines 195--206).\<close>

definition handleAddReview ::
  "bool \<Rightarrow> string \<Rightarrow> string option \<Rightarrow> string option \<Rightarrow> pd_state \<Rightarrow> review_row list \<Rightarrow>
   pd_state \<times> review_row list" where
  "handleAddReview session pid usr res st rvs =
     (if \<not> session then (st\<lparr>pd_review_error := ''Please sign in to add a review.''\<rparr>, rvs)
      else if js_trim (pd_comment st) = [] then (st\<lparr>pd_review_error := ''Comment cannot be empty.''\<rparr>, rvs)
      else addReview pid usr res st rvs)"

subsection \<open>The page\<close>

datatype pd_screen =
    PdLoading
  | PdNotFound
  | PdCrash js_error
  | PdPage
      (pv_price: price_display)
      (pv_benefits: "string list")
      (pv_sizes: "(string \<times> price_display \<times> int option) list")
      (pv_tiers: "(int \<times> price_display) list option")
      (pv_quantity: "(int \<times> bool) option")
      (pv_add_button: "(int \<times> string \<times> price_display) option")
      (pv_review_form: bool)
      (pv_reviews: nat)

text \<open>The render (lines 208--444): loading, not found, a \<open>TypeError\<close> when the
  product has no \<open>controls_or_benefits\<close> (\<open>null.split\<close>), or the page with the price,
  the benefit lines, one size option per variant (with its stock, \<open>None\<close> when out
  of stock), the bulk pricing list, the quantity selector (with the minus button
  disabled at 1) and the add button once a size is chosen, the review form for a
  session, and the number of reviews.\<close>

definition pd_view ::
  "bool \<Rightarrow> bool \<Rightarrow> product_rec option \<Rightarrow> variant_rec list \<Rightarrow> review_row list \<Rightarrow>
   pd_state \<Rightarrow> pd_screen" where
  "pd_view loading session po vs rvs st =
     (if loading then PdLoading
      else case po of
        None \<Rightarrow> PdNotFound
      | Some p \<Rightarrow>
          (case prod_benefits p of
             None \<Rightarrow> PdCrash TypeError
           | Some b \<Rightarrow>
          PdPage (getPriceForVariant p vs st)
            (filter (\<lambda>l. js_trim l \<noteq> []) (js_split CHR ''\<newline>'' b))
            (map (\<lambda>v. (var_size v, formatPriceForDisplay (var_price v),
                        if 0 < var_stock v then Some (var_stock v) else None)) vs)
            (case prod_tiers p of
               Some ts \<Rightarrow> if ts \<noteq> [] then Some ((1, formatPriceForDisplay (prod_price p)) #
                                                 map (\<lambda>(m, pr). (m, formatPriceForDisplay pr)) ts)
                         else None
             | None \<Rightarrow> None)
            (if pd_size st \<noteq> [] then Some (pd_quantity st, pd_quantity st \<le> 1) else None)
            (if pd_size st \<noteq> [] then Some (pd_quantity st, pd_size st, getPriceForVariant p vs st) else None)
            session
            (length rvs)))"

text \<open>What a visitor can do on the page.\<close>

datatype pd_event =
    QuantityChange int
  | SelectSize string
  | AddToCart

fun pd_step :: "variant_rec list \<Rightarrow> pd_state \<Rightarrow> pd_event \<Rightarrow> pd_state" where
  "pd_step vs st (QuantityChange d) = handleQuantityChange d st"
| "pd_step vs st (SelectSize s) = selectSize vs s st"
| "pd_step vs st AddToCart = st"

text \<open>The items dispatched to the cart by a sequence of events.\<close>

fun pd_dispatched :: "product_rec option \<Rightarrow> variant_rec list \<Rightarrow> pd_state \<Rightarrow> pd_event list \<Rightarrow> cart_item list" where
  "pd_dispatched po vs st [] = []"
| "pd_dispatched po vs st (AddToCart # es) =
     (case handleAddToCart po vs st of Some it \<Rightarrow> [it] | None \<Rightarrow> []) @ pd_dispatched po vs st es"
| "pd_dispatched po vs st (e # es) = pd_dispatched po vs (pd_step vs st e) es"

subsection \<open>Sample data\<close>

definition sample_product :: product_rec where
  "sample_product = \<lparr>prod_id = ''p1'', prod_name = ''Neem Oil'', prod_description = ''Organic pesticide'',
                     prod_price = PText ''KES 1,200.50'', prod_benefits = Some ''Controls aphids'',
                     prod_image = None, prod_tiers = None\<rparr>"

definition sample_variant :: variant_rec where
  "sample_variant = \<lparr>var_id = ''v1'', var_product_id = ''p1'', var_size = ''500ml'', var_price = PNum 650,
                     var_stock = 10\<rparr>"

definition sample_pd :: pd_state where
  "sample_pd = selectSize [sample_variant] ''500ml'' pd_init"

subsection \<open>Lemmas\<close>

lemma handleAddToCart_Some:
  "handleAddToCart po vs st = Some it \<Longrightarrow>
   \<exists>v\<in>set vs. variant_id it = Some (var_id v) \<and> item_size it = Some (var_size v)"
  unfolding handleAddToCart_def
  by (auto split: option.splits if_splits dest!: find_Some_in) (metis)

text \<open>
  C34. Every item the product page puts in the cart carries one of the product's
  variants, its id and its size: a product without variants can never be added to
  the cart, whatever the visitor does.
\<close>

theorem pd_dispatched_variant:
  "it \<in> set (pd_dispatched po vs st es) \<Longrightarrow>
   \<exists>v\<in>set vs. variant_id it = Some (var_id v) \<and> item_size it = Some (var_size v)"
  by (induction po vs st es rule: pd_dispatched.induct)
     (auto split: option.splits dest: handleAddToCart_Some[OF sym])

theorem pd_dispatched_variant_witness:
  "hd (pd_dispatched (Some sample_product) [sample_variant] pd_init [SelectSize ''500ml'', AddToCart])
     \<in> set (pd_dispatched (Some sample_product) [sample_variant] pd_init [SelectSize ''500ml'', AddToCart]) \<and>
   (\<exists>v\<in>set [sample_variant].
      variant_id (hd (pd_dispatched (Some sample_product) [sample_variant] pd_init [SelectSize ''500ml'', AddToCart]))
        = Some (var_id v) \<and>
      item_size (hd (pd_dispatched (Some sample_product) [sample_variant] pd_init [SelectSize ''500ml'', AddToCart]))
        = Some (var_size v))"
proof -
  have h: "hd (pd_dispatched (Some sample_product) [sample_variant] pd_init [SelectSize ''500ml'', AddToCart])
     \<in> set (pd_dispatched (Some sample_product) [sample_variant] pd_init [SelectSize ''500ml'', AddToCart])"
    by (simp add: handleAddToCart_def selectSize_def sample_variant_def pd_init_def)
  from pd_dispatched_variant[OF h] h show ?thesis by blast
qed

end
