(* ===== verification/Admin.thy ===== *)
theory Admin
  imports Product
begin

text \<open>
  The product administration of \<open>src/src/pages/AdminDashboard.tsx\<close> (the second
  component of the file, lines 140--668): the tier editor and the variant editor
  of an existing product, the form for a new product, and the three mutations
  that write the catalogue. The catalogue store is two tables kept as lists of
  rows (\<open>catalog_store\<close>); a storage answer is an input. The call
  \<open>supabase.from('product_variants').delete().eq('id', id)\<close> of \<open>removeVariant\<close> is
  neither awaited nor given a \<open>then\<close>: a query builder of the client sends its
  request only when it is awaited, so the call changes nothing and is modelled as
  such. The orders, analytics, notifications and discounts tabs render nothing
  and are not modelled.
\<close>

record catalog_store =
  cs_products :: "product_rec list"
  cs_variants :: "variant_rec list"

record new_product =
  np_name :: string
  np_price :: string
  np_description :: string
  np_tiers :: "(int \<times> string) list"
  np_variants :: "variant_rec list"

record admin_state =
  ad_tab :: string
  ad_editing :: "string option"
  ad_tiers :: "(int \<times> price_value) list"
  ad_variants :: "variant_rec list"
  ad_new :: new_product

definition empty_new_product :: new_product where
  "empty_new_product = \<lparr>np_name = [], np_price = [], np_description = [], np_tiers = [], np_variants = []\<rparr>"

definition admin_init :: admin_state where
  "admin_init = \<lparr>ad_tab = ''orders'', ad_editing = None, ad_tiers = [], ad_variants = [],
                 ad_new = empty_new_product\<rparr>"

text \<open>\<open>.eq('id', id).single()\<close> on the products table.\<close>

definition product_by_id :: "product_rec list \<Rightarrow> string \<Rightarrow> product_rec option" where
  "product_by_id ps i = find (\<lambda>p. prod_id p = i) ps"

subsection \<open>The tier editor\<close>

definition handleEditTiers :: "product_rec \<Rightarrow> admin_state \<Rightarrow> admin_state" where
  "handleEditTiers p st =
     st\<lparr>ad_editing := Some (prod_id p), ad_tiers := (case prod_tiers p of Some ts \<Rightarrow> ts | None \<Rightarrow> [])\<rparr>"

definition addTier :: "admin_state \<Rightarrow> admin_state" where
  "addTier st = st\<lparr>ad_tiers := ad_tiers st @ [(0, PText [])]\<rparr>"

definition removeTier :: "nat \<Rightarrow> admin_state \<Rightarrow> admin_state" where
  "removeTier i st = st\<lparr>ad_tiers := remove_index i (ad_tiers st)\<rparr>"

text \<open>The two inputs of a tier row: the quantity after \<open>parseInt(value) || 0\<close>, and
  the price text.\<close>

datatype tier_field = TierMin int | TierPrice string

definition updateTier :: "nat \<Rightarrow> tier_field \<Rightarrow> admin_state \<Rightarrow> admin_state" where
  "updateTier i f st =
     (if i < length (ad_tiers st)
      then st\<lparr>ad_tiers := (ad_tiers st)[i := (case f of
                                                TierMin m \<Rightarrow> (m, snd (ad_tiers st ! i))
                                              | TierPrice s \<Rightarrow> (fst (ad_tiers st ! i), PText s))]\<rparr>
      else st)"

text \<open>\<open>saveTiers\<close> and \<open>updateProductMutation\<close> (lines 169--181, 236--240): on success
  the product row gets the edited tiers and the editor closes.\<close>

definition saveTiers :: "bool \<Rightarrow> admin_state \<Rightarrow> catalog_store \<Rightarrow> admin_state \<times> catalog_store" where
  "saveTiers ok st cs =
     (case ad_editing st of
        None \<Rightarrow> (st, cs)
      | Some pid \<Rightarrow>
          if ok
          then (st\<lparr>ad_editing := None\<rparr>,
                cs\<lparr>cs_products := map (\<lambda>p. if prod_id p = pid then p\<lparr>prod_tiers := Some (ad_tiers st)\<rparr> else p)
                                     (cs_products cs)\<rparr>)
          else (st, cs))"

subsection \<open>The variant editor\<close>

text \<open>\<open>product.product_variants\<close>: the joined rows of the variants table.\<close>

definition handleEditVariants :: "catalog_store \<Rightarrow> product_rec \<Rightarrow> admin_state \<Rightarrow> admin_state" where
  "handleEditVariants cs p st =
     st\<lparr>ad_editing := Some (prod_id p),
        ad_variants := filter (\<lambda>v. var_product_id v = prod_id p) (cs_variants cs)\<rparr>"

definition blank_variant :: variant_rec where
  "blank_variant = \<lparr>var_id = [], var_product_id = [], var_size = [], var_price = PText [], var_stock = 0\<rparr>"

definition addVariant :: "admin_state \<Rightarrow> admin_state" where
  "addVariant st = st\<lparr>ad_variants := ad_variants st @ [blank_variant]\<rparr>"

text \<open>\<open>removeVariant\<close> (lines 258--265): the store is returned unchanged, since the
  delete request is never sent.\<close>

definition removeVariant :: "nat \<Rightarrow> admin_state \<Rightarrow> catalog_store \<Rightarrow> admin_state \<times> catalog_store" where
  "removeVariant i st cs = (st\<lparr>ad_variants := remove_index i (ad_variants st)\<rparr>, cs)"

datatype variant_field = VarSize string | VarPrice string | VarStock int

definition updateVariant :: "nat \<Rightarrow> variant_field \<Rightarrow> admin_state \<Rightarrow> admin_state" where
  "updateVariant i f st =
     (if i < length (ad_variants st)
      then st\<lparr>ad_variants := (ad_variants st)[i := (case f of
                                                    VarSize s \<Rightarrow> (ad_variants st ! i)\<lparr>var_size := s\<rparr>
                                                  | VarPrice s \<Rightarrow> (ad_variants st ! i)\<lparr>var_price := PText s\<rparr>
                                                  | VarStock n \<Rightarrow> (ad_variants st ! i)\<lparr>var_stock := n\<rparr>)]\<rparr>
      else st)"

text \<open>\<open>.upsert(variant)\<close> on the variants table, keyed by id.\<close>

definition upsert_variant :: "variant_rec \<Rightarrow> variant_rec list \<Rightarrow> variant_rec list" where
  "upsert_variant v vs =
     (if list_ex (\<lambda>w. var_id w = var_id v) vs
      then map (\<lambda>w. if var_id w = var_id v then v else w) vs
      else vs @ [v])"

text \<open>\<open>saveVariants\<close> and \<open>upsertVariantMutation\<close> (lines 183--195, 271--276): one
  upsert per edited variant, \<open>oks\<close> giving the storage answer of each, then the
  editor closes.\<close>

fun upsert_all :: "bool list \<Rightarrow> variant_rec list \<Rightarrow> variant_rec list \<Rightarrow> variant_rec list" where
  "upsert_all (ok # oks) (v # vs) tbl = upsert_all oks vs (if ok then upsert_variant v tbl else tbl)"
| "upsert_all oks vs tbl = tbl"

definition saveVariants :: "bool list \<Rightarrow> admin_state \<Rightarrow> catalog_store \<Rightarrow> admin_state \<times> catalog_store" where
  "saveVariants oks st cs =
     (st\<lparr>ad_editing := None\<rparr>, cs\<lparr>cs_variants := upsert_all oks (ad_variants st) (cs_variants cs)\<rparr>)"

subsection \<open>Adding a product\<close>

definition addNewTier :: "admin_state \<Rightarrow> admin_state" where
  "addNewTier st = st\<lparr>ad_new := (ad_new st)\<lparr>np_tiers := np_tiers (ad_new st) @ [(0, [])]\<rparr>\<rparr>"

definition addNewVariant :: "admin_state \<Rightarrow> admin_state" where
  "addNewVariant st = st\<lparr>ad_new := (ad_new st)\<lparr>np_variants := np_variants (ad_new st) @ [blank_variant]\<rparr>\<rparr>"

text \<open>The storage answers of \<open>addProductMutation\<close> (lines 198--218): the product
  insert (the new id, or an error), then the variants insert.\<close>

datatype add_product_answer = ProductInsertError | ProductInserted string bool

definition new_product_row :: "string \<Rightarrow> new_product \<Rightarrow> product_rec" where
  "new_product_row pid np =
     \<lparr>prod_id = pid, prod_name = np_name np, prod_description = np_description np,
      prod_price = PText (np_price np), prod_benefits = None, prod_image = None,
      prod_tiers = Some (map (\<lambda>(m, s). (m, PText s)) (np_tiers np))\<rparr>"

definition handleAddProduct ::
  "add_product_answer \<Rightarrow> admin_state \<Rightarrow> catalog_store \<Rightarrow> admin_state \<times> catalog_store" where
  "handleAddProduct ans st cs =
     (case ans of
        ProductInsertError \<Rightarrow> (st, cs)
      | ProductInserted pid vok \<Rightarrow>
          (let np = ad_new st;
               cs1 = cs\<lparr>cs_products := cs_products cs @ [new_product_row pid np]\<rparr>
           in if np_variants np = [] then (st\<lparr>ad_new := empty_new_product\<rparr>, cs1)
              else if vok
              then (st\<lparr>ad_new := empty_new_product\<rparr>,
                    cs1\<lparr>cs_variants := cs_variants cs @ map (\<lambda>v. v\<lparr>var_product_id := pid\<rparr>) (np_variants np)\<rparr>)
              else (st, cs1)))"

subsection \<open>Sample data\<close>

definition sample_store :: catalog_store where
  "sample_store = \<lparr>cs_products = [sample_product], cs_variants = [sample_variant]\<rparr>"

definition sample_variant2 :: variant_rec where
  "sample_variant2 = sample_variant\<lparr>var_id := ''v2'', var_size := ''1L''\<rparr>"

subsection \<open>Lemmas\<close>

lemma upsert_keeps_other:
  "v \<in> set tbl \<Longrightarrow> var_id w \<noteq> var_id v \<Longrightarrow> v \<in> set (upsert_variant w tbl)"
  by (auto simp: upsert_variant_def image_iff)

lemma upsert_all_keeps:
  "v \<in> set tbl \<Longrightarrow> var_id v \<notin> var_id ` set vs \<Longrightarrow> v \<in> set (upsert_all oks vs tbl)"
proof (induction oks vs tbl rule: upsert_all.induct)
  case (1 ok oks w vs tbl)
  have "v \<in> set (if ok then upsert_variant w tbl else tbl)"
    using "1.prems" upsert_keeps_other[of v tbl w] by auto
  then show ?case using "1.IH" "1.prems" by simp
qed simp_all

lemma remove_index_ids:
  assumes "distinct (map var_id xs)" and "i < length xs"
  shows "var_id (xs ! i) \<notin> var_id ` set (remove_index i xs)"
proof -
  have "xs = take i xs @ xs ! i # drop (Suc i) xs" using assms(2) by (rule id_take_nth_drop)
  then have "distinct (map var_id (take i xs) @ var_id (xs ! i) # map var_id (drop (Suc i) xs))"
    using assms(1) by (metis map_append list.map(2))
  then show ?thesis by (auto simp: remove_index_def)
qed

text \<open>
  Removing a stored variant in the editor and saving does not delete it: the
  delete request of \<open>removeVariant\<close> is never sent and \<open>saveVariants\<close> only upserts
  the remaining rows, so the variant is still in the store and reappears when the
  editor is opened again.
\<close>

theorem removed_variant_stays:
  assumes "v \<in> set (cs_variants cs)" and "i < length (ad_variants st)" and "ad_variants st ! i = v"
    and "distinct (map var_id (ad_variants st))"
    and "removeVariant i st cs = (st1, cs1)" and "saveVariants oks st1 cs1 = (st2, cs2)"
    and "var_product_id v = prod_id p"
  shows "v \<in> set (cs_variants cs2) \<and> v \<in> set (ad_variants (handleEditVariants cs2 p st2))"
proof -
  have "var_id v \<notin> var_id ` set (ad_variants st1)"
    using remove_index_ids[OF assms(4,2)] assms(3,5) by (auto simp: removeVariant_def)
  moreover have "cs1 = cs" using assms(5) by (simp add: removeVariant_def)
  ultimately have "v \<in> set (cs_variants cs2)"
    using assms(1,6) upsert_all_keeps by (auto simp: saveVariants_def)
  with assms(7) show ?thesis by (simp add: handleEditVariants_def)
qed

theorem removed_variant_stays_witness:
  "let cs = sample_store\<lparr>cs_variants := [sample_variant, sample_variant2]\<rparr>;
       st = handleEditVariants cs sample_product admin_init;
       r1 = removeVariant 0 st cs;
       r2 = saveVariants [True] (fst r1) (snd r1)
   in sample_variant \<in> set (cs_variants cs) \<and> 0 < length (ad_variants st) \<and> ad_variants st ! 0 = sample_variant \<and>
      distinct (map var_id (ad_variants st)) \<and> r1 = (fst r1, snd r1) \<and> r2 = (fst r2, snd r2) \<and>
      var_product_id sample_variant = prod_id sample_product \<and>
      sample_variant \<in> set (cs_variants (snd r2)) \<and>
      sample_variant \<in> set (ad_variants (handleEditVariants (snd r2) sample_product (fst r2)))"
proof -
  define cs where "cs = sample_store\<lparr>cs_variants := [sample_variant, sample_variant2]\<rparr>"
  define st where "st = handleEditVariants cs sample_product admin_init"
  define r1 where "r1 = removeVariant 0 st cs"
  define r2 where "r2 = saveVariants [True] (fst r1) (snd r1)"
  have v: "ad_variants st = [sample_variant, sample_variant2]"
    by (simp add: st_def cs_def handleEditVariants_def sample_variant2_def sample_variant_def sample_product_def)
  have h1: "sample_variant \<in> set (cs_variants cs)" by (simp add: cs_def)
  have h2: "0 < length (ad_variants st)" and h3: "ad_variants st ! 0 = sample_variant" by (simp_all add: v)
  have h4: "distinct (map var_id (ad_variants st))" by (simp add: v sample_variant2_def sample_variant_def)
  have h5: "r1 = (fst r1, snd r1)" and h6: "r2 = (fst r2, snd r2)" by simp_all
  have h7: "var_product_id sample_variant = prod_id sample_product"
    by (simp add: sample_variant_def sample_product_def)
  note c = removed_variant_stays[OF h1 h2 h3 h4 h5[unfolded r1_def] h6[unfolded r2_def r1_def] h7]
  show ?thesis using h1 h2 h3 h4 h5 h6 h7 c unfolding Let_def cs_def st_def r1_def r2_def by blast
qed

end
