(* ===== verification/OrdersList.thy ===== *)
theory OrdersList
  imports Sync
begin

text \<open>
  The order history page, the \<open>Orders\<close> component in the second half of
  \<open>src/src/pages/Notifications.tsx\<close> (lines 252--505). Unlike the tracking page
  (theory \<open>Sync\<close>), it decodes \<open>stages\<close> and \<open>items\<close> in one \<open>try\<close>, so a failure
  of either empties both, and it keeps the decoded stages as they are, without the
  stage parser: a stage is whatever value was stored. Item enrichment reads only
  the product name and the variant size. The answer of the storage query (the
  user's rows, newest first) is an input; the realtime channel follows the pattern
  of theory \<open>Sync\<close> with the owner as filter and is not modelled again.
\<close>

record list_item =
  li_name :: json
  li_size :: json
  li_quantity :: "json option"

record list_order =
  lo_id :: string
  lo_total :: json
  lo_status :: json
  lo_items :: "list_item list"
  lo_stages :: json
  lo_created :: json

text \<open>Lines 279--287: both fields decoded in one \<open>try\<close>.\<close>

definition list_parse :: "stored \<Rightarrow> stored \<Rightarrow> json \<times> json" where
  "list_parse st it =
     (case json_parse_field st of
        Inl e \<Rightarrow> (JArr [], JArr [])
      | Inr s \<Rightarrow> (case json_parse_field it of Inl e \<Rightarrow> (JArr [], JArr []) | Inr i \<Rightarrow> (s, i)))"

text \<open>One item callback (lines 290--305): every property read is inside the
  \<open>try\<close>, and spreading \<open>null\<close> gives no fields.\<close>

definition list_enrich_item :: "catalog \<Rightarrow> json \<Rightarrow> list_item" where
  "list_enrich_item cat item =
     (if item = JNull then \<lparr>li_name = JStr ''Unknown'', li_size = JStr '''', li_quantity = None\<rparr>
      else
        (let prod = lookup_by (cat_products cat) (js_prop item ''product_id'');
             name = (case prod of
                       None \<Rightarrow> JStr ''Unknown''
                     | Some p \<Rightarrow> the (js_or (Some (p_name p)) (Some (JStr ''Unknown''))));
             size = (if js_truthy (js_prop item ''variant_id'')
                     then (case lookup_by (cat_variants cat) (js_prop item ''variant_id'') of
                             None \<Rightarrow> JStr ''''
                           | Some v \<Rightarrow> the (js_or (Some (v_size v)) (Some (JStr ''''))))
                     else JStr '''')
         in \<lparr>li_name = name, li_size = size, li_quantity = js_prop item ''quantity''\<rparr>))"

text \<open>One order (lines 276--309): \<open>items.map\<close> raises when the decoded items are
  not an array.\<close>

definition list_order_of :: "catalog \<Rightarrow> string \<Rightarrow> order_row \<Rightarrow> js_error + list_order" where
  "list_order_of cat oid r =
     (let (ss, its) = list_parse (row_stages r) (row_items r) in
      case its of
        JArr xs \<Rightarrow>
          Inr \<lparr>lo_id = oid, lo_total = row_total_price r, lo_status = row_status r,
               lo_items = map (list_enrich_item cat) xs, lo_stages = ss, lo_created = row_created_at r\<rparr>
      | _ \<Rightarrow> Inl TypeError)"

fun list_orders_of :: "catalog \<Rightarrow> (string \<times> order_row) list \<Rightarrow> js_error + list_order list" where
  "list_orders_of cat [] = Inr []"
| "list_orders_of cat ((oid, r) # rs) =
     (case list_order_of cat oid r of
        Inl e \<Rightarrow> Inl e
      | Inr o1 \<Rightarrow> (case list_orders_of cat rs of Inl e \<Rightarrow> Inl e | Inr os \<Rightarrow> Inr (o1 # os)))"

datatype orders_answer = OrdersError string | OrdersRows "(string \<times> order_row) list"

text \<open>The query function (lines 262--311): no user gives no orders.\<close>

definition ordersQuery :: "string option \<Rightarrow> orders_answer \<Rightarrow> catalog \<Rightarrow> fetch_error + list_order list" where
  "ordersQuery usr ans cat =
     (case usr of
        None \<Rightarrow> Inr []
      | Some u \<Rightarrow>
          (case ans of
             OrdersError m \<Rightarrow> Inl (StoreError m)
           | OrdersRows rs \<Rightarrow>
               (case list_orders_of cat rs of Inl e \<Rightarrow> Inl (Thrown e) | Inr os \<Rightarrow> Inr os)))"

subsection \<open>The page\<close>

datatype badge = BadgeGreen | BadgeBlue | BadgeYellow

record order_card =
  oc_short_id :: string
  oc_total :: money
  oc_status :: json
  oc_badge :: badge
  oc_items :: "(json \<times> json \<times> json option) list"
  oc_stages :: "(json option \<times> bool \<times> json option) list"
  oc_more :: bool

datatype orders_screen =
    OrdersSignIn
  | OrdersFailed
  | OrdersLoading
  | OrdersPage "order_card list" bool
  | OrdersCrash js_error

text \<open>One stage of the timeline summary, read from the raw value: its name, whether
  it is completed (truthy), and its timestamp when truthy.\<close>

definition stage_summary :: "json \<Rightarrow> js_error + (json option \<times> bool \<times> json option)" where
  "stage_summary s =
     (if s = JNull then Inl TypeError
      else Inr (js_prop s ''name'', js_truthy (js_prop s ''completed''),
                if js_truthy (js_prop s ''timestamp'') then js_prop s ''timestamp'' else None))"

text \<open>One order card (lines 408--476): \<open>total_price.toFixed(2)\<close> needs a number,
  \<open>stages.slice(0, 3)\<close> an array.\<close>

definition order_card_of :: "list_order \<Rightarrow> js_error + order_card" where
  "order_card_of od =
     (case (lo_total od, lo_stages od) of
        (JNum t, JArr ss) \<Rightarrow>
          (case map_err stage_summary (take 3 ss) of
             Inl e \<Rightarrow> Inl e
           | Inr sts \<Rightarrow>
               Inr \<lparr>oc_short_id = short_id (lo_id od), oc_total = t, oc_status = lo_status od,
                    oc_badge = (if lo_status od = JStr ''Delivered'' then BadgeGreen
                                else if lo_status od = JStr ''Payment Approved'' then BadgeBlue
                                else BadgeYellow),
                    oc_items = map (\<lambda>i. (the (js_or (Some (li_name i)) (Some (JStr ''Unknown''))),
                                         li_size i, li_quantity i)) (lo_items od),
                    oc_stages = sts, oc_more = (3 < length ss)\<rparr>)
      | _ \<Rightarrow> Inl TypeError)"

text \<open>The Track Details button of a card (line 480):
  \<open>navigate(`/track/$\{order.id\}`)\<close>.\<close>

definition track_details_path :: "list_order \<Rightarrow> string" where
  "track_details_path od = ''/track/'' @ lo_id od"

text \<open>The render (lines 333--505): sign-in screen without a session, then the error
  screen, the loading screen, or the cards with the empty-list message.\<close>

definition orders_view :: "bool \<Rightarrow> (fetch_error + list_order list) option \<Rightarrow> orders_screen" where
  "orders_view session res =
     (if \<not> session then OrdersSignIn
      else case res of
             Some (Inl e) \<Rightarrow> OrdersFailed
           | None \<Rightarrow> OrdersLoading
           | Some (Inr os) \<Rightarrow>
               (case map_err order_card_of os of
                  Inl e \<Rightarrow> OrdersCrash e
                | Inr cs \<Rightarrow> OrdersPage cs (os = [])))"

end
