(* ===== verification/CartPage.thy ===== *)
theory CartPage
  imports Cart
begin

text \<open>
  The cart page of \<open>src/src/pages/Cart.tsx\<close> (lines 21--235): its copies of
  \<open>getUnitPrice\<close> and \<open>lineTotal\<close> are those of theory \<open>Cart\<close>; the page adds the
  recomputed subtotal, the sign-in warning shown before checkout, the buttons of
  each line (which dispatch the reducer's actions), and the render with its
  bulk-discount badge.
\<close>

record cart_page =
  cp_auth_warning :: bool

datatype cart_nav = NavCheckout | NavAccount | NavHome | NavBack

text \<open>\<open>handleProceedToCheckout\<close> (lines 44--54): nothing while authentication is
  loading, the warning without a user, else the checkout page.\<close>

definition handleProceedToCheckout :: "bool \<Rightarrow> bool \<Rightarrow> cart_page \<Rightarrow> cart_page \<times> cart_nav option" where
  "handleProceedToCheckout loading has_user st =
     (if loading then (st, None)
      else if \<not> has_user then (st\<lparr>cp_auth_warning := True\<rparr>, None)
      else (st, Some NavCheckout))"

definition handleAuthWarningConfirm :: "cart_page \<Rightarrow> cart_page \<times> cart_nav option" where
  "handleAuthWarningConfirm st = (st\<lparr>cp_auth_warning := False\<rparr>, Some NavAccount)"

definition cancelAuthWarning :: "cart_page \<Rightarrow> cart_page" where
  "cancelAuthWarning st = st\<lparr>cp_auth_warning := False\<rparr>"

text \<open>\<open>computedSubtotal\<close> (line 41).\<close>

definition computedSubtotal :: "cart_item list \<Rightarrow> money" where
  "computedSubtotal cart = foldl (\<lambda>sum item. sum + lineTotal item) 0 cart"

text \<open>The three buttons of a line (lines 156--172), as reducer actions.\<close>

datatype line_button = Minus | Plus | Remove

definition line_action :: "line_button \<Rightarrow> cart_item \<Rightarrow> cart_action" where
  "line_action b it =
     (case b of
        Minus \<Rightarrow> UPDATE_QUANTITY (item_id it) (quantity it - 1)
      | Plus \<Rightarrow> UPDATE_QUANTITY (item_id it) (quantity it + 1)
      | Remove \<Rightarrow> REMOVE_ITEM (item_id it))"

record cart_line_view =
  cl_name :: string
  cl_size :: "string option"
  cl_unit :: money
  cl_bulk_badge :: bool
  cl_quantity :: int
  cl_minus_disabled :: bool
  cl_line_total :: money

text \<open>One line (lines 135--177); the badge reads
  \<open>item.pricing_tiers && item.pricing_tiers.length > 0 && item.quantity >= 5\<close>.\<close>

definition cart_line_view :: "cart_item \<Rightarrow> cart_line_view" where
  "cart_line_view it =
     \<lparr>cl_name = item_name it, cl_size = item_size it, cl_unit = getUnitPrice it,
      cl_bulk_badge = (case pricing_tiers it of Some ts \<Rightarrow> ts \<noteq> [] \<and> 5 \<le> quantity it | None \<Rightarrow> False),
      cl_quantity = quantity it, cl_minus_disabled = (quantity it \<le> 1), cl_line_total = lineTotal it\<rparr>"

datatype cart_screen =
    AuthWarning
  | EmptyCart
  | CartList int "cart_line_view list" money bool bool

text \<open>The render (lines 72--233): the warning, the empty cart when \<open>totalItems\<close> is
  0, else the lines, the subtotal, and the checkout button (disabled and labelled
  \<open>Loading...\<close> while authentication loads).\<close>

definition cart_view :: "bool \<Rightarrow> cart_item list \<Rightarrow> cart_page \<Rightarrow> cart_screen" where
  "cart_view loading cart st =
     (if cp_auth_warning st then AuthWarning
      else if totalItems cart = 0 then EmptyCart
      else CartList (totalItems cart) (map cart_line_view cart) (computedSubtotal cart)
             (totalItems cart = 0 \<or> loading) loading)"

subsection \<open>Lemmas\<close>

text \<open>The page's recomputed subtotal is the context's subtotal, which checkout
  uses.\<close>

lemma computedSubtotal_eq_subtotal: "computedSubtotal cart = subtotal cart"
  by (simp add: computedSubtotal_def subtotal_def lineTotal_def)

text \<open>
  C33. The bulk-discount badge of the cart page tests only that the line has tiers
  and a quantity of at least 5: when every tier threshold is above the quantity,
  the badge says a bulk discount is applied while the line is charged the base
  price.
\<close>

theorem bulk_badge_without_discount:
  assumes "pricing_tiers it = Some ts" and "ts \<noteq> []" and "5 \<le> quantity it"
    and "list_all (\<lambda>t. quantity it < min_quantity t) ts"
  shows "cl_bulk_badge (cart_line_view it) \<and> cl_unit (cart_line_view it) = price it"
proof -
  have "find (\<lambda>t. min_quantity t \<le> quantity it) ts = None"
    using assms(4) by (auto simp: find_None_iff list_all_iff)
  with assms show ?thesis
    by (cases ts) (simp_all add: cart_line_view_def getUnitPrice_def)
qed

theorem bulk_badge_without_discount_witness:
  "pricing_tiers sample_bulk_item = Some [\<lparr>min_quantity = 10, tier_price = 80\<rparr>] \<and>
   [\<lparr>min_quantity = 10, tier_price = (80::money)\<rparr>] \<noteq> [] \<and> 5 \<le> quantity sample_bulk_item \<and>
   list_all (\<lambda>t. quantity sample_bulk_item < min_quantity t) [\<lparr>min_quantity = 10, tier_price = (80::money)\<rparr>] \<and>
   cl_bulk_badge (cart_line_view sample_bulk_item) \<and> cl_unit (cart_line_view sample_bulk_item) = price sample_bulk_item"
proof -
  have h: "pricing_tiers sample_bulk_item = Some [\<lparr>min_quantity = 10, tier_price = 80\<rparr>]"
    "[\<lparr>min_quantity = 10, tier_price = (80::money)\<rparr>] \<noteq> []" "5 \<le> quantity sample_bulk_item"
    "list_all (\<lambda>t. quantity sample_bulk_item < min_quantity t) [\<lparr>min_quantity = 10, tier_price = (80::money)\<rparr>]"
    by (simp_all add: sample_bulk_item_def)
  from bulk_badge_without_discount[OF h] h show ?thesis by blast
qed

end
