(* ===== verification/Notifications.thy ===== *)
theory Notifications
  imports Prelude
begin

text \<open>
  The \<open>notifications\<close> table and its three readers. \<open>NotificationsProvider\<close>
  (the context of \<open>src/contexts/NotificationsContext.tsx\<close>, shipped in the second
  half of \<open>src/src/pages/Checkout.tsx\<close>, lines 312--422) keeps a local copy of the
  signed-in user's rows, refetches it on every change signal of its realtime
  channel, and applies the answers of its own writes to the copy as local
  deltas. Its requests and their answers travel asynchronously: the model keeps
  the requests on the way to the store and the answers on the way back as two
  queues, and the store serves any request, and the provider receives any answer,
  in any order. The \<open>Notifications\<close> page (\<open>src/src/pages/Notifications.tsx\<close>,
  lines 16--217) reads the table through its own query and refetches after each
  of its mutations; the \<open>Index\<close> page (\<open>src/unnamed/part_001\<close>, lines 33--59)
  counts the unread rows for its badge. Rows are kept newest first, so the
  \<open>.order('created_at', \{ ascending: false \})\<close> of a filtered select is the
  filter itself.
\<close>

subsection \<open>The table\<close>

record notification =
  n_id :: nat
  n_user :: string
  n_read :: bool
  n_title :: string
  n_message :: string
  n_created :: string

type_synonym notif_table = "notification list"

text \<open>\<open>.select('*').eq('user_id', u).order('created_at', \{ ascending: false \})\<close>\<close>

definition select_user :: "string \<Rightarrow> notif_table \<Rightarrow> notification list" where
  "select_user u tbl = filter (\<lambda>n. n_user n = u) tbl"

text \<open>\<open>.update(\{ read: true \})\<close> restricted by the filters of the call, and the
  local \<open>prev.map(n => cond ? \{ ...n, read: true \} : n)\<close>.\<close>

definition mark_read_where :: "(notification \<Rightarrow> bool) \<Rightarrow> notification list \<Rightarrow> notification list" where
  "mark_read_where P ns = map (\<lambda>n. if P n then n\<lparr>n_read := True\<rparr> else n) ns"

text \<open>\<open>.delete()\<close> restricted by the filters of the call.\<close>

definition delete_where :: "(notification \<Rightarrow> bool) \<Rightarrow> notif_table \<Rightarrow> notif_table" where
  "delete_where P tbl = filter (\<lambda>n. \<not> P n) tbl"

text \<open>\<open>notifications.filter(n => !n.read).length\<close> (line 407).\<close>

definition unreadCount :: "notification list \<Rightarrow> nat" where
  "unreadCount ns = length (filter (\<lambda>n. \<not> n_read n) ns)"

subsection \<open>The provider\<close>

text \<open>
  The requests the provider sends: a fetch for a user (lines 342--346), the
  update of \<open>markAsRead\<close> (lines 380--384) and that of \<open>markAllRead\<close> (lines
  395--399). The two updates carry \<open>user?.id\<close> as it was when they were sent;
  \<open>.eq('user_id', undefined)\<close> matches no row.
\<close>

datatype nreq = QFetch string | QMarkRead "string option" nat | QMarkAll "string option" "nat list"

datatype nresp = RFetch "notification list option" | RMarkRead nat bool | RMarkAll bool

fun req_user :: "nreq \<Rightarrow> string option" where
  "req_user (QFetch u) = Some u"
| "req_user (QMarkRead uo i) = uo"
| "req_user (QMarkAll uo ids) = uo"

text \<open>The rows a request writes: none for a fetch.\<close>

fun write_pred :: "nreq \<Rightarrow> notification \<Rightarrow> bool" where
  "write_pred (QFetch u) n = False"
| "write_pred (QMarkRead uo i) n = (n_id n = i \<and> Some (n_user n) = uo)"
| "write_pred (QMarkAll uo ids) n = (n_id n \<in> set ids \<and> Some (n_user n) = uo)"

text \<open>The answer of the store to a request; \<open>ok\<close> is false when the call returns an
  error.\<close>

fun serve :: "bool \<Rightarrow> nreq \<Rightarrow> notif_table \<Rightarrow> nresp" where
  "serve ok (QFetch u) tbl = RFetch (if ok then Some (select_user u tbl) else None)"
| "serve ok (QMarkRead uo i) tbl = RMarkRead i ok"
| "serve ok (QMarkAll uo ids) tbl = RMarkAll ok"

text \<open>
  The channel of lines 363--372 listens to every change (\<open>event: '*'\<close>) of the
  rows with \<open>user_id=eq.\<close> its user; each changed row is one signal, and each
  signal runs \<open>fetchNotifications\<close> of the user the channel was opened for.
\<close>

definition signals :: "string option \<Rightarrow> (notification \<Rightarrow> bool) \<Rightarrow> notif_table \<Rightarrow> nreq list" where
  "signals ch P tbl =
     (case ch of
        None \<Rightarrow> []
      | Some c \<Rightarrow> replicate (length (filter (\<lambda>n. n_user n = c \<and> P n) tbl)) (QFetch c))"

text \<open>
  The provider's state: the store, the user of \<open>useAuth()\<close>, the user whose
  channel is open, \<open>notifications\<close>, \<open>loading\<close>, and the two queues.
\<close>

record nprov =
  np_store :: notif_table
  np_user :: "string option"
  np_channel :: "string option"
  np_list :: "notification list"
  np_loading :: bool
  np_sent :: "nreq list"
  np_resp :: "nresp list"

definition nprov_init :: "notif_table \<Rightarrow> nprov" where
  "nprov_init tbl =
     \<lparr>np_store = tbl, np_user = None, np_channel = None, np_list = [], np_loading = True,
      np_sent = [], np_resp = []\<rparr>"

text \<open>\<open>fetchNotifications\<close> (lines 340--353), the call: nothing without a user.\<close>

definition fetchNotifications :: "nprov \<Rightarrow> nprov" where
  "fetchNotifications s =
     (case np_user s of None \<Rightarrow> s | Some u \<Rightarrow> s\<lparr>np_sent := np_sent s @ [QFetch u]\<rparr>)"

text \<open>
  A change of the user runs the two effects on \<open>[user]\<close> (lines 355--377): the
  old channel is removed, the new user's rows are fetched and a channel is opened
  for them. The list is left as it is.
\<close>

definition set_user :: "string option \<Rightarrow> nprov \<Rightarrow> nprov" where
  "set_user u s =
     (if u = np_user s then s else fetchNotifications (s\<lparr>np_user := u, np_channel := u\<rparr>))"

text \<open>\<open>markAsRead\<close> (lines 379--390) and \<open>markAllRead\<close> (lines 392--405), the
  calls; \<open>markAllRead\<close> returns early when the list has no unread row.\<close>

definition markAsRead :: "nat \<Rightarrow> nprov \<Rightarrow> nprov" where
  "markAsRead i s = s\<lparr>np_sent := np_sent s @ [QMarkRead (np_user s) i]\<rparr>"

definition markAllRead :: "nprov \<Rightarrow> nprov" where
  "markAllRead s =
     (let unreadIds = map n_id (filter (\<lambda>n. \<not> n_read n) (np_list s)) in
      if unreadIds = [] then s else s\<lparr>np_sent := np_sent s @ [QMarkAll (np_user s) unreadIds]\<rparr>)"

text \<open>The store serves the \<open>i\<close>-th request in flight: its write, the signals the
  write raises on the open channel, and its answer.\<close>

definition serve_req :: "nat \<Rightarrow> bool \<Rightarrow> nprov \<Rightarrow> nprov" where
  "serve_req i ok s =
     (if i < length (np_sent s) then
        (let q = np_sent s ! i; tbl = np_store s in
         s\<lparr>np_store := (if ok then mark_read_where (write_pred q) tbl else tbl),
           np_sent := remove_index i (np_sent s) @
                      (if ok then signals (np_channel s) (write_pred q) tbl else []),
           np_resp := np_resp s @ [serve ok q tbl]\<rparr>)
      else s)"

text \<open>An answer reaches the provider: the continuations of the three calls. A
  fetch sets the list (\<open>data || []\<close>) or logs the error, and clears \<open>loading\<close>
  either way; a successful update applies its delta to the list as it is then.\<close>

fun deliver_resp :: "nresp \<Rightarrow> nprov \<Rightarrow> nprov" where
  "deliver_resp (RFetch None) s = s\<lparr>np_loading := False\<rparr>"
| "deliver_resp (RFetch (Some d)) s = s\<lparr>np_list := d, np_loading := False\<rparr>"
| "deliver_resp (RMarkRead i ok) s =
     (if ok then s\<lparr>np_list := mark_read_where (\<lambda>n. n_id n = i) (np_list s)\<rparr> else s)"
| "deliver_resp (RMarkAll ok) s =
     (if ok then s\<lparr>np_list := mark_read_where (\<lambda>n. True) (np_list s)\<rparr> else s)"

text \<open>Another party (a trigger or the back office) inserts a row.\<close>

definition insert_row :: "notification \<Rightarrow> nprov \<Rightarrow> nprov" where
  "insert_row n s =
     s\<lparr>np_store := n # np_store s, np_sent := np_sent s @ signals (np_channel s) (\<lambda>m. True) [n]\<rparr>"

datatype nevent =
    NSetUser "string option"
  | NServe nat bool
  | NDeliver nat
  | NInsert notification
  | NMarkAsRead nat
  | NMarkAllRead

fun nstep :: "nprov \<Rightarrow> nevent \<Rightarrow> nprov" where
  "nstep s (NSetUser u) = set_user u s"
| "nstep s (NServe i ok) = serve_req i ok s"
| "nstep s (NDeliver i) =
     (if i < length (np_resp s) then deliver_resp (np_resp s ! i) (s\<lparr>np_resp := remove_index i (np_resp s)\<rparr>)
      else s)"
| "nstep s (NInsert n) = insert_row n s"
| "nstep s (NMarkAsRead i) = markAsRead i s"
| "nstep s NMarkAllRead = markAllRead s"

definition nrun :: "nprov \<Rightarrow> nevent list \<Rightarrow> nprov" where
  "nrun = foldl nstep"

subsection \<open>The Notifications page\<close>

datatype notif_error = NotAuthenticated | NStoreError string

text \<open>\<open>queryFn\<close> (lines 28--43); \<open>err\<close> is the error of the select, if any.\<close>

definition notifQueryFn :: "string option \<Rightarrow> string option \<Rightarrow> notif_table \<Rightarrow> notif_error + notification list" where
  "notifQueryFn uid err tbl =
     (case uid of
        None \<Rightarrow> Inl NotAuthenticated
      | Some u \<Rightarrow> (case err of Some m \<Rightarrow> Inl (NStoreError m) | None \<Rightarrow> Inr (select_user u tbl)))"

text \<open>The two \<open>mutationFn\<close>s (lines 50--60 and 68--77).\<close>

definition markAsReadFn :: "string option \<Rightarrow> string option \<Rightarrow> nat \<Rightarrow> notif_table \<Rightarrow> notif_error + notif_table" where
  "markAsReadFn uid err i tbl =
     (case uid of
        None \<Rightarrow> Inl NotAuthenticated
      | Some u \<Rightarrow> (case err of
                    Some m \<Rightarrow> Inl (NStoreError m)
                  | None \<Rightarrow> Inr (mark_read_where (\<lambda>n. n_id n = i \<and> n_user n = u) tbl)))"

definition clearAllFn :: "string option \<Rightarrow> string option \<Rightarrow> notif_table \<Rightarrow> notif_error + notif_table" where
  "clearAllFn uid err tbl =
     (case uid of
        None \<Rightarrow> Inl NotAuthenticated
      | Some u \<Rightarrow> (case err of
                    Some m \<Rightarrow> Inl (NStoreError m)
                  | None \<Rightarrow> Inr (delete_where (\<lambda>n. n_user n = u) tbl)))"

text \<open>
  The page's state: the store, \<open>user?.id\<close>, the query's cached \<open>data\<close> and whether
  its latest run failed (\<open>useQuery\<close> keeps the data of an earlier run when a later
  one fails).
\<close>

record npage =
  ng_store :: notif_table
  ng_user :: "string option"
  ng_data :: "notification list option"
  ng_error :: bool

definition npage_init :: "string option \<Rightarrow> notif_table \<Rightarrow> npage" where
  "npage_init u tbl = \<lparr>ng_store = tbl, ng_user = u, ng_data = None, ng_error = False\<rparr>"

text \<open>\<open>const \{ data: notifications = [] \} = useQuery(...)\<close>\<close>

definition ng_list :: "npage \<Rightarrow> notification list" where
  "ng_list s = (case ng_data s of None \<Rightarrow> [] | Some d \<Rightarrow> d)"

text \<open>A run of the query (on mount, after an invalidation, and from the Retry
  button of line 106); \<open>enabled: !!user?.id\<close> keeps it from running without a
  user.\<close>

definition ng_refetch :: "string option \<Rightarrow> npage \<Rightarrow> npage" where
  "ng_refetch err s =
     (if ng_user s = None then s
      else case notifQueryFn (ng_user s) err (ng_store s) of
             Inl e \<Rightarrow> s\<lparr>ng_error := True\<rparr>
           | Inr d \<Rightarrow> s\<lparr>ng_data := Some d, ng_error := False\<rparr>)"

text \<open>\<open>markAsRead\<close> (lines 83--85): the mutation, and on success the invalidation
  of the query (lines 61--63), which refetches; \<open>rerr\<close> is the answer of that
  refetch.\<close>

definition ng_markAsRead :: "nat \<Rightarrow> string option \<Rightarrow> string option \<Rightarrow> npage \<Rightarrow> npage" where
  "ng_markAsRead i err rerr s =
     (case markAsReadFn (ng_user s) err i (ng_store s) of
        Inl e \<Rightarrow> s
      | Inr tbl \<Rightarrow> ng_refetch rerr (s\<lparr>ng_store := tbl\<rparr>))"

text \<open>\<open>clearAll\<close> (lines 87--91): the dialog is shown only when the list is not
  empty; \<open>confirmed\<close> is its answer.\<close>

definition ng_clearAll :: "bool \<Rightarrow> string option \<Rightarrow> string option \<Rightarrow> npage \<Rightarrow> npage" where
  "ng_clearAll confirmed err rerr s =
     (if ng_list s \<noteq> [] \<and> confirmed then
        (case clearAllFn (ng_user s) err (ng_store s) of
           Inl e \<Rightarrow> s
         | Inr tbl \<Rightarrow> ng_refetch rerr (s\<lparr>ng_store := tbl\<rparr>))
      else s)"

record notif_card =
  nc_title :: string
  nc_message :: string
  nc_created :: string
  nc_highlight :: bool
  nc_read_button :: "(string \<times> bool) option"

datatype notif_screen =
    NotifLoading
  | NotifFailed
  | NotifPage nat "(string \<times> bool) option" "notif_card list"

text \<open>One card (lines 184--210): unread cards are highlighted and carry the
  \<open>Mark as Read\<close> button, disabled while a mark is pending.\<close>

definition notif_card :: "bool \<Rightarrow> notification \<Rightarrow> notif_card" where
  "notif_card readPending n =
     \<lparr>nc_title = n_title n, nc_message = n_message n, nc_created = n_created n,
      nc_highlight = (\<not> n_read n),
      nc_read_button = (if n_read n then None
                        else Some (if readPending then ''Reading...'' else ''Mark as Read'', readPending))\<rparr>"

text \<open>The render (lines 93--216): loading, then the error screen, then the header
  count, the \<open>Clear All\<close> button (shown with a non-empty list, disabled while
  pending) and the cards.\<close>

definition notifications_view :: "bool \<Rightarrow> bool \<Rightarrow> notification list \<Rightarrow> bool \<Rightarrow> bool \<Rightarrow> notif_screen" where
  "notifications_view isLoading err ns clearPending readPending =
     (if isLoading then NotifLoading
      else if err then NotifFailed
      else NotifPage (length ns)
             (if ns = [] then None
              else Some (if clearPending then ''Clearing...'' else ''Clear All ('' @ nat_str (length ns) @ '')'',
                         clearPending \<or> ns = []))
             (map (notif_card readPending) ns))"

subsection \<open>The unread badge of the Index page\<close>

text \<open>\<open>.select('*', \{ count: 'exact', head: true \}).eq('user_id', id).eq('read', false)\<close>
  and \<open>count || 0\<close> (\<open>src/unnamed/part_001\<close>, lines 34--59), shown when positive.\<close>

definition unread_badge_count :: "string \<Rightarrow> notif_table \<Rightarrow> nat" where
  "unread_badge_count u tbl = length (filter (\<lambda>n. n_user n = u \<and> \<not> n_read n) tbl)"

subsection \<open>Sample data\<close>

definition sample_n1 :: notification where
  "sample_n1 = \<lparr>n_id = 1, n_user = ''u1'', n_read = False, n_title = ''Order shipped'',
                n_message = ''Your order is on its way'', n_created = ''2025-01-01T08:00:00Z''\<rparr>"

definition sample_n2 :: notification where
  "sample_n2 = \<lparr>n_id = 2, n_user = ''u1'', n_read = False, n_title = ''New offer'',
                n_message = ''10% off with SAVE10'', n_created = ''2025-01-02T08:00:00Z''\<rparr>"

definition sample_n3 :: notification where
  "sample_n3 = \<lparr>n_id = 3, n_user = ''u2'', n_read = False, n_title = ''Order shipped'',
                n_message = ''Your order is on its way'', n_created = ''2025-01-01T09:00:00Z''\<rparr>"

text \<open>\<open>u1\<close> signs in and its list loads; \<open>u1\<close> presses \<open>markAllRead\<close> for its one
  unread row; a second row for \<open>u1\<close> is inserted; the store serves the update
  (whose signal queues a refetch) and both refetches; the two fetched lists reach
  the provider before the answer of the update.\<close>

definition markall_race :: "nevent list" where
  "markall_race =
     [NSetUser (Some ''u1''), NServe 0 True, NDeliver 0, NMarkAllRead, NInsert sample_n2,
      NServe 0 True, NServe 0 True, NServe 0 True, NDeliver 1, NDeliver 1, NDeliver 0]"

definition sample_prov :: nprov where
  "sample_prov = (nprov_init [sample_n1, sample_n3])\<lparr>np_user := Some ''u1'', np_channel := Some ''u1'',
                    np_sent := [QMarkRead (Some ''u1'') 1]\<rparr>"

definition sample_npage :: npage where
  "sample_npage = (npage_init (Some ''u1'') [sample_n1, sample_n3])\<lparr>ng_data := Some [sample_n1]\<rparr>"

subsection \<open>Lemmas\<close>

lemma write_pred_user: "write_pred q n \<Longrightarrow> req_user q = Some (n_user n)"
  by (cases q) auto

lemma select_user_mark_read_other:
  "(\<And>n. P n \<Longrightarrow> n_user n \<noteq> v) \<Longrightarrow> select_user v (mark_read_where P ns) = select_user v ns"
  by (induction ns) (auto simp: select_user_def mark_read_where_def)

lemma select_user_mark_read_own:
  "select_user u (mark_read_where (\<lambda>n. n_id n = i \<and> n_user n = u) ns) =
   mark_read_where (\<lambda>n. n_id n = i) (select_user u ns)"
  by (induction ns) (auto simp: select_user_def mark_read_where_def)

lemma mark_read_where_only_read:
  "list_all2 (\<lambda>a b. b = a \<or> b = a\<lparr>n_read := True\<rparr>) ns (mark_read_where P ns)"
  by (induction ns) (auto simp: mark_read_where_def)

lemma ng_refetch_store [simp]: "ng_store (ng_refetch err s) = ng_store s"
  by (auto simp: ng_refetch_def split: sum.split)

lemma select_user_delete_where:
  "select_user v (delete_where (\<lambda>n. n_user n = u) tbl) = (if v = u then [] else select_user v tbl)"
  by (induction tbl) (auto simp: select_user_def delete_where_def)

text \<open>
  C11. The provider's own writes touch only rows of the user they were sent for,
  and only their \<open>read\<close> flag, which they set: serving any request in flight
  leaves the rows of every other user as they were, and changes no row but by
  marking it read.
\<close>

theorem provider_writes_own_rows:
  assumes "req_user (np_sent s ! i) \<noteq> Some v"
  shows "select_user v (np_store (serve_req i ok s)) = select_user v (np_store s) \<and>
         list_all2 (\<lambda>a b. b = a \<or> b = a\<lparr>n_read := True\<rparr>) (np_store s) (np_store (serve_req i ok s))"
proof -
  have "\<And>n. write_pred (np_sent s ! i) n \<Longrightarrow> n_user n \<noteq> v"
    using assms write_pred_user by fastforce
  then show ?thesis
    by (simp add: serve_req_def Let_def select_user_mark_read_other mark_read_where_only_read
                  list_all2_refl)
qed

theorem provider_writes_own_rows_witness:
  "req_user (np_sent sample_prov ! 0) \<noteq> Some ''u2'' \<and>
   select_user ''u2'' (np_store (serve_req 0 True sample_prov)) = select_user ''u2'' (np_store sample_prov) \<and>
   list_all2 (\<lambda>a b. b = a \<or> b = a\<lparr>n_read := True\<rparr>) (np_store sample_prov) (np_store (serve_req 0 True sample_prov))"
proof -
  have h: "req_user (np_sent sample_prov ! 0) \<noteq> Some ''u2''" by (simp add: sample_prov_def)
  from provider_writes_own_rows[OF h] h show ?thesis by blast
qed

text \<open>
  \<open>markAllRead\<close> applies its answer as a local delta to whatever list the
  provider holds when the answer arrives, not to the rows it updated. When a row
  inserted after the click has been fetched before that answer arrives, the
  provider ends, with no request or answer left in flight and its channel open,
  showing every notification read while the store holds an unread one: the
  state the refetch-on-signal design is meant to exclude.
\<close>

theorem markAllRead_local_delta_diverges:
  "let s = nrun (nprov_init [sample_n1]) markall_race in
   np_sent s = [] \<and> np_resp s = [] \<and> np_channel s = Some ''u1'' \<and>
   unreadCount (np_list s) = 0 \<and> unreadCount (select_user ''u1'' (np_store s)) = 1"
  by code_simp

text \<open>
  C16. Clear All on the notifications page deletes only the signed-in user's rows:
  every other user's rows are kept, and the user's rows are gone afterwards
  exactly when the page listed something, the dialog was confirmed and the delete
  succeeded (or there were none to begin with).
\<close>

theorem clearAll_only_own_rows:
  assumes "ng_user s = Some u" and "v \<noteq> u"
  shows "select_user v (ng_store (ng_clearAll c err rerr s)) = select_user v (ng_store s) \<and>
         (select_user u (ng_store (ng_clearAll c err rerr s)) = [] \<longleftrightarrow>
            (ng_list s \<noteq> [] \<and> c \<and> err = None) \<or> select_user u (ng_store s) = [])"
  using assms
  by (auto simp: ng_clearAll_def clearAllFn_def select_user_delete_where split: option.split)

theorem clearAll_only_own_rows_witness:
  "ng_user sample_npage = Some ''u1'' \<and> ''u2'' \<noteq> ''u1'' \<and>
   select_user ''u2'' (ng_store (ng_clearAll True None None sample_npage)) = select_user ''u2'' (ng_store sample_npage) \<and>
   (select_user ''u1'' (ng_store (ng_clearAll True None None sample_npage)) = [] \<longleftrightarrow>
      (ng_list sample_npage \<noteq> [] \<and> True \<and> (None::string option) = None) \<or> select_user ''u1'' (ng_store sample_npage) = [])"
proof -
  have h: "ng_user sample_npage = Some ''u1''" "''u2'' \<noteq> ''u1''" by (simp_all add: sample_npage_def npage_init_def)
  from clearAll_only_own_rows[OF h] h show ?thesis by blast
qed

text \<open>
  Mark as Read on the notifications page persists: with a signed-in user and
  no store error, the stored rows of the user become those rows with the chosen
  one marked read, and the page then lists exactly the stored rows; a failed
  update changes nothing.
\<close>

theorem page_markAsRead_persists:
  assumes "ng_user s = Some u"
  shows "select_user u (ng_store (ng_markAsRead i None None s)) = mark_read_where (\<lambda>n. n_id n = i) (select_user u (ng_store s)) \<and>
         ng_list (ng_markAsRead i None None s) = select_user u (ng_store (ng_markAsRead i None None s)) \<and>
         ng_markAsRead i (Some m) rerr s = s"
  using assms
  by (simp add: ng_markAsRead_def markAsReadFn_def ng_refetch_def notifQueryFn_def ng_list_def
                select_user_mark_read_own)

theorem page_markAsRead_persists_witness:
  "ng_user sample_npage = Some ''u1'' \<and>
   select_user ''u1'' (ng_store (ng_markAsRead 1 None None sample_npage)) =
     mark_read_where (\<lambda>n. n_id n = 1) (select_user ''u1'' (ng_store sample_npage)) \<and>
   ng_list (ng_markAsRead 1 None None sample_npage) = select_user ''u1'' (ng_store (ng_markAsRead 1 None None sample_npage)) \<and>
   ng_markAsRead 1 (Some ''network'') None sample_npage = sample_npage"
proof -
  have h: "ng_user sample_npage = Some ''u1''" by (simp add: sample_npage_def npage_init_def)
  from page_markAsRead_persists[OF h] h show ?thesis by blast
qed

text \<open>
  The three readers of the table agree on the unread count: the provider's
  \<open>unreadCount\<close> after a fetch of a user's rows, the number of highlighted cards
  of the notifications page after its query, and the badge of the Index page.
\<close>

theorem unread_counts_agree:
  "unreadCount (np_list (deliver_resp (serve True (QFetch u) tbl) s)) = unread_badge_count u tbl \<and>
   (case notifQueryFn (Some u) None tbl of
      Inr ns \<Rightarrow> length (filter nc_highlight (map (notif_card rp) ns)) = unread_badge_count u tbl
    | Inl e \<Rightarrow> False)"
  by (simp add: unreadCount_def unread_badge_count_def select_user_def notifQueryFn_def notif_card_def
                conj_commute comp_def)

end
