(* ===== verification/Home.thy ===== *)
theory Home
  imports Product Notifications
begin

text \<open>
  The application shell and the two catalogue pages that hold no order state.
  \<open>App\<close> (\<open>src/src/App.tsx\<close>, lines 26--65) shows the splash screen
  (\<open>src/unnamed/part_000\<close>) until its three-second timer calls back, then the
  route table. The \<open>Index\<close> page (\<open>src/unnamed/part_001\<close>) renders the product
  grid from the \<open>products\<close> query with the unread badge of theory
  \<open>Notifications\<close> and the cart badge of theory \<open>Cart\<close>. The \<open>Offers\<close> page (the
  second half of \<open>App.tsx\<close>, lines 84--244) lists the offers whose expiry is
  still ahead. The answers of the store are inputs, as elsewhere.
\<close>

subsection \<open>The Index page\<close>

record index_card =
  ic_link :: string
  ic_name :: string
  ic_description :: string
  ic_benefits :: "string list"
  ic_price :: price_value
  ic_image :: "string option"

text \<open>One card of the grid (lines 198--226): the benefits are split into lines
  with no null check, and the image is shown when \<open>image_url\<close> is truthy.\<close>

definition index_card :: "product_rec \<Rightarrow> js_error + index_card" where
  "index_card p =
     (case prod_benefits p of
        None \<Rightarrow> Inl TypeError
      | Some b \<Rightarrow>
          Inr \<lparr>ic_link = ''/product/'' @ prod_id p, ic_name = prod_name p,
               ic_description = prod_description p, ic_benefits = js_split CHR ''\<newline>'' b,
               ic_price = prod_price p,
               ic_image = (case prod_image p of Some s \<Rightarrow> if s = [] then None else Some s | None \<Rightarrow> None)\<rparr>)"

text \<open>The unread query (lines 34--59): disabled without a session user, and a
  failed count leaves the default \<open>0\<close>.\<close>

definition index_unread :: "string option \<Rightarrow> string option \<Rightarrow> notif_table \<Rightarrow> nat" where
  "index_unread uid err tbl =
     (case uid of
        None \<Rightarrow> 0
      | Some u \<Rightarrow> (case err of Some m \<Rightarrow> 0 | None \<Rightarrow> unread_badge_count u tbl))"

datatype index_screen =
    IndexLoading
  | IndexError
  | IndexCrash js_error
  | IndexGrid "nat option" "int option" "index_card list"

text \<open>The render (lines 77--267): loading, the error screen, else the header with
  its two badges (each shown when positive) and the grid.\<close>

definition index_view :: "bool \<Rightarrow> bool \<Rightarrow> product_rec list \<Rightarrow> nat \<Rightarrow> cart_item list \<Rightarrow> index_screen" where
  "index_view isLoading err products unread cart =
     (if isLoading then IndexLoading
      else if err then IndexError
      else case map_err index_card products of
             Inl e \<Rightarrow> IndexCrash e
           | Inr cs \<Rightarrow> IndexGrid (if 0 < unread then Some unread else None)
                                (if 0 < totalItems cart then Some (totalItems cart) else None) cs)"

text \<open>The products query of the page (lines 62--69): the storage error is thrown,
  \<open>data || []\<close> otherwise; and the page from the state of that query (no result
  yet is \<open>isLoading\<close>, a failure is \<open>error\<close>, lines 77--91).\<close>

datatype products_answer = ProductsError string | ProductsData "product_rec list option"

definition indexProductsQuery :: "products_answer \<Rightarrow> string + product_rec list" where
  "indexProductsQuery ans =
     (case ans of ProductsError m \<Rightarrow> Inl m | ProductsData d \<Rightarrow> Inr (case d of None \<Rightarrow> [] | Some ps \<Rightarrow> ps))"

definition index_page :: "(string + product_rec list) option \<Rightarrow> nat \<Rightarrow> cart_item list \<Rightarrow> index_screen" where
  "index_page res unread cart =
     (case res of
        None \<Rightarrow> index_view True False [] unread cart
      | Some (Inl _) \<Rightarrow> index_view False True [] unread cart
      | Some (Inr ps) \<Rightarrow> index_view False False ps unread cart)"

subsection \<open>The Offers page\<close>

text \<open>An offer row; \<open>of_expiry\<close> is \<open>new Date(offer.expiry)\<close> in milliseconds,
  \<open>None\<close> when it is not a valid date (\<open>NaN\<close>, which no comparison accepts).\<close>

record offer =
  of_id :: string
  of_title :: string
  of_description :: string
  of_discount :: string
  of_code :: string
  of_expiry :: "int option"
  of_banner :: "string option"




record offer_card =
  oc_title :: string
  oc_description :: string
  oc_discount :: string
  oc_code_button :: string
  oc_banner :: "string option"

datatype offers_screen =
    OffersLoading
  | OffersMessage bool
  | OffersList nat "offer_card list"

text \<open>The render (lines 117--243): the error and the empty list share one screen,
  whose message depends on \<open>error\<close>.\<close>

definition offers_view :: "bool \<Rightarrow> bool \<Rightarrow> offer list \<Rightarrow> offers_screen" where
  "offers_view isLoading err offers =
     (if isLoading then OffersLoading
      else if err \<or> offers = [] then OffersMessage err
      else OffersList (length offers)
             (map (\<lambda>ofr. \<lparr>oc_title = of_title ofr, oc_description = of_description ofr,
                           oc_discount = of_discount ofr,
                           oc_code_button = ''Click To Copy Code: '' @ of_code ofr,
                           oc_banner = (case of_banner ofr of Some s \<Rightarrow> if s = [] then None else Some s
                                                          | None \<Rightarrow> None)\<rparr>) offers))"

subsection \<open>Routing\<close>

datatype app_page =
    PageIndex | PageProductDetail | PageCart | PageCheckout | PageOrders | PageTrackOrder
  | PageOffers | PageFarmerSupport | PageAccount | PageNotifications | PageAdminDashboard
  | PageNotFound

datatype rseg = RLit string | RParam

text \<open>The \<open>Routes\<close> of lines 41--56, the catch-all \<open>*\<close> aside.\<close>

definition app_routes :: "(rseg list \<times> app_page) list" where
  "app_routes =
     [([], PageIndex), ([RLit ''product'', RParam], PageProductDetail), ([RLit ''cart''], PageCart),
      ([RLit ''checkout''], PageCheckout), ([RLit ''orders''], PageOrders),
      ([RLit ''track''], PageTrackOrder), ([RLit ''track'', RParam], PageTrackOrder),
      ([RLit ''offers''], PageOffers), ([RLit ''support''], PageFarmerSupport),
      ([RLit ''account''], PageAccount), ([RLit ''notifications''], PageNotifications),
      ([RLit ''admin''], PageAdminDashboard)]"

text \<open>
  A route pattern against the segments of the location: literal segments compare
  without regard to ASCII case (the router's default, \<open>caseSensitive\<close> unset), a
  parameter takes one segment. The location is split at \<open>/\<close> and its empty
  segments dropped, so a trailing slash does not matter. Percent-decoding of
  parameters is not modelled.
\<close>

definition js_lower_char :: "char \<Rightarrow> char" where
  "js_lower_char c = (if 65 \<le> (of_char c :: nat) \<and> (of_char c :: nat) \<le> 90 then char_of (of_char c + 32 :: nat) else c)"

fun match_segs :: "rseg list \<Rightarrow> string list \<Rightarrow> string list option" where
  "match_segs [] [] = Some []"
| "match_segs (RLit l # ps) (s # ss) = (if map js_lower_char s = l then match_segs ps ss else None)"
| "match_segs (RParam # ps) (s # ss) = map_option (Cons s) (match_segs ps ss)"
| "match_segs _ _ = None"

definition path_segments :: "string \<Rightarrow> string list" where
  "path_segments p = filter (\<lambda>s. s \<noteq> []) (js_split CHR ''/'' p)"

fun route_in :: "(rseg list \<times> app_page) list \<Rightarrow> string list \<Rightarrow> app_page \<times> string list" where
  "route_in [] segs = (PageNotFound, [])"
| "route_in ((pat, pg) # rs) segs =
     (case match_segs pat segs of Some ps \<Rightarrow> (pg, ps) | None \<Rightarrow> route_in rs segs)"

definition route :: "string \<Rightarrow> app_page \<times> string list" where
  "route p = route_in app_routes (path_segments p)"

subsection \<open>The application shell\<close>

text \<open>\<open>App\<close>: \<open>showSplash\<close>, the location, and the time the splash timer has run.
  The timer is started once (the callback's identity changes only when \<open>App\<close>
  renders again, which it does when the splash ends).\<close>

record app_state =
  app_splash :: bool
  app_path :: string
  app_elapsed :: nat

datatype app_event = Elapse nat | Navigate string

definition app_init :: "string \<Rightarrow> app_state" where
  "app_init p = \<lparr>app_splash = True, app_path = p, app_elapsed = 0\<rparr>"

text \<open>\<open>setTimeout(onSplashComplete, 3000)\<close> (part_000, lines 8--15) and
  \<open>setShowSplash(false)\<close> (line 39).\<close>

fun app_step :: "app_state \<Rightarrow> app_event \<Rightarrow> app_state" where
  "app_step s (Elapse ms) =
     (if app_splash s then
        (if 3000 \<le> app_elapsed s + ms then s\<lparr>app_splash := False, app_elapsed := app_elapsed s + ms\<rparr>
         else s\<lparr>app_elapsed := app_elapsed s + ms\<rparr>)
      else s)"
| "app_step s (Navigate p) = s\<lparr>app_path := p\<rparr>"

definition app_run :: "app_state \<Rightarrow> app_event list \<Rightarrow> app_state" where
  "app_run = foldl app_step"

datatype app_screen = AppSplash | AppPage app_page "string list"

definition app_view :: "app_state \<Rightarrow> app_screen" where
  "app_view s = (if app_splash s then AppSplash else case route (app_path s) of (pg, ps) \<Rightarrow> AppPage pg ps)"

subsection \<open>Sample data\<close>



subsection \<open>Lemmas\<close>

lemma app_run_elapse:
  "app_splash s \<Longrightarrow> app_elapsed s < 3000 \<Longrightarrow>
   app_path (app_run s (map Elapse ds)) = app_path s \<and>
   (app_splash (app_run s (map Elapse ds)) \<longleftrightarrow> app_elapsed s + sum_list ds < 3000)"
proof (induction ds arbitrary: s)
  case Nil then show ?case by (simp add: app_run_def)
next
  case (Cons d ds)
  show ?case
  proof (cases "3000 \<le> app_elapsed s + d")
    case True
    have "app_run (app_step s (Elapse d)) (map Elapse ds) = app_step s (Elapse d)"
      using True Cons.prems by (induction ds) (simp_all add: app_run_def)
    then show ?thesis using True Cons.prems by (simp add: app_run_def)
  next
    case False
    then show ?thesis using Cons.IH[of "app_step s (Elapse d)"] Cons.prems by (simp add: app_run_def add.assoc)
  qed
qed

lemma path_segments_two:
  assumes "CHR ''/'' \<notin> set a" "a \<noteq> []" "CHR ''/'' \<notin> set b" "b \<noteq> []"
  shows "path_segments (''/'' @ a @ ''/'' @ b) = [a, b]"
proof -
  have "''/'' @ a @ ''/'' @ b = [] @ CHR ''/'' # (a @ CHR ''/'' # b)" by simp
  then show ?thesis using assms
    by (simp only: path_segments_def) (simp add: js_split_sep js_split_no_sep del: append_Cons append_Nil)
qed


lemma index_crash_on_null_benefits:
  "list_ex (\<lambda>p. prod_benefits p = None) ps \<Longrightarrow> map_err index_card ps = Inl TypeError"
  by (induction ps) (auto simp: index_card_def split: option.split sum.split)

text \<open>
  The route table is unambiguous: whatever the location, at most one of its
  routes matches, so the first match taken by \<open>route\<close> is the route the router's
  ranking picks, and every other location reaches the catch-all \<open>NotFound\<close>.
\<close>

theorem routes_unambiguous:
  "length (filter (\<lambda>(pat, pg). match_segs pat segs \<noteq> None) app_routes) \<le> 1"
proof (cases segs)
  case Nil then show ?thesis by (simp add: app_routes_def)
next
  case (Cons a rest)
  then show ?thesis
  proof (cases rest)
    case Nil with Cons show ?thesis by (simp add: app_routes_def)
  next
    case (Cons b rest') with \<open>segs = a # rest\<close> show ?thesis
      by (cases rest') (simp_all add: app_routes_def)
  qed
qed

text \<open>
  C40. Whatever location the application is opened at, it shows the splash screen
  until the timer has run 3000 ms in total, and from then on the page the route
  table gives for that location.
\<close>

theorem splash_then_route:
  "app_view (app_run (app_init p) (map Elapse ds)) =
   (if 3000 \<le> sum_list ds then (case route p of (pg, ps) \<Rightarrow> AppPage pg ps) else AppSplash)"
  using app_run_elapse[of "app_init p" ds] by (simp add: app_view_def app_init_def)



end
