(* ===== verification/AccountPage.thy ===== *)
theory AccountPage
  imports Account
begin

text \<open>
  The account page of \<open>src/src/pages/Account.tsx\<close> as a whole, over the browser it
  runs in: the form inputs and mode switch (lines 41--45, 264--326), the handlers
  of theory \<open>Account\<close> wired to their buttons, sign-out (lines 130--132), the
  new-address form (lines 369--393), the saved addresses read from and written
  back to local storage under the one key \<open>savedAddresses\<close> (lines 24--37), and
  the render (lines 168--426). The browser state pairs the authentication
  provider of theory \<open>Account\<close> with local storage and the mounted page.
\<close>

datatype auth_field = EmailField | PasswordField | ConfirmField

text \<open>\<open>handleAuthInputChange\<close> (lines 41--45): the named field, and the error
  cleared.\<close>

definition handleAuthInputChange :: "auth_field \<Rightarrow> string \<Rightarrow> account_auth \<Rightarrow> account_auth" where
  "handleAuthInputChange f v st =
     st\<lparr>au_form := (case f of
                     EmailField \<Rightarrow> (au_form st)\<lparr>af_email := v\<rparr>
                   | PasswordField \<Rightarrow> (au_form st)\<lparr>af_password := v\<rparr>
                   | ConfirmField \<Rightarrow> (au_form st)\<lparr>af_confirm := v\<rparr>),
        au_error := []\<rparr>"

record account_page =
  acp_auth :: account_auth
  acp_book :: "saved_address list"
  acp_label :: string
  acp_full :: string

text \<open>Mounting (lines 18--30): the book is what local storage holds under
  \<open>savedAddresses\<close>, else empty.\<close>

definition account_mount :: "saved_address list option \<Rightarrow> account_page" where
  "account_mount stored =
     \<lparr>acp_auth = \<lparr>au_form = empty_form, au_error = [], au_otp_sent = False, au_mode = SignInMode,
                  au_alerts = []\<rparr>,
      acp_book = (case stored of Some xs \<Rightarrow> xs | None \<Rightarrow> []),
      acp_label = [], acp_full = []\<rparr>"

record browser =
  br_auth :: auth_provider
  br_storage :: "saved_address list option"
  br_page :: account_page

datatype account_event =
    AuthChange "session option"
  | AuthInput auth_field string
  | SetMode auth_mode
  | SubmitAuth "string option" bool
  | VerifyOtpClick "string option"
  | GoogleClick
  | SignOutClick "string option"
  | NewLabel string
  | NewFull string
  | SaveAddress nat
  | SetDefaultClick string
  | DeleteClick string

text \<open>The page's handlers on the page state. The submit button runs
  \<open>handleSignIn\<close> or \<open>handleSignUp\<close> by mode (line 322) with the outcome of the
  call; saving an address needs a user (line 144) and clears the form.\<close>

fun account_page_step :: "bool \<Rightarrow> account_page \<Rightarrow> account_event \<Rightarrow> account_page" where
  "account_page_step u pg (AuthInput f v) = pg\<lparr>acp_auth := handleAuthInputChange f v (acp_auth pg)\<rparr>"
| "account_page_step u pg (SetMode m) = pg\<lparr>acp_auth := (acp_auth pg)\<lparr>au_mode := m\<rparr>\<rparr>"
| "account_page_step u pg (SubmitAuth res resend) =
     pg\<lparr>acp_auth := (case au_mode (acp_auth pg) of
                      SignInMode \<Rightarrow> fst (handleSignIn res resend account_client (acp_auth pg))
                    | SignUpMode \<Rightarrow> fst (handleSignUp res (acp_auth pg)))\<rparr>"
| "account_page_step u pg (VerifyOtpClick otp) = pg\<lparr>acp_auth := verifyOtp account_client otp (acp_auth pg)\<rparr>"
| "account_page_step u pg GoogleClick = pg\<lparr>acp_auth := handleGoogleAuth (acp_auth pg)\<rparr>"
| "account_page_step u pg (NewLabel v) = pg\<lparr>acp_label := v\<rparr>"
| "account_page_step u pg (NewFull v) = pg\<lparr>acp_full := v\<rparr>"
| "account_page_step u pg (SaveAddress now) =
     (if acp_label pg \<noteq> [] \<and> acp_full pg \<noteq> [] \<and> u
      then pg\<lparr>acp_book := addAddress u now (acp_label pg) (acp_full pg) (acp_book pg),
              acp_label := [], acp_full := []\<rparr>
      else pg)"
| "account_page_step u pg (SetDefaultClick i) = pg\<lparr>acp_book := setDefaultAddress i (acp_book pg)\<rparr>"
| "account_page_step u pg (DeleteClick i) = pg\<lparr>acp_book := deleteAddress i (acp_book pg)\<rparr>"
| "account_page_step u pg _ = pg"

text \<open>One event in the browser: the provider takes the authentication events
  (\<open>handleSignOut\<close>, lines 130--132, awaits \<open>signOut()\<close>, which ends in the change
  event of a signed-out session, or throws its error, which nothing catches and
  which leaves the session), the page its
  handlers, and the effect of lines 33--37 writes the book back after every
  render.\<close>

fun account_step :: "browser \<Rightarrow> account_event \<Rightarrow> browser" where
  "account_step b (AuthChange s) = b\<lparr>br_auth := auth_step (br_auth b) (AuthStateChange s)\<rparr>"
| "account_step b (SignOutClick res) =
     (case auth_call res of
        Inr _ \<Rightarrow> b\<lparr>br_auth := auth_step (br_auth b) (AuthStateChange None)\<rparr>
      | Inl _ \<Rightarrow> b)"
| "account_step b e =
     (let pg = account_page_step (auth_user (br_auth b) \<noteq> None) (br_page b) e in
      b\<lparr>br_page := pg, br_storage := Some (acp_book pg)\<rparr>)"

definition browser_open :: "saved_address list option \<Rightarrow> browser" where
  "browser_open stored =
     \<lparr>br_auth = auth_init, br_storage = Some (acp_book (account_mount stored)),
      br_page = account_mount stored\<rparr>"

definition account_run :: "browser \<Rightarrow> account_event list \<Rightarrow> browser" where
  "account_run = foldl account_step"

text \<open>The events of signing in and out: the provider's session changes and the
  sign-out button.\<close>

fun auth_event :: "account_event \<Rightarrow> bool" where
  "auth_event (AuthChange s) = True"
| "auth_event (SignOutClick res) = True"
| "auth_event _ = False"

subsection \<open>The render\<close>

record addr_card =
  ac_label :: string
  ac_full :: string
  ac_default :: bool
  ac_set_default :: bool

datatype account_screen =
    AccountLoading
  | AccountSignedIn string bool "addr_card list" bool
  | AccountSignedOut auth_mode bool "string option" "string option" string

text \<open>Lines 168--426: loading; with a session the welcome card (email, the admin
  badge), the saved addresses with their buttons and the admin link; without one
  the sign-in form with the confirm field in sign-up mode, the error, the code
  panel and the submit label.\<close>

definition account_view :: "auth_provider \<Rightarrow> account_page \<Rightarrow> account_screen" where
  "account_view ap pg =
     (if ap_loading ap then AccountLoading
      else case ap_session ap of
        Some s \<Rightarrow>
          AccountSignedIn (se_email s) (isAdmin ap)
            (map (\<lambda>a. \<lparr>ac_label = sa_label a, ac_full = sa_fullAddress a, ac_default = sa_isDefault a,
                       ac_set_default = (\<not> sa_isDefault a)\<rparr>) (acp_book pg))
            (isAdmin ap)
      | None \<Rightarrow>
          (let au = acp_auth pg in
           AccountSignedOut (au_mode au) (au_mode au = SignUpMode)
             (if au_error au = [] then None else Some (au_error au))
             (if au_otp_sent au then Some (af_email (au_form au)) else None)
             (if au_mode au = SignInMode then ''Sign In'' else ''Create Account'')))"

subsection \<open>Sample data\<close>

definition sample_session :: "string \<Rightarrow> string \<Rightarrow> session" where
  "sample_session u e = \<lparr>se_user_id = u, se_email = e, se_role = None\<rparr>"

subsection \<open>Lemmas\<close>

text \<open>Signing in and out leaves the page and local storage as they are, and the
  provider, once loaded, stays loaded.\<close>

lemma auth_events_run:
  "list_all auth_event es \<Longrightarrow>
   br_page (account_run b es) = br_page b \<and> br_storage (account_run b es) = br_storage b \<and>
   (\<not> ap_loading (br_auth b) \<longrightarrow> \<not> ap_loading (br_auth (account_run b es)))"
proof (induction es arbitrary: b)
  case Nil
  then show ?case by (simp add: account_run_def)
next
  case (Cons e es)
  then have e: "auth_event e" and IH: "\<And>b. br_page (account_run b es) = br_page b \<and>
      br_storage (account_run b es) = br_storage b \<and>
      (\<not> ap_loading (br_auth b) \<longrightarrow> \<not> ap_loading (br_auth (account_run b es)))" by auto
  have "br_page (account_step b e) = br_page b \<and> br_storage (account_step b e) = br_storage b \<and>
        (\<not> ap_loading (br_auth b) \<longrightarrow> \<not> ap_loading (br_auth (account_step b e)))"
    using e by (cases e) (auto split: sum.split)
  with IH[of "account_step b e"] show ?case by (simp add: account_run_def)
qed

end
