(* ===== verification/AdminPage.thy ===== *)
theory AdminPage
  imports Admin
begin

text \<open>
  The administration page of \<open>src/src/pages/AdminDashboard.tsx\<close> (second
  component, lines 140--668) as a whole: the tabs, the inputs of the new-product
  form (lines 512--639), the buttons that open and cancel the editors, and the
  render of the products tab (lines 368--641), over the handlers and mutations
  of theory \<open>Admin\<close>. The page state is the editor state of theory \<open>Admin\<close>
  paired with the catalogue store. Both editors of a card are shown when its
  product is the one being edited: \<open>editingTiers.length >= 0\<close> and
  \<open>editingVariants.length >= 0\<close> always hold, and one \<open>editingProductId\<close> serves
  both.
\<close>

subsection \<open>The new-product form\<close>

datatype new_field = NewName string | NewPrice string | NewDescription string

text \<open>\<open>setNewProduct(\{ ...newProduct, field: value \})\<close> (lines 517--529).\<close>

definition setNewProduct :: "new_field \<Rightarrow> admin_state \<Rightarrow> admin_state" where
  "setNewProduct f st =
     st\<lparr>ad_new := (case f of
                    NewName v \<Rightarrow> (ad_new st)\<lparr>np_name := v\<rparr>
                  | NewPrice v \<Rightarrow> (ad_new st)\<lparr>np_price := v\<rparr>
                  | NewDescription v \<Rightarrow> (ad_new st)\<lparr>np_description := v\<rparr>)\<rparr>"

text \<open>The tier inputs of the form (lines 542--557): \<open>newTiers[idx].field = value\<close>
  on a copy of the array.\<close>

definition updateNewTier :: "nat \<Rightarrow> tier_field \<Rightarrow> admin_state \<Rightarrow> admin_state" where
  "updateNewTier i f st =
     (let ts = np_tiers (ad_new st) in
      if i < length ts
      then st\<lparr>ad_new := (ad_new st)\<lparr>np_tiers := ts[i := (case f of
                                                         TierMin m \<Rightarrow> (m, snd (ts ! i))
                                                       | TierPrice s \<Rightarrow> (fst (ts ! i), s))]\<rparr>\<rparr>
      else st)"

definition removeNewTier :: "nat \<Rightarrow> admin_state \<Rightarrow> admin_state" where
  "removeNewTier i st = st\<lparr>ad_new := (ad_new st)\<lparr>np_tiers := remove_index i (np_tiers (ad_new st))\<rparr>\<rparr>"

text \<open>The variant inputs of the form (lines 589--623).\<close>

definition updateNewVariant :: "nat \<Rightarrow> variant_field \<Rightarrow> admin_state \<Rightarrow> admin_state" where
  "updateNewVariant i f st =
     (let vs = np_variants (ad_new st) in
      if i < length vs
      then st\<lparr>ad_new := (ad_new st)\<lparr>np_variants := vs[i := (case f of
                                                            VarSize s \<Rightarrow> (vs ! i)\<lparr>var_size := s\<rparr>
                                                          | VarPrice s \<Rightarrow> (vs ! i)\<lparr>var_price := PText s\<rparr>
                                                          | VarStock n \<Rightarrow> (vs ! i)\<lparr>var_stock := n\<rparr>)]\<rparr>\<rparr>
      else st)"

definition removeNewVariant :: "nat \<Rightarrow> admin_state \<Rightarrow> admin_state" where
  "removeNewVariant i st =
     st\<lparr>ad_new := (ad_new st)\<lparr>np_variants := remove_index i (np_variants (ad_new st))\<rparr>\<rparr>"

subsection \<open>Events of the page\<close>

datatype admin_event =
    SetTab string
  | EditTiersClick string
  | EditVariantsClick string
  | CancelEdit
  | AddTierClick
  | RemoveTierClick nat
  | TierInput nat tier_field
  | SaveTiersClick bool
  | AddVariantClick
  | RemoveVariantClick nat
  | VariantInput nat variant_field
  | SaveVariantsClick "bool list"
  | NewInput new_field
  | AddNewTierClick
  | NewTierInput nat tier_field
  | RemoveNewTierClick nat
  | AddNewVariantClick
  | NewVariantInput nat variant_field
  | RemoveNewVariantClick nat
  | AddProductSubmit add_product_answer

text \<open>The Edit buttons of a card pass its product, a row of the products query
  (lines 159--166, \<open>select('*, product_variants(*)')\<close>); the Cancel buttons
  (lines 453, 502) close the editors.\<close>

fun admin_step :: "admin_state \<times> catalog_store \<Rightarrow> admin_event \<Rightarrow> admin_state \<times> catalog_store" where
  "admin_step (st, cs) (SetTab t) = (st\<lparr>ad_tab := t\<rparr>, cs)"
| "admin_step (st, cs) (EditTiersClick pid) =
     (case product_by_id (cs_products cs) pid of Some p \<Rightarrow> (handleEditTiers p st, cs) | None \<Rightarrow> (st, cs))"
| "admin_step (st, cs) (EditVariantsClick pid) =
     (case product_by_id (cs_products cs) pid of Some p \<Rightarrow> (handleEditVariants cs p st, cs) | None \<Rightarrow> (st, cs))"
| "admin_step (st, cs) CancelEdit = (st\<lparr>ad_editing := None\<rparr>, cs)"
| "admin_step (st, cs) AddTierClick = (addTier st, cs)"
| "admin_step (st, cs) (RemoveTierClick i) = (removeTier i st, cs)"
| "admin_step (st, cs) (TierInput i f) = (updateTier i f st, cs)"
| "admin_step (st, cs) (SaveTiersClick ok) = saveTiers ok st cs"
| "admin_step (st, cs) AddVariantClick = (addVariant st, cs)"
| "admin_step (st, cs) (RemoveVariantClick i) = removeVariant i st cs"
| "admin_step (st, cs) (VariantInput i f) = (updateVariant i f st, cs)"
| "admin_step (st, cs) (SaveVariantsClick oks) = saveVariants oks st cs"
| "admin_step (st, cs) (NewInput f) = (setNewProduct f st, cs)"
| "admin_step (st, cs) AddNewTierClick = (addNewTier st, cs)"
| "admin_step (st, cs) (NewTierInput i f) = (updateNewTier i f st, cs)"
| "admin_step (st, cs) (RemoveNewTierClick i) = (removeNewTier i st, cs)"
| "admin_step (st, cs) AddNewVariantClick = (addNewVariant st, cs)"
| "admin_step (st, cs) (NewVariantInput i f) = (updateNewVariant i f st, cs)"
| "admin_step (st, cs) (RemoveNewVariantClick i) = (removeNewVariant i st, cs)"
| "admin_step (st, cs) (AddProductSubmit ans) = handleAddProduct ans st cs"

definition admin_run :: "admin_state \<times> catalog_store \<Rightarrow> admin_event list \<Rightarrow> admin_state \<times> catalog_store" where
  "admin_run = foldl admin_step"

text \<open>The typing in the inputs of the variant editor.\<close>

fun variant_input :: "admin_event \<Rightarrow> bool" where
  "variant_input (VariantInput i f) = True"
| "variant_input _ = False"

subsection \<open>The render of the products tab\<close>

record admin_card =
  acd_name :: string
  acd_description :: string
  acd_price :: price_value
  acd_tiers :: "(int \<times> price_value) list"
  acd_variants :: "(string \<times> price_value \<times> int) list"
  acd_tier_editor :: "(int \<times> price_value) list option"
  acd_variant_editor :: "(string \<times> price_value \<times> int) list option"

definition variant_line :: "variant_rec \<Rightarrow> string \<times> price_value \<times> int" where
  "variant_line v = (var_size v, var_price v, var_stock v)"

text \<open>One card (lines 373--508): the tiers and joined variants of the product
  (each list shown when not empty), and both editors when the product is being
  edited.\<close>

definition admin_card :: "catalog_store \<Rightarrow> admin_state \<Rightarrow> product_rec \<Rightarrow> admin_card" where
  "admin_card cs st p =
     \<lparr>acd_name = prod_name p, acd_description = prod_description p, acd_price = prod_price p,
      acd_tiers = (case prod_tiers p of Some ts \<Rightarrow> ts | None \<Rightarrow> []),
      acd_variants = map variant_line (filter (\<lambda>v. var_product_id v = prod_id p) (cs_variants cs)),
      acd_tier_editor = (if ad_editing st = Some (prod_id p) then Some (ad_tiers st) else None),
      acd_variant_editor = (if ad_editing st = Some (prod_id p) then Some (map variant_line (ad_variants st)) else None)\<rparr>"

datatype admin_screen = AdminProducts "admin_card list" new_product | AdminOtherTab string

text \<open>The tab bar (lines 329--343) and the products tab; the orders tab lists the
  empty array \<open>[]\<close> and the other tabs are empty.\<close>

definition admin_view :: "admin_state \<Rightarrow> catalog_store \<Rightarrow> admin_screen" where
  "admin_view st cs =
     (if ad_tab st = ''products'' then AdminProducts (map (admin_card cs st) (cs_products cs)) (ad_new st)
      else AdminOtherTab (ad_tab st))"

subsection \<open>Sample data\<close>

definition sample_product2 :: product_rec where
  "sample_product2 = sample_product\<lparr>prod_id := ''p2'', prod_name := ''Compost Tea'',
                                     prod_tiers := Some [(10, PText ''900'')]\<rparr>"

definition two_product_store :: catalog_store where
  "two_product_store = \<lparr>cs_products = [sample_product, sample_product2], cs_variants = [sample_variant]\<rparr>"

subsection \<open>The shared editor state\<close>

text \<open>Typing in the variant editor changes neither the id nor the product of a
  variant, and touches no table.\<close>

definition same_row :: "variant_rec \<Rightarrow> variant_rec \<Rightarrow> bool" where
  "same_row v w \<longleftrightarrow> var_id v = var_id w \<and> var_product_id v = var_product_id w"

lemma updateVariant_same_rows:
  "list_all2 same_row (ad_variants (updateVariant i f st)) (ad_variants st)"
  by (cases f) (auto simp: updateVariant_def same_row_def list_all2_conv_all_nth nth_list_update)

lemma variant_inputs_run:
  "list_all variant_input es \<Longrightarrow>
   snd (admin_run (st, cs) es) = cs \<and> list_all2 same_row (ad_variants (fst (admin_run (st, cs) es))) (ad_variants st)"
proof (induction es arbitrary: st)
  case Nil
  then show ?case by (simp add: admin_run_def list_all2_refl same_row_def)
next
  case (Cons e es)
  then obtain i f where e: "e = VariantInput i f" by (cases e) auto
  with Cons have "snd (admin_run (updateVariant i f st, cs) es) = cs"
    and r: "list_all2 same_row (ad_variants (fst (admin_run (updateVariant i f st, cs) es)))
                               (ad_variants (updateVariant i f st))" by auto
  moreover have "list_all2 same_row (ad_variants (fst (admin_run (updateVariant i f st, cs) es))) (ad_variants st)"
    using list_all2_trans[OF _ r updateVariant_same_rows] by (auto simp: same_row_def)
  ultimately show ?case by (simp add: admin_run_def e)
qed

text \<open>Upserting rows of product \<open>a\<close>, whose ids are in the table only on rows of
  \<open>a\<close>, leaves the rows of every other product as they are.\<close>

lemma upsert_all_other_products:
  assumes "\<forall>v\<in>set vs. var_product_id v = a \<and> (\<forall>w\<in>set tbl. var_id w = var_id v \<longrightarrow> var_product_id w = a)"
  shows "filter (\<lambda>w. var_product_id w \<noteq> a) (upsert_all oks vs tbl) = filter (\<lambda>w. var_product_id w \<noteq> a) tbl"
  using assms
proof (induction oks vs tbl rule: upsert_all.induct)
  case (1 ok oks v vs tbl)
  let ?tbl = "if ok then upsert_variant v tbl else tbl"
  have va: "var_product_id v = a" and ids: "\<forall>w\<in>set tbl. var_id w = var_id v \<longrightarrow> var_product_id w = a"
    using "1.prems" by auto
  have "filter (\<lambda>w. var_product_id w \<noteq> a) (map (\<lambda>w. if var_id w = var_id v then v else w) tbl) =
        filter (\<lambda>w. var_product_id w \<noteq> a) tbl"
    by (rule filter_map_same) (use va ids in auto)
  then have keep: "filter (\<lambda>w. var_product_id w \<noteq> a) ?tbl = filter (\<lambda>w. var_product_id w \<noteq> a) tbl"
    using va by (simp add: upsert_variant_def)
  have "\<forall>v'\<in>set vs. var_product_id v' = a \<and> (\<forall>w\<in>set ?tbl. var_id w = var_id v' \<longrightarrow> var_product_id w = a)"
    using "1.prems" by (auto simp: upsert_variant_def)
  with "1.IH" keep show ?case by simp
qed simp_all

text \<open>
  C18. The two editors share \<open>editingProductId\<close> but \<open>handleEditTiers\<close> does not
  reload the variants: for any two products of the store, after the variants of
  the first are edited and the editor cancelled, opening the tier editor of the
  second shows, under the second product, a variant editor holding the first
  product's variants; whatever is then typed in it, saving it writes rows of the
  first product only, and the rows of every other product, the second's
  included, stay as they were.
\<close>

theorem stale_variant_editor_writes_other_product:
  assumes "product_by_id (cs_products cs) a = Some p" and "product_by_id (cs_products cs) b = Some q"
    and "distinct (map var_id (cs_variants cs))" and "list_all variant_input es"
  shows "let r1 = admin_run (st, cs) [EditVariantsClick a, CancelEdit, EditTiersClick b];
             r2 = admin_run r1 (es @ [SaveVariantsClick oks])
         in acd_variant_editor (admin_card cs (fst r1) q) =
              Some (map variant_line (filter (\<lambda>v. var_product_id v = a) (cs_variants cs))) \<and>
            filter (\<lambda>v. var_product_id v \<noteq> a) (cs_variants (snd r2)) =
              filter (\<lambda>v. var_product_id v \<noteq> a) (cs_variants cs)"
proof -
  have pa: "prod_id p = a" and pb: "prod_id q = b"
    using assms(1,2) find_Some_in by (fastforce simp: product_by_id_def)+
  define st1 where "st1 = handleEditTiers q ((handleEditVariants cs p st)\<lparr>ad_editing := None\<rparr>)"
  define us where "us = filter (\<lambda>v. var_product_id v = a) (cs_variants cs)"
  have r1: "admin_run (st, cs) [EditVariantsClick a, CancelEdit, EditTiersClick b] = (st1, cs)"
    using assms(1,2) by (simp add: admin_run_def st1_def)
  have v1: "ad_variants st1 = us" and e1: "ad_editing st1 = Some b"
    by (simp_all add: st1_def us_def handleEditTiers_def handleEditVariants_def pa pb)
  obtain st2 where r2: "admin_run (st1, cs) es = (st2, cs)" and same: "list_all2 same_row (ad_variants st2) us"
    using variant_inputs_run[OF assms(4), of st1 cs] v1 by (metis prod.collapse)
  have "\<forall>v\<in>set (ad_variants st2). var_product_id v = a \<and>
          (\<forall>w\<in>set (cs_variants cs). var_id w = var_id v \<longrightarrow> var_product_id w = a)"
  proof
    fix v assume "v \<in> set (ad_variants st2)"
    then obtain i where i: "i < length (ad_variants st2)" "v = ad_variants st2 ! i"
      by (auto simp: in_set_conv_nth)
    then have u: "us ! i \<in> set us" "same_row v (us ! i)" using same by (auto simp: list_all2_conv_all_nth)
    then have "us ! i \<in> set (cs_variants cs)" "var_product_id (us ! i) = a" by (simp_all add: us_def)
    with u assms(3) show "var_product_id v = a \<and>
          (\<forall>w\<in>set (cs_variants cs). var_id w = var_id v \<longrightarrow> var_product_id w = a)"
      by (auto simp: same_row_def dest: inj_on_eq_iff[OF distinct_map[THEN iffD1, OF assms(3), THEN conjunct2]])
  qed
  then have "filter (\<lambda>v. var_product_id v \<noteq> a) (upsert_all oks (ad_variants st2) (cs_variants cs)) =
             filter (\<lambda>v. var_product_id v \<noteq> a) (cs_variants cs)"
    by (rule upsert_all_other_products)
  with r1 r2 e1 v1 pb show ?thesis
    by (simp add: admin_run_def admin_card_def saveVariants_def us_def)
qed

theorem stale_variant_editor_writes_other_product_witness:
  "product_by_id (cs_products two_product_store) ''p1'' = Some sample_product \<and>
   product_by_id (cs_products two_product_store) ''p2'' = Some sample_product2 \<and>
   distinct (map var_id (cs_variants two_product_store)) \<and>
   list_all variant_input [VariantInput 0 (VarSize ''2L'')] \<and>
   (let r1 = admin_run (admin_init\<lparr>ad_tab := ''products''\<rparr>, two_product_store)
              [EditVariantsClick ''p1'', CancelEdit, EditTiersClick ''p2''];
        r2 = admin_run r1 ([VariantInput 0 (VarSize ''2L'')] @ [SaveVariantsClick [True]])
    in acd_variant_editor (admin_card two_product_store (fst r1) sample_product2) =
         Some (map variant_line (filter (\<lambda>v. var_product_id v = ''p1'') (cs_variants two_product_store))) \<and>
       filter (\<lambda>v. var_product_id v \<noteq> ''p1'') (cs_variants (snd r2)) =
         filter (\<lambda>v. var_product_id v \<noteq> ''p1'') (cs_variants two_product_store))"
proof -
  have h1: "product_by_id (cs_products two_product_store) ''p1'' = Some sample_product"
    and h2: "product_by_id (cs_products two_product_store) ''p2'' = Some sample_product2"
    and h3: "distinct (map var_id (cs_variants two_product_store))"
    and h4: "list_all variant_input [VariantInput 0 (VarSize ''2L'')]"
    by (simp_all add: product_by_id_def two_product_store_def sample_product2_def sample_product_def
                      sample_variant_def)
  show ?thesis
    by (intro conjI h1 h2 h3 h4
          stale_variant_editor_writes_other_product[OF h1 h2 h3 h4, where st = "admin_init\<lparr>ad_tab := ''products''\<rparr>"
                                                      and oks = "[True]"])
qed

end
