(* ===== verification/Schema.thy ===== *)
theory Schema
  imports Checkout
begin

text \<open>
  The SQL schema of \<open>src/unnamed/part_003\<close> for the tables the code writes and
  reads: the columns of \<open>orders\<close>, \<open>notifications\<close> and \<open>products\<close> with their
  \<open>NOT NULL\<close> and \<open>DEFAULT\<close> clauses, and the \<open>CHECK\<close> on \<open>orders.status\<close>. An
  insert is accepted when every key it names is a column and every column that is
  \<open>NOT NULL\<close> without a default is given. The keys of the inserts are those of the
  calls in \<open>Checkout.tsx\<close> (lines 143--151 and 158--164).
\<close>

record column =
  col_name :: string
  col_required :: bool

definition col :: "string \<Rightarrow> bool \<Rightarrow> column" where
  "col n r = \<lparr>col_name = n, col_required = r\<rparr>"

text \<open>\<open>CREATE TABLE public.orders\<close> (lines 36--56): required are the columns
  \<open>NOT NULL\<close> without a \<open>DEFAULT\<close>.\<close>

definition orders_columns :: "column list" where
  "orders_columns =
     [col ''id'' False, col ''user_id'' True, col ''status'' False, col ''delivery_address'' True,
      col ''delivery_instructions'' False, col ''delivery_latitude'' False, col ''delivery_longitude'' False,
      col ''discount_code'' False, col ''discount_amount'' False, col ''subtotal'' True, col ''total'' True,
      col ''payment_approved_at'' False, col ''delivered_at'' False, col ''confirmed_at'' False,
      col ''created_at'' False, col ''updated_at'' False]"

text \<open>The \<open>CHECK (status IN (...))\<close> of lines 39--42.\<close>

definition orders_status_values :: "string list" where
  "orders_status_values =
     [''order_placed'', ''payment_pending'', ''payment_approved'', ''assigned_to_transport'',
      ''on_transport'', ''vehicle_reached'', ''out_for_delivery'', ''delivered'', ''confirmed_received'']"

definition orders_status_ok :: "json \<Rightarrow> bool" where
  "orders_status_ok v = (case v of JStr s \<Rightarrow> s \<in> set orders_status_values | _ \<Rightarrow> False)"

text \<open>\<open>CREATE TABLE public.notifications\<close> (lines 115--124).\<close>

definition notifications_columns :: "column list" where
  "notifications_columns =
     [col ''id'' False, col ''user_id'' True, col ''title'' True, col ''message'' True, col ''type'' True,
      col ''related_order_id'' False, col ''is_read'' False, col ''created_at'' False]"

text \<open>\<open>CREATE TABLE public.products\<close> (lines 21--32).\<close>

definition products_columns :: "column list" where
  "products_columns =
     [col ''id'' False, col ''name'' True, col ''description'' True, col ''controls'' False,
      col ''benefits'' False, col ''price_kes'' False, col ''image_url'' False, col ''is_active'' False,
      col ''created_at'' False, col ''updated_at'' False]"

text \<open>The other tables of the schema: \<open>profiles\<close> (lines 1--7), \<open>user_roles\<close>
  (lines 11--17, with its \<open>CHECK\<close> on the role), \<open>order_items\<close> (lines 60--67),
  \<open>order_stage_history\<close> (lines 71--78), \<open>delivery_addresses\<close> (lines 82--92)
  and \<open>discounts\<close> (lines 96--111).\<close>

definition profiles_columns :: "column list" where
  "profiles_columns =
     [col ''id'' True, col ''phone'' False, col ''full_name'' False, col ''created_at'' False,
      col ''updated_at'' False]"

definition user_roles_columns :: "column list" where
  "user_roles_columns = [col ''id'' False, col ''user_id'' True, col ''role'' True, col ''created_at'' False]"

definition user_role_ok :: "string \<Rightarrow> bool" where
  "user_role_ok r \<longleftrightarrow> r \<in> {''admin'', ''user''}"

definition order_items_columns :: "column list" where
  "order_items_columns =
     [col ''id'' False, col ''order_id'' True, col ''product_id'' True, col ''quantity'' True,
      col ''price_at_purchase'' True, col ''created_at'' False]"

definition order_stage_history_columns :: "column list" where
  "order_stage_history_columns =
     [col ''id'' False, col ''order_id'' True, col ''from_status'' False, col ''to_status'' True,
      col ''notes'' False, col ''created_at'' False]"

definition delivery_addresses_columns :: "column list" where
  "delivery_addresses_columns =
     [col ''id'' False, col ''user_id'' True, col ''label'' True, col ''address'' True,
      col ''latitude'' False, col ''longitude'' False, col ''is_default'' False,
      col ''created_at'' False, col ''updated_at'' False]"

definition discounts_columns :: "column list" where
  "discounts_columns =
     [col ''id'' False, col ''code'' True, col ''description'' False, col ''discount_percentage'' False,
      col ''discount_amount'' False, col ''is_active'' False, col ''valid_from'' False,
      col ''valid_until'' False, col ''max_uses'' False, col ''current_uses'' False,
      col ''created_at'' False, col ''updated_at'' False]"

text \<open>The \<open>CHECK\<close> of lines 109--110: exactly one of percentage and amount.\<close>

definition discounts_check :: "rat option \<Rightarrow> rat option \<Rightarrow> bool" where
  "discounts_check pct amt \<longleftrightarrow> (pct \<noteq> None \<and> amt = None) \<or> (pct = None \<and> amt \<noteq> None)"

text \<open>The tables of the schema, in its order.\<close>

definition schema_tables :: "(string \<times> column list) list" where
  "schema_tables =
     [(''profiles'', profiles_columns), (''user_roles'', user_roles_columns), (''products'', products_columns),
      (''orders'', orders_columns), (''order_items'', order_items_columns),
      (''order_stage_history'', order_stage_history_columns), (''delivery_addresses'', delivery_addresses_columns),
      (''discounts'', discounts_columns), (''notifications'', notifications_columns)]"

text \<open>The tables the code names in its \<open>supabase.from(...)\<close> calls, in every
  file under \<open>src\<close>.\<close>

definition code_tables :: "string list" where
  "code_tables = [''products'', ''notifications'', ''orders'', ''product_variants'', ''reviews'', ''offers'']"

text \<open>Row level security: \<open>ALTER TABLE ... ENABLE ROW LEVEL SECURITY\<close> follows
  every table (lines 9, 19, 34, 58, 69, 80, 94, 113, 126), and the file creates no
  policy. A table with security enabled and no policy lets the client roles read
  no row and write none.\<close>

definition rls_enabled :: "string list" where
  "rls_enabled = map fst schema_tables"

definition schema_policies :: "(string \<times> string) list" where
  "schema_policies = []"

definition client_access :: "string \<Rightarrow> bool" where
  "client_access t = (if t \<in> set rls_enabled then list_ex (\<lambda>p. fst p = t) schema_policies else True)"

definition has_table :: "string \<Rightarrow> bool" where
  "has_table t = list_ex (\<lambda>(n, _). n = t) schema_tables"

definition has_column :: "column list \<Rightarrow> string \<Rightarrow> bool" where
  "has_column cols k = list_ex (\<lambda>c. col_name c = k) cols"

definition insert_accepted :: "column list \<Rightarrow> string list \<Rightarrow> bool" where
  "insert_accepted cols keys \<longleftrightarrow>
     list_all (has_column cols) keys \<and> list_all (\<lambda>c. col_name c \<in> set keys) (filter col_required cols)"

text \<open>The keys of the order insert (lines 145--150) and of the notification
  insert (lines 160--164) of \<open>handlePlaceOrder\<close>.\<close>

definition checkout_insert_keys :: "string list" where
  "checkout_insert_keys = [''user_id'', ''items'', ''total_price'', ''status'', ''stages'']"

definition checkout_notification_keys :: "string list" where
  "checkout_notification_keys = [''user_id'', ''title'', ''message'']"

text \<open>The keys of the product insert of the administration page (lines 198--203
  of \<open>AdminDashboard.tsx\<close>): the whole \<open>newProduct\<close> state, \<open>variants\<close> included.\<close>

definition admin_product_insert_keys :: "string list" where
  "admin_product_insert_keys = [''name'', ''price'', ''description'', ''pricing_tiers'', ''variants'']"

subsection \<open>The schema against the code\<close>

text \<open>
  The schema shipped with the sources does not describe the store the code
  uses: the order insert of checkout names three columns \<open>orders\<close> lacks and
  omits three it requires; the status it writes (commented as matching the schema)
  and every status the transitions write fail the \<open>CHECK\<close>; the notification
  insert omits the required \<open>type\<close>; the product insert of the administration
  names \<open>price\<close>, \<open>pricing_tiers\<close> and \<open>variants\<close>, which \<open>products\<close> lacks; and the
  columns the pages read
  (\<open>notifications.read\<close>, \<open>products.price\<close>, \<open>controls_or_benefits\<close>,
  \<open>pricing_tiers\<close>) do not exist; three of the six tables the code queries
  (\<open>product_variants\<close>, \<open>reviews\<close>, \<open>offers\<close>) are not in the schema, and six
  of its nine tables, the roles, order items, stage history, addresses and
  discounts among them, are never read or written. Row level security is on for
  every table and no policy is created, so the client may read or write none of
  them.
\<close>

theorem schema_rejects_code:
  "\<not> insert_accepted orders_columns checkout_insert_keys \<and>
   filter (\<lambda>k. \<not> has_column orders_columns k) checkout_insert_keys = [''items'', ''total_price'', ''stages''] \<and>
   filter (\<lambda>c. col_name c \<notin> set checkout_insert_keys) (filter col_required orders_columns) =
     [col ''delivery_address'' True, col ''subtotal'' True, col ''total'' True] \<and>
   \<not> orders_status_ok (row_status (checkout_row u cart sub st created)) \<and>
   list_all (\<lambda>n. \<not> orders_status_ok (JStr n)) default_stage_names \<and>
   \<not> insert_accepted notifications_columns checkout_notification_keys \<and>
   filter (\<lambda>k. \<not> has_column notifications_columns k) [''read''] = [''read''] \<and>
   filter (\<lambda>k. \<not> has_column products_columns k) [''price'', ''controls_or_benefits'', ''pricing_tiers''] =
     [''price'', ''controls_or_benefits'', ''pricing_tiers''] \<and>
   filter (\<lambda>k. \<not> has_column products_columns k) admin_product_insert_keys =
     [''price'', ''pricing_tiers'', ''variants''] \<and>
   filter (\<lambda>t. \<not> has_table t) code_tables = [''product_variants'', ''reviews'', ''offers''] \<and>
   filter (\<lambda>t. t \<notin> set code_tables) (map fst schema_tables) =
     [''profiles'', ''user_roles'', ''order_items'', ''order_stage_history'', ''delivery_addresses'', ''discounts''] \<and>
   filter client_access (map fst schema_tables) = []"
  by (simp add: insert_accepted_def has_column_def orders_columns_def notifications_columns_def
                products_columns_def col_def checkout_insert_keys_def checkout_notification_keys_def
                admin_product_insert_keys_def
                orders_status_ok_def orders_status_values_def checkout_row_def default_stage_names_def
                code_tables_def has_table_def schema_tables_def client_access_def rls_enabled_def
                schema_policies_def)

end
