(* ===== verification/ProductPage.thy ===== *)
theory ProductPage
  imports Product
begin

text \<open>
  The rest of the product page of \<open>src/src/pages/ProductDetail.tsx\<close>: the
  variants and reviews queries (lines 88--116), the review form's star buttons and
  comment box (lines 359--401), the review list (lines 403--424), and the page as
  a sequence of visitor events over its state and the reviews table, with the
  handlers of theory \<open>Product\<close>. The reviews table is kept in insertion order;
  \<open>.order('created_at', \{ ascending: false \})\<close> reads it newest first.
\<close>

text \<open>\<open>.from('product_variants').select('*').eq('product_id', id)\<close> (lines 88--99).\<close>

definition variants_of :: "string \<Rightarrow> variant_rec list \<Rightarrow> variant_rec list" where
  "variants_of pid vs = filter (\<lambda>v. var_product_id v = pid) vs"

record review_card =
  rc_stars :: "bool list"
  rc_author :: string
  rc_comment :: string

text \<open>The reviews query (lines 101--116), every review shown as by
  \<open>Anonymous\<close>, and one card of the list (lines 405--420) with its five stars.\<close>

definition reviews_query :: "string \<Rightarrow> review_row list \<Rightarrow> review_card list" where
  "reviews_query pid rvs =
     map (\<lambda>r. \<lparr>rc_stars = map (\<lambda>i. int i < rv_rating r) [0..<5], rc_author = ''Anonymous'',
               rc_comment = rv_comment r\<rparr>)
         (rev (filter (\<lambda>r. rv_product_id r = pid) rvs))"

text \<open>The five star buttons \<open>[1, 2, 3, 4, 5]\<close> (line 363) and the comment box
  (line 377).\<close>

definition star_buttons :: "int list" where
  "star_buttons = [1, 2, 3, 4, 5]"

definition setRating :: "nat \<Rightarrow> pd_state \<Rightarrow> pd_state" where
  "setRating i st = (if i < length star_buttons then st\<lparr>pd_rating := star_buttons ! i\<rparr> else st)"

definition setComment :: "string \<Rightarrow> pd_state \<Rightarrow> pd_state" where
  "setComment c st = st\<lparr>pd_comment := c\<rparr>"

datatype review_form = ReviewForm "bool list" string "string option" string | SignInPrompt

text \<open>The reviews section (lines 354--424): the count, the form with a session
  (stars filled up to the rating, the error, the button label while the
  mutation runs) or the sign-in prompt, the cards, and the empty-list message.\<close>

definition reviews_view ::
  "bool \<Rightarrow> bool \<Rightarrow> pd_state \<Rightarrow> review_card list \<Rightarrow> nat \<times> review_form \<times> review_card list \<times> bool" where
  "reviews_view session pending st cards =
     (length cards,
      (if session
       then ReviewForm (map (\<lambda>s. s \<le> pd_rating st) star_buttons) (pd_comment st)
              (if pd_review_error st = [] then None else Some (pd_review_error st))
              (if pending then ''Submitting...'' else ''Submit Review'')
       else SignInPrompt),
      cards, cards = [])"

subsection \<open>The page over time\<close>

datatype pdp_event =
    PdpQuantity int
  | PdpSize string
  | PdpStar nat
  | PdpComment string
  | PdpSubmitReview "string option"

record pdp =
  pdp_state :: pd_state
  pdp_reviews :: "review_row list"

text \<open>One visitor event on the page of product \<open>pid\<close>, with the session and the
  signed-in user; a review submission carries the outcome of the insert.\<close>

fun pdp_step :: "string \<Rightarrow> variant_rec list \<Rightarrow> bool \<Rightarrow> string option \<Rightarrow> pdp \<Rightarrow> pdp_event \<Rightarrow> pdp" where
  "pdp_step pid vs session usr s (PdpQuantity d) = s\<lparr>pdp_state := handleQuantityChange d (pdp_state s)\<rparr>"
| "pdp_step pid vs session usr s (PdpSize sz) = s\<lparr>pdp_state := selectSize vs sz (pdp_state s)\<rparr>"
| "pdp_step pid vs session usr s (PdpStar i) = s\<lparr>pdp_state := setRating i (pdp_state s)\<rparr>"
| "pdp_step pid vs session usr s (PdpComment c) = s\<lparr>pdp_state := setComment c (pdp_state s)\<rparr>"
| "pdp_step pid vs session usr s (PdpSubmitReview res) =
     (let r = handleAddReview session pid usr res (pdp_state s) (pdp_reviews s) in
      s\<lparr>pdp_state := fst r, pdp_reviews := snd r\<rparr>)"

definition pdp_init :: "review_row list \<Rightarrow> pdp" where
  "pdp_init rvs = \<lparr>pdp_state = pd_init, pdp_reviews = rvs\<rparr>"

definition pdp_run :: "string \<Rightarrow> variant_rec list \<Rightarrow> bool \<Rightarrow> string option \<Rightarrow> pdp \<Rightarrow> pdp_event list \<Rightarrow> pdp" where
  "pdp_run pid vs session usr = foldl (pdp_step pid vs session usr)"

text \<open>A rating the star buttons can produce.\<close>

definition rating_ok :: "int \<Rightarrow> bool" where "rating_ok r \<longleftrightarrow> 1 \<le> r \<and> r \<le> 5"

subsection \<open>Lemmas\<close>

lemma pdp_step_reviews:
  assumes ok: "rating_ok (pd_rating (pdp_state s))"
  shows "rating_ok (pd_rating (pdp_state (pdp_step pid vs session usr s e))) \<and>
   (\<exists>new. pdp_reviews (pdp_step pid vs session usr s e) = pdp_reviews s @ new \<and>
          list_all (\<lambda>r. rating_ok (rv_rating r)) new)"
proof (cases e)
  case (PdpStar i)
  then show ?thesis
  proof (cases "i < 5")
    case True
    then have "i \<in> {0,1,2,3,4}" by auto
    then show ?thesis using PdpStar ok by (auto simp: setRating_def star_buttons_def rating_ok_def)
  qed (simp add: PdpStar ok setRating_def star_buttons_def)
next
  case (PdpSubmitReview res)
  then show ?thesis using ok
    by (auto simp: handleAddReview_def addReview_def Let_def rating_ok_def split: option.split)
qed (auto simp: ok handleQuantityChange_def selectSize_def setComment_def split: option.split)

text \<open>
  C14. Bounds of the ratings the page writes: whatever a visitor clicks and types,
  every review the product page adds to the reviews table has a rating between
  1 and 5, since the rating starts at 5, is reset to 5 after each review and is
  otherwise set only by the five star buttons.
\<close>

theorem review_rating_bounds:
  "list_all (\<lambda>r. 1 \<le> rv_rating r \<and> rv_rating r \<le> 5)
     (drop (length rvs) (pdp_reviews (pdp_run pid vs session usr (pdp_init rvs) evs)))"
proof -
  have "rating_ok (pd_rating (pdp_state (pdp_run pid vs session usr s evs))) \<and>
        (\<exists>new. pdp_reviews (pdp_run pid vs session usr s evs) = pdp_reviews s @ new \<and>
               list_all (\<lambda>r. rating_ok (rv_rating r)) new)"
    if "rating_ok (pd_rating (pdp_state s))" for s
    using that
  proof (induction evs arbitrary: s)
    case Nil then show ?case by (simp add: pdp_run_def)
  next
    case (Cons e evs)
    from pdp_step_reviews[OF Cons.prems] obtain n1 where
      r1: "rating_ok (pd_rating (pdp_state (pdp_step pid vs session usr s e)))"
      and a1: "pdp_reviews (pdp_step pid vs session usr s e) = pdp_reviews s @ n1"
      and l1: "list_all (\<lambda>r. rating_ok (rv_rating r)) n1" by blast
    from Cons.IH[OF r1] obtain n2 where
      "rating_ok (pd_rating (pdp_state (pdp_run pid vs session usr (pdp_step pid vs session usr s e) evs)))"
      and "pdp_reviews (pdp_run pid vs session usr (pdp_step pid vs session usr s e) evs) =
           pdp_reviews (pdp_step pid vs session usr s e) @ n2"
      and "list_all (\<lambda>r. rating_ok (rv_rating r)) n2" by blast
    with a1 l1 show ?case by (auto simp: pdp_run_def)
  qed
  from this[of "pdp_init rvs"] show ?thesis
    by (auto simp: pdp_init_def pd_init_def rating_ok_def)
qed
end
