(* ===== verification/CartStore.thy ===== *)
theory CartStore
  imports Cart Json
begin

text \<open>
  The cart provider of \<open>src/src/contexts/AuthContext.tsx\<close> (second module,
  lines 155--233) with its copy of the cart in local storage under the key
  \<open>cart\<close>: \<open>loadInitialCart\<close> (lines 171--179), the first render that reads the
  loaded value as a cart (\<open>cart.reduce\<close>, line 211), the effect that writes
  \<open>JSON.stringify(cart)\<close> back after every render (lines 184--190), the four
  functions of the context (lines 193--209) and the context value (lines
  211--223). A stored text is represented by what \<open>JSON.parse\<close> makes of it
  (\<open>LsJson v\<close>), the empty string, or text that does not parse. The cart is
  written as a JSON array of item objects (\<open>cart_json\<close>); \<open>json_cart\<close> reads such
  an array back as the \<open>CartItem[]\<close> the code takes it for, and fails on every
  other value.
\<close>

datatype ls_text = LsEmpty | LsJson json | LsBad

type_synonym ls_slot = "ls_text option"

subsection \<open>\<open>JSON.stringify(cart)\<close>\<close>

text \<open>Optional fields that are \<open>undefined\<close> are left out of the object.\<close>

definition opt_key :: "string \<Rightarrow> ('a \<Rightarrow> json) \<Rightarrow> 'a option \<Rightarrow> (string \<times> json) list" where
  "opt_key k f v = (case v of None \<Rightarrow> [] | Some x \<Rightarrow> [(k, f x)])"

definition tier_json :: "tier \<Rightarrow> json" where
  "tier_json t = JObj [(''min_quantity'', JNum (of_int (min_quantity t))), (''price'', JNum (tier_price t))]"

definition item_json :: "cart_item \<Rightarrow> json" where
  "item_json item =
     JObj ([(''id'', JStr (item_id item)), (''name'', JStr (item_name item)),
            (''price'', JNum (price item)), (''quantity'', JNum (of_int (quantity item)))]
           @ opt_key ''imageUrl'' JStr (imageUrl item)
           @ opt_key ''pricing_tiers'' (\<lambda>ts. JArr (map tier_json ts)) (pricing_tiers item)
           @ opt_key ''size'' JStr (item_size item)
           @ opt_key ''variant_id'' JStr (variant_id item))"

definition cart_json :: "cart_item list \<Rightarrow> json" where
  "cart_json cart = JArr (map item_json cart)"

subsection \<open>Reading a parsed value as \<open>CartItem[]\<close>\<close>

fun as_str :: "json \<Rightarrow> string option" where
  "as_str (JStr s) = Some s"
| "as_str _ = None"

fun as_num :: "json \<Rightarrow> rat option" where
  "as_num (JNum r) = Some r"
| "as_num _ = None"

definition as_int :: "json \<Rightarrow> int option" where
  "as_int v = (case as_num v of Some r \<Rightarrow> if of_int \<lfloor>r\<rfloor> = r then Some \<lfloor>r\<rfloor> else None | None \<Rightarrow> None)"

text \<open>A field that may be absent: absent reads as \<open>undefined\<close>, present must have its type.\<close>

definition opt_field :: "(json \<Rightarrow> 'a option) \<Rightarrow> json option \<Rightarrow> 'a option option" where
  "opt_field f v = (case v of None \<Rightarrow> Some None | Some x \<Rightarrow> map_option Some (f x))"

fun json_tier :: "json \<Rightarrow> tier option" where
  "json_tier (JObj kvs) =
     (let fld = map_of (rev kvs) in
      case (Option.bind (fld ''min_quantity'') as_int, Option.bind (fld ''price'') as_num) of
        (Some m, Some p) \<Rightarrow> Some \<lparr>min_quantity = m, tier_price = p\<rparr>
      | _ \<Rightarrow> None)"
| "json_tier _ = None"

fun json_list :: "(json \<Rightarrow> 'a option) \<Rightarrow> json \<Rightarrow> 'a list option" where
  "json_list f (JArr xs) = those (map f xs)"
| "json_list f _ = None"

fun json_item :: "json \<Rightarrow> cart_item option" where
  "json_item (JObj kvs) =
     (let fld = map_of (rev kvs) in
      case (Option.bind (fld ''id'') as_str, Option.bind (fld ''name'') as_str,
            Option.bind (fld ''price'') as_num, Option.bind (fld ''quantity'') as_int,
            opt_field as_str (fld ''imageUrl''), opt_field (json_list json_tier) (fld ''pricing_tiers''),
            opt_field as_str (fld ''size''), opt_field as_str (fld ''variant_id'')) of
        (Some i, Some n, Some p, Some q, Some im, Some ts, Some sz, Some vr) \<Rightarrow>
          Some \<lparr>item_id = i, item_name = n, price = p, quantity = q, imageUrl = im,
                pricing_tiers = ts, item_size = sz, variant_id = vr\<rparr>
      | _ \<Rightarrow> None)"
| "json_item _ = None"

definition json_cart :: "json \<Rightarrow> cart_item list option" where
  "json_cart v = json_list json_item v"

subsection \<open>The provider\<close>

text \<open>\<open>loadInitialCart\<close> (lines 171--179): \<open>stored ? JSON.parse(stored) : []\<close>, and
  \<open>[]\<close> when \<open>JSON.parse\<close> throws. The value is not checked.\<close>

definition loadInitialCart :: "ls_slot \<Rightarrow> json" where
  "loadInitialCart stored =
     (case stored of
        None \<Rightarrow> JArr []
      | Some LsEmpty \<Rightarrow> JArr []
      | Some LsBad \<Rightarrow> JArr []
      | Some (LsJson v) \<Rightarrow> v)"

text \<open>What the first render makes of the loaded value: \<open>cart.reduce\<close> (line 211)
  raises \<open>TypeError\<close> on a value that is not an array, and \<open>item.quantity\<close> raises
  it on a \<open>null\<close> element; an array of item objects is the cart; any other array
  is a value the code goes on with untyped.\<close>

datatype cart_load = Loaded "cart_item list" | LoadCrash js_error | LoadUntyped json

definition read_cart :: "json \<Rightarrow> cart_load" where
  "read_cart v =
     (case v of
        JArr xs \<Rightarrow>
          (case map_err (\<lambda>x. js_get (Some x) ''quantity'') xs of
             Inl e \<Rightarrow> LoadCrash e
           | Inr _ \<Rightarrow> (case json_cart v of Some c \<Rightarrow> Loaded c | None \<Rightarrow> LoadUntyped v))
      | _ \<Rightarrow> LoadCrash TypeError)"

text \<open>The save effect (lines 184--190): after every render of the provider,
  \<open>localStorage.setItem('cart', JSON.stringify(cart))\<close>. Every action of the
  reducer returns a new array, so the effect runs after each of them.\<close>

definition persist :: "cart_item list \<Rightarrow> ls_slot" where
  "persist cart = Some (LsJson (cart_json cart))"

text \<open>Opening the application: load, first render, and the effect when the
  render did not throw, which writes the loaded value back as it was read. In
  memory the loaded cart is kept as its \<open>CartItem\<close> fields: keys of the stored
  objects beyond them are not modelled once the cart changes.\<close>

definition cart_open :: "ls_slot \<Rightarrow> cart_load \<times> ls_slot" where
  "cart_open stored =
     (let v = loadInitialCart stored in
      case read_cart v of
        Loaded c \<Rightarrow> (Loaded c, Some (LsJson v))
      | LoadCrash e \<Rightarrow> (LoadCrash e, stored)
      | LoadUntyped w \<Rightarrow> (LoadUntyped w, Some (LsJson v)))"

datatype cart_op = AddItem cart_item | UpdateQuantity string int | RemoveItem string | ClearCart

text \<open>The context functions (lines 193--209): each dispatches its action;
  \<open>clearCart\<close> also removes the key at once, before the render.\<close>

fun cart_handler :: "cart_op \<Rightarrow> cart_item list \<times> ls_slot \<Rightarrow> cart_item list \<times> ls_slot" where
  "cart_handler (AddItem item) (c, s) = (cartReducer c (ADD_ITEM item), s)"
| "cart_handler (UpdateQuantity i q) (c, s) = (cartReducer c (UPDATE_QUANTITY i q), s)"
| "cart_handler (RemoveItem i) (c, s) = (cartReducer c (REMOVE_ITEM i), s)"
| "cart_handler ClearCart (c, s) = (cartReducer c CLEAR_CART, None)"

text \<open>One call of a context function: the handler, the render and its effect.\<close>

definition cart_call :: "cart_item list \<times> ls_slot \<Rightarrow> cart_op \<Rightarrow> cart_item list \<times> ls_slot" where
  "cart_call st op = (let (c', s') = cart_handler op st in (c', persist c'))"

definition cart_session :: "cart_op list \<Rightarrow> cart_item list \<times> ls_slot \<Rightarrow> cart_item list \<times> ls_slot" where
  "cart_session ops st = foldl cart_call st ops"

record cart_context =
  ctx_cart :: "cart_item list"
  ctx_totalItems :: int
  ctx_subtotal :: money

text \<open>The context value (lines 211--223).\<close>

definition cart_value :: "cart_item list \<Rightarrow> cart_context" where
  "cart_value c = \<lparr>ctx_cart = c, ctx_totalItems = totalItems c, ctx_subtotal = subtotal c\<rparr>"

text \<open>\<open>useCart\<close> (lines 227--233): the context, or an error outside the provider.\<close>

definition useCart :: "'a option \<Rightarrow> string + 'a" where
  "useCart ctx = (case ctx of None \<Rightarrow> Inl ''useCart must be used within a CartProvider'' | Some c \<Rightarrow> Inr c)"

text \<open>The reducer action each context function dispatches.\<close>

fun cart_op_action :: "cart_op \<Rightarrow> cart_action" where
  "cart_op_action (AddItem item) = ADD_ITEM item"
| "cart_op_action (UpdateQuantity i q) = UPDATE_QUANTITY i q"
| "cart_op_action (RemoveItem i) = REMOVE_ITEM i"
| "cart_op_action ClearCart = CLEAR_CART"

text \<open>A JSON value that is an array.\<close>

definition is_array :: "json \<Rightarrow> bool" where
  "is_array v = (case v of JArr _ \<Rightarrow> True | _ \<Rightarrow> False)"

subsection \<open>Lemmas\<close>

lemma as_int_of_int [simp]: "as_int (JNum (of_int q)) = Some q"
  by (simp add: as_int_def)

lemma json_list_map:
  assumes "\<And>x. x \<in> set xs \<Longrightarrow> f (g x) = Some x"
  shows "json_list f (JArr (map g xs)) = Some xs"
  using assms by (induction xs) auto

lemma json_tier_tier_json [simp]: "json_tier (tier_json t) = Some t"
  by (simp add: tier_json_def)

lemma those_tiers [simp]: "those (map (json_tier \<circ> tier_json) ts) = Some ts"
  by (induction ts) auto

lemma json_item_item_json [simp]: "json_item (item_json item) = Some item"
  apply (cases "imageUrl item"; cases "pricing_tiers item"; cases "item_size item"; cases "variant_id item")
  apply (simp_all add: item_json_def opt_key_def opt_field_def json_list_map)
  done


lemma json_cart_items [simp]: "json_cart (JArr (map item_json c)) = Some c"
  by (induction c) (simp_all add: json_cart_def)

lemma map_err_quantity_items:
  "map_err (\<lambda>x. js_get (Some x) ''quantity'') (map item_json c) = Inr (map (\<lambda>i. Some (JNum (of_int (quantity i)))) c)"
  by (induction c) (simp_all add: item_json_def opt_key_def split: option.split)

lemma cart_open_persist [simp]: "cart_open (persist c) = (Loaded c, persist c)"
  by (simp add: cart_open_def persist_def loadInitialCart_def read_cart_def map_err_quantity_items
                cart_json_def)

lemma cart_call_persists: "snd (cart_call st op) = persist (fst (cart_call st op))"
  by (cases st; cases op) (simp_all add: cart_call_def)

lemma cart_session_persists:
  "snd (cart_session ops st) = (if ops = [] then snd st else persist (fst (cart_session ops st)))"
proof (induction ops arbitrary: st)
  case Nil then show ?case by (simp add: cart_session_def)
next
  case (Cons op ops)
  have "snd (cart_call st op) = persist (fst (cart_call st op))" by (rule cart_call_persists)
  with Cons.IH[of "cart_call st op"] show ?case by (simp add: cart_session_def)
qed

text \<open>The provider refines the reducer: its cart after a session is the run of
  the dispatched actions, whatever the storage does.\<close>

lemma cart_session_refines_run:
  "fst (cart_session ops st) = cart_run (fst st) (map cart_op_action ops)"
proof (induction ops arbitrary: st)
  case Nil then show ?case by (simp add: cart_session_def cart_run_def)
next
  case (Cons op ops)
  have "fst (cart_call st op) = cartReducer (fst st) (cart_op_action op)"
    by (cases st; cases op) (simp_all add: cart_call_def)
  with Cons.IH[of "cart_call st op"] show ?case by (simp add: cart_session_def cart_run_def)
qed

lemma cart_session_wf:
  assumes "cart_wf (fst st)" and "\<forall>op\<in>set ops. action_ok (cart_op_action op)"
  shows "cart_wf (fst (cart_session ops st))"
proof -
  have "cart_wf (cart_run c acts)" if "cart_wf c" "\<forall>a\<in>set acts. action_ok a" for c acts
    using that unfolding cart_run_def by (induction acts arbitrary: c) (auto intro: cartReducer_wf)
  with assms show ?thesis by (simp add: cart_session_refines_run)
qed

lemma cart_open_Loaded_again: "cart_open s = (Loaded c, s1) \<Longrightarrow> cart_open s1 = (Loaded c, s1)"
  by (auto simp: cart_open_def Let_def loadInitialCart_def split: cart_load.splits)

text \<open>
  C12. The cart survives a reload: once the application has opened on a stored
  cart, after any sequence of calls of the context functions (\<open>clearCart\<close>
  included) the stored text reads back as exactly the cart in memory, and opening
  again rewrites the same text.
\<close>

theorem cart_survives_reload:
  assumes "cart_open s = (Loaded c, s1)"
  shows "cart_open (snd (cart_session ops (c, s1))) =
           (Loaded (fst (cart_session ops (c, s1))), snd (cart_session ops (c, s1)))"
  using cart_session_persists[of ops "(c, s1)"] cart_open_Loaded_again[OF assms] by (cases "ops = []") (simp_all add: cart_session_def)

theorem cart_survives_reload_witness:
  "cart_open None = (Loaded [], persist []) \<and>
   cart_open (snd (cart_session [AddItem sample_bulk_item, UpdateQuantity ''p1'' 12] ([], persist []))) =
     (Loaded [sample_bulk_item\<lparr>quantity := 12\<rparr>],
      snd (cart_session [AddItem sample_bulk_item, UpdateQuantity ''p1'' 12] ([], persist [])))"
proof -
  have h: "cart_open None = (Loaded [], persist [])"
    by (simp add: cart_open_def loadInitialCart_def read_cart_def json_cart_def persist_def cart_json_def)
  have f: "fst (cart_session [AddItem sample_bulk_item, UpdateQuantity ''p1'' 12] ([], persist [])) =
           [sample_bulk_item\<lparr>quantity := 12\<rparr>]"
    by (simp add: cart_session_def cart_call_def sample_bulk_item_def)
  from cart_survives_reload[OF h, of "[AddItem sample_bulk_item, UpdateQuantity ''p1'' 12]"] h f
  show ?thesis by simp
qed

text \<open>
  C29. The error paths of \<open>loadInitialCart\<close>: text that does not parse, and the
  empty string, give the empty cart, but a stored value that parses to something
  other than an array, or an array with a \<open>null\<close> element, makes the first render
  raise \<open>TypeError\<close>; the effect never runs, so the stored value is left as it
  was and every later opening raises again.
\<close>

theorem stored_non_array_crashes_every_open:
  assumes "\<not> is_array v"
  shows "cart_open (Some (LsJson v)) = (LoadCrash TypeError, Some (LsJson v)) \<and>
         cart_open (Some (LsJson (JArr (JNull # xs)))) = (LoadCrash TypeError, Some (LsJson (JArr (JNull # xs)))) \<and>
         cart_open (Some LsBad) = (Loaded [], persist []) \<and>
         cart_open (Some LsEmpty) = (Loaded [], persist [])"
  using assms
  by (cases v) (simp_all add: is_array_def cart_open_def loadInitialCart_def read_cart_def json_cart_def
                    persist_def cart_json_def)

theorem stored_non_array_crashes_every_open_witness:
  "\<not> is_array JNull \<and> cart_open (Some (LsJson JNull)) = (LoadCrash TypeError, Some (LsJson JNull))"
  using stored_non_array_crashes_every_open[of JNull "[]"] by (simp add: is_array_def)

end
