(* ===== verification/Chrome.thy ===== *)
theory Chrome
  imports Home Uri
begin

text \<open>
  The navigation every page draws around its content, each page with its own
  copy of the markup: the fixed header (a menu or back button, the title, the
  buttons on the right), the slide-out drawer with its links and \<open>isActive\<close>
  highlighting, shown while \<open>isMenuOpen\<close>, and the bottom navigation of the
  Index page and of the first \<open>AdminDashboard\<close> component. The static pages are
  here as a whole: \<open>FarmerSupport.tsx\<close> with its call, WhatsApp and Facebook
  buttons, and the first component of \<open>AdminDashboard.tsx\<close> (lines 5--107), which
  only says that the section is restricted. A click is delivered to its target
  and then bubbles through the handlers of the enclosing elements: the drawer's
  backdrop, which wraps the panel, closes the menu for every click inside it.
\<close>

datatype ui_action = Go string | GoBack | SetMenu bool | OpenWindow string string

record nav_link =
  nl_to :: string
  nl_label :: string
  nl_active :: bool
  nl_badge :: "int option"

record nav_button =
  nb_label :: string
  nb_action :: ui_action
  nb_badge :: "int option"

text \<open>\<open>isActive\<close>: \<open>location.pathname === path\<close>.\<close>

definition isActive :: "string \<Rightarrow> string \<Rightarrow> bool" where
  "isActive pathname path \<longleftrightarrow> pathname = path"

text \<open>A count badge, shown when positive.\<close>

definition pos_badge :: "int \<Rightarrow> int option" where
  "pos_badge n = (if 0 < n then Some n else None)"

text \<open>The pages, with the data their chrome shows: the Index page its unread
  count and \<open>totalItems\<close>, the Notifications and Offers pages their list
  lengths, the order history page \<open>totalItems\<close>, the order tracking page its
  order id and \<open>totalItems\<close>, the cart \<open>totalItems\<close>.\<close>

datatype chrome_page =
    ChIndex nat int | ChAccount | ChAdminRestricted | ChAdmin | ChFarmerSupport
  | ChNotifications nat | ChOrders int | ChTrackOrder string int | ChOffers nat | ChCart int
  | ChCheckout | ChProductDetail

definition has_drawer :: "chrome_page \<Rightarrow> bool" where
  "has_drawer pg = (case pg of ChCart _ \<Rightarrow> False | ChCheckout \<Rightarrow> False | ChProductDetail \<Rightarrow> False | _ \<Rightarrow> True)"

subsection \<open>The header\<close>

text \<open>The left button: \<open>setIsMenuOpen(true)\<close>, or \<open>navigate(-1)\<close> on the cart,
  checkout and product pages.\<close>

definition chrome_left :: "chrome_page \<Rightarrow> ui_action" where
  "chrome_left pg = (if has_drawer pg then SetMenu True else GoBack)"

fun chrome_title :: "chrome_page \<Rightarrow> string" where
  "chrome_title (ChIndex _ _) = ''Rue Organics''"
| "chrome_title ChAccount = ''Account''"
| "chrome_title ChAdminRestricted = ''Rue Organics''"
| "chrome_title ChAdmin = ''Admin Dashboard''"
| "chrome_title ChFarmerSupport = ''Farmer Support''"
| "chrome_title (ChNotifications n) = ''Notifications ('' @ nat_str n @ '')''"
| "chrome_title (ChOrders _) = ''My Orders''"
| "chrome_title (ChTrackOrder oid _) = ''Track Order #'' @ short_id oid"
| "chrome_title (ChOffers n) = ''Special Offers ('' @ nat_str n @ '')''"
| "chrome_title (ChCart n) = (if n = 0 then ''Shopping Cart'' else ''Shopping Cart ('' @ int_str n @ '')'')"
| "chrome_title ChCheckout = ''Checkout''"
| "chrome_title ChProductDetail = ''Product Details''"

definition cart_button :: "int option \<Rightarrow> nav_button" where
  "cart_button b = \<lparr>nb_label = ''Cart'', nb_action = Go ''/cart'', nb_badge = b\<rparr>"

text \<open>The buttons on the right: on the Index page the notifications bell,
  \<open>handleCall\<close> (\<open>window.open('tel:0725600710', '_self')\<close>) and the cart with its
  badges; the cart with the \<open>totalItems\<close> badge on the order history and
  tracking pages; none on the cart and checkout pages; the cart elsewhere.\<close>

fun chrome_right :: "chrome_page \<Rightarrow> nav_button list" where
  "chrome_right (ChIndex u t) =
     [\<lparr>nb_label = ''Notifications'', nb_action = Go ''/notifications'', nb_badge = pos_badge (int u)\<rparr>,
      \<lparr>nb_label = ''Call Support'', nb_action = OpenWindow ''tel:0725600710'' ''_self'', nb_badge = None\<rparr>,
      cart_button (pos_badge t)]"
| "chrome_right (ChOrders t) = [cart_button (pos_badge t)]"
| "chrome_right (ChTrackOrder _ t) = [cart_button (pos_badge t)]"
| "chrome_right (ChCart _) = []"
| "chrome_right ChCheckout = []"
| "chrome_right _ = [cart_button None]"

subsection \<open>The drawer\<close>

definition drawer_items :: "(string \<times> string) list" where
  "drawer_items =
     [(''/'', ''Home/Catalog''), (''/orders'', ''Orders''), (''/track'', ''Track Order''),
      (''/offers'', ''Offers''), (''/support'', ''Farmer Support''), (''/account'', ''Account''),
      (''/notifications'', ''Notifications'')]"

text \<open>The seven links, each highlighted by \<open>isActive\<close>, the Index page's
  notifications link with the unread badge; then the admin link: on the account
  page when \<open>isAdmin\<close>, highlighted by \<open>isActive('/admin')\<close>; in both
  \<open>AdminDashboard\<close> components always, with the highlight written into its
  class; on every other page left out (``hidden for non-admins'').\<close>

definition chrome_drawer :: "chrome_page \<Rightarrow> bool \<Rightarrow> string \<Rightarrow> nav_link list" where
  "chrome_drawer pg isAdmin pathname =
     map (\<lambda>(to, lbl). \<lparr>nl_to = to, nl_label = lbl, nl_active = isActive pathname to,
                       nl_badge = (case pg of ChIndex u _ \<Rightarrow> if to = ''/notifications'' then pos_badge (int u) else None
                                            | _ \<Rightarrow> None)\<rparr>) drawer_items
     @ (case pg of
          ChAccount \<Rightarrow>
            if isAdmin then [\<lparr>nl_to = ''/admin'', nl_label = ''Admin Dashboard'',
                              nl_active = isActive pathname ''/admin'', nl_badge = None\<rparr>] else []
        | ChAdmin \<Rightarrow> [\<lparr>nl_to = ''/admin'', nl_label = ''Admin Dashboard'', nl_active = True, nl_badge = None\<rparr>]
        | ChAdminRestricted \<Rightarrow> [\<lparr>nl_to = ''/admin'', nl_label = ''Admin Dashboard'', nl_active = True, nl_badge = None\<rparr>]
        | _ \<Rightarrow> [])"

subsection \<open>The bottom navigation and the static pages\<close>

fun chrome_bottom :: "chrome_page \<Rightarrow> nav_button list" where
  "chrome_bottom (ChIndex u t) =
     [\<lparr>nb_label = ''Home'', nb_action = Go ''/'', nb_badge = None\<rparr>, cart_button (pos_badge t),
      \<lparr>nb_label = ''Account'', nb_action = Go ''/account'', nb_badge = None\<rparr>]"
| "chrome_bottom ChAdminRestricted =
     [\<lparr>nb_label = ''Home'', nb_action = Go ''/'', nb_badge = None\<rparr>, cart_button None,
      \<lparr>nb_label = ''Account'', nb_action = Go ''/account'', nb_badge = None\<rparr>]"
| "chrome_bottom _ = []"

text \<open>\<open>handleWhatsApp\<close> (\<open>FarmerSupport.tsx\<close>, lines 16--19): the message
  percent-encoded into the \<open>text\<close> parameter of a \<open>wa.me\<close> link.\<close>

definition support_message :: string where
  "support_message = ''Hi Mr. Rue, I have a question about organic farming...''"

definition whatsapp_url :: "string \<Rightarrow> string" where
  "whatsapp_url m = ''https://wa.me/254725600710?text='' @ encodeURIComponent m"

definition handleWhatsApp :: ui_action where
  "handleWhatsApp = OpenWindow (whatsapp_url support_message) ''_blank''"

text \<open>The quick links at the foot of the account page (\<open>Account.tsx\<close>, lines
  394--424): order history, farmer support, and the dashboard for an admin.\<close>

definition account_quick_links :: "bool \<Rightarrow> nav_button list" where
  "account_quick_links isAdmin =
     [\<lparr>nb_label = ''Order History'', nb_action = Go ''/orders'', nb_badge = None\<rparr>,
      \<lparr>nb_label = ''Farmer Support'', nb_action = Go ''/support'', nb_badge = None\<rparr>]
     @ (if isAdmin then [\<lparr>nb_label = ''Admin Dashboard'', nb_action = Go ''/admin'', nb_badge = None\<rparr>] else [])"

text \<open>The navigation buttons of the main content that do not depend on data: the
  call, WhatsApp and Facebook buttons of the support page (lines 88--119), the
  \<open>Back to Home\<close> button of the restricted admin page (lines 65--70), the quick
  links of the account page, \<open>View Offers\<close> on the product page
  (\<open>ProductDetail.tsx\<close>, lines 432--437) and \<open>Shop Now\<close> on the offers page
  (\<open>App.tsx\<close>, lines 196--198).\<close>

fun chrome_main :: "chrome_page \<Rightarrow> bool \<Rightarrow> nav_button list" where
  "chrome_main ChFarmerSupport isAdmin =
     [\<lparr>nb_label = ''Call Mr. Rue: 0725600710'', nb_action = OpenWindow ''tel:0725600710'' ''_blank'', nb_badge = None\<rparr>,
      \<lparr>nb_label = ''Message on WhatsApp'', nb_action = handleWhatsApp, nb_badge = None\<rparr>,
      \<lparr>nb_label = ''Visit Our Facebook'',
       nb_action = OpenWindow ''https://www.facebook.com/p/RUE-Organics-Products-100071092243252/'' ''_blank'',
       nb_badge = None\<rparr>]"
| "chrome_main ChAdminRestricted isAdmin = [\<lparr>nb_label = ''Back to Home'', nb_action = Go ''/'', nb_badge = None\<rparr>]"
| "chrome_main ChAccount isAdmin = account_quick_links isAdmin"
| "chrome_main ChProductDetail isAdmin = [\<lparr>nb_label = ''View Offers'', nb_action = Go ''/offers'', nb_badge = None\<rparr>]"
| "chrome_main (ChOffers _) isAdmin = [\<lparr>nb_label = ''Shop Now'', nb_action = Go ''/'', nb_badge = None\<rparr>]"
| "chrome_main _ isAdmin = []"

record chrome =
  ch_left :: ui_action
  ch_title :: string
  ch_right :: "nav_button list"
  ch_drawer :: "nav_link list option"
  ch_bottom :: "nav_button list"
  ch_main :: "nav_button list"

definition chrome_view :: "chrome_page \<Rightarrow> bool \<Rightarrow> string \<Rightarrow> bool \<Rightarrow> chrome" where
  "chrome_view pg isAdmin pathname isMenuOpen =
     \<lparr>ch_left = chrome_left pg, ch_title = chrome_title pg, ch_right = chrome_right pg,
      ch_drawer = (if has_drawer pg \<and> isMenuOpen then Some (chrome_drawer pg isAdmin pathname) else None),
      ch_bottom = chrome_bottom pg, ch_main = chrome_main pg isAdmin\<rparr>"

text \<open>The support page as a whole (\<open>FarmerSupport\<close>, lines 5--130): its chrome,
  the embedded tutorial video and the three quick tips.\<close>

definition support_video :: string where
  "support_video = ''https://www.youtube.com/embed/SI9sMXTEmA8''"

definition support_tips :: "string list" where
  "support_tips =
     [''Apply STOPGEL early in the morning for best results.'', ''Use M-FORTE every 2 weeks for soil health.'',
      ''Watch our video on pest control.'']"

definition farmer_support_view :: "bool \<Rightarrow> string \<Rightarrow> bool \<Rightarrow> chrome \<times> string \<times> string list" where
  "farmer_support_view isAdmin pathname isMenuOpen =
     (chrome_view ChFarmerSupport isAdmin pathname isMenuOpen, support_video, support_tips)"

subsection \<open>Clicks\<close>

text \<open>A rendered element: the actions of its \<open>onClick\<close> handler, whether the
  handler calls \<open>stopPropagation()\<close>, and its children in document order.\<close>

datatype dom = El "ui_action list" bool "dom list"

text \<open>The dispatch of a click (React's synthetic click event): the target is
  reached from an element by a path of child indices, ending at the element where
  the path stops or leaves the tree; the handlers then run from the target
  outwards through its ancestors, until one stops propagation. The result is the
  actions in the order they run, and whether propagation was stopped.\<close>

fun dispatch :: "dom \<Rightarrow> nat list \<Rightarrow> ui_action list \<times> bool"
and dispatch_child :: "dom list \<Rightarrow> nat \<Rightarrow> nat list \<Rightarrow> (ui_action list \<times> bool) option" where
  "dispatch (El hs st cs) [] = (hs, st)"
| "dispatch (El hs st cs) (i # p) =
     (case dispatch_child cs i p of
        None \<Rightarrow> (hs, st)
      | Some (as, stopped) \<Rightarrow> if stopped then (as, True) else (as @ hs, st))"
| "dispatch_child [] i p = None"
| "dispatch_child (c # cs) 0 p = Some (dispatch c p)"
| "dispatch_child (c # cs) (Suc i) p = dispatch_child cs i p"

text \<open>The actions of all handlers of a tree, the handlers of its root, and that
  no handler of the tree stops propagation.\<close>

primrec dom_acts :: "dom \<Rightarrow> ui_action list" where
  "dom_acts (El hs st cs) = hs @ concat (map dom_acts cs)"

primrec el_handlers :: "dom \<Rightarrow> ui_action list" where
  "el_handlers (El hs st cs) = hs"

primrec no_stop :: "dom \<Rightarrow> bool" where
  "no_stop (El hs st cs) = (\<not> st \<and> list_all no_stop cs)"

text \<open>The open drawer as every page renders it (e.g. \<open>FarmerSupport.tsx\<close>, lines
  47--62): the backdrop \<open><div onClick=\{() => setIsMenuOpen(false)\}>\<close>, the panel
  \<open><div></div>\<close> with no handler inside it, its padding \<open><div></div>\<close>, the Close
  button with the same handler, and the \<open><nav></nav>\<close> of the links, each a
  \<open><Link to=...></Link>\<close> whose click navigates. No handler stops propagation.\<close>

definition drawer_dom :: "chrome_page \<Rightarrow> bool \<Rightarrow> string \<Rightarrow> dom" where
  "drawer_dom pg isAdmin pathname =
     El [SetMenu False] False
       [El [] False
          [El [] False
             [El [SetMenu False] False [],
              El [] False (map (\<lambda>l. El [Go (nl_to l)] False []) (chrome_drawer pg isAdmin pathname))]]]"

datatype chrome_click = ClickLeft | ClickRight nat | ClickDrawer "nat list" | ClickBottom nat | ClickMain nat

definition button_at :: "nav_button list \<Rightarrow> nat \<Rightarrow> ui_action list" where
  "button_at bs i = (if i < length bs then [nb_action (bs ! i)] else [])"

text \<open>The handlers a click runs: a header, bottom or main button its own; a
  click inside the drawer, shown while the menu is open, those its dispatch
  reaches.\<close>

fun bubble :: "chrome_page \<Rightarrow> bool \<Rightarrow> string \<Rightarrow> bool \<Rightarrow> chrome_click \<Rightarrow> ui_action list" where
  "bubble pg adm path menu ClickLeft = [chrome_left pg]"
| "bubble pg adm path menu (ClickRight i) = button_at (chrome_right pg) i"
| "bubble pg adm path menu (ClickDrawer p) =
     (if has_drawer pg \<and> menu then fst (dispatch (drawer_dom pg adm path) p) else [])"
| "bubble pg adm path menu (ClickBottom i) = button_at (chrome_bottom pg) i"
| "bubble pg adm path menu (ClickMain i) = button_at (chrome_main pg adm) i"

fun set_menu :: "bool \<Rightarrow> ui_action \<Rightarrow> bool" where
  "set_menu m (SetMenu b) = b"
| "set_menu m _ = m"

fun is_set_menu :: "ui_action \<Rightarrow> bool" where
  "is_set_menu (SetMenu _) = True"
| "is_set_menu _ = False"

text \<open>A click: the menu state after its handlers, and the navigations and
  windows they ask for.\<close>

definition chrome_click :: "chrome_page \<Rightarrow> bool \<Rightarrow> string \<Rightarrow> bool \<Rightarrow> chrome_click \<Rightarrow> bool \<times> ui_action list" where
  "chrome_click pg adm path menu c =
     (let acts = bubble pg adm path menu c in (foldl set_menu menu acts, filter (\<lambda>a. \<not> is_set_menu a) acts))"

text \<open>The page each route of the router shows.\<close>

fun chrome_app_page :: "chrome_page \<Rightarrow> app_page" where
  "chrome_app_page (ChIndex _ _) = PageIndex"
| "chrome_app_page ChAccount = PageAccount"
| "chrome_app_page ChAdminRestricted = PageAdminDashboard"
| "chrome_app_page ChAdmin = PageAdminDashboard"
| "chrome_app_page ChFarmerSupport = PageFarmerSupport"
| "chrome_app_page (ChNotifications _) = PageNotifications"
| "chrome_app_page (ChOrders _) = PageOrders"
| "chrome_app_page (ChTrackOrder _ _) = PageTrackOrder"
| "chrome_app_page (ChOffers _) = PageOffers"
| "chrome_app_page (ChCart _) = PageCart"
| "chrome_app_page ChCheckout = PageCheckout"
| "chrome_app_page ChProductDetail = PageProductDetail"

text \<open>Every path a chrome element navigates to.\<close>

definition nav_targets :: "string list" where
  "nav_targets = ''/cart'' # ''/notifications'' # ''/admin'' # map fst drawer_items"

subsection \<open>Lemmas\<close>

text \<open>Without a handler that stops propagation, every click reaches the root's
  handlers, and they run last.\<close>

lemma dispatch_no_stop:
  "no_stop t \<Longrightarrow> \<exists>as. dispatch t p = (as @ el_handlers t, False)"
  "list_all no_stop cs \<Longrightarrow> (case dispatch_child cs i p of None \<Rightarrow> True | Some r \<Rightarrow> \<not> snd r)"
proof (induction t p and cs i p rule: dispatch_dispatch_child.induct)
  case (2 hs st cs i p)
  then show ?case by (auto split: option.splits)
qed auto

text \<open>A click runs only handlers of the tree.\<close>

lemma dispatch_acts:
  "set (fst (dispatch t p)) \<subseteq> set (dom_acts t)"
  "(case dispatch_child cs i p of None \<Rightarrow> True | Some r \<Rightarrow> set (fst r) \<subseteq> (\<Union>c\<in>set cs. set (dom_acts c)))"
proof (induction t p and cs i p rule: dispatch_dispatch_child.induct)
  case (2 hs st cs i p)
  then show ?case by (auto split: option.splits if_splits)
qed (auto split: option.splits)

lemma drawer_dom_no_stop: "no_stop (drawer_dom pg adm path)"
  by (simp add: drawer_dom_def list_all_iff)

lemma drawer_dom_acts:
  "set (dom_acts (drawer_dom pg adm path)) = insert (SetMenu False) (Go ` nl_to ` set (chrome_drawer pg adm path))"
  by (auto simp: drawer_dom_def)

lemma nav_targets_route: "list_all (\<lambda>t. fst (route t) \<noteq> PageNotFound) nav_targets"
  by code_simp

lemma chrome_drawer_targets: "l \<in> set (chrome_drawer pg adm path) \<Longrightarrow> nl_to l \<in> set nav_targets"
  by (cases pg) (auto simp: chrome_drawer_def nav_targets_def drawer_items_def)

lemma chrome_buttons_targets:
  "b \<in> set (chrome_right pg) \<union> set (chrome_bottom pg) \<union> set (chrome_main pg adm) \<Longrightarrow> nb_action b = Go t \<Longrightarrow>
   t \<in> set nav_targets"
  by (cases pg) (auto simp: nav_targets_def drawer_items_def cart_button_def handleWhatsApp_def
                            account_quick_links_def)

lemma button_at_targets:
  assumes "Go t \<in> set (button_at bs i)" and "bs \<in> {chrome_right pg, chrome_bottom pg, chrome_main pg adm}"
  shows "t \<in> set nav_targets"
proof -
  from assms(1) have "i < length bs" "nb_action (bs ! i) = Go t" by (auto simp: button_at_def split: if_splits)
  then have "bs ! i \<in> set bs" "nb_action (bs ! i) = Go t" by auto
  with assms(2) chrome_buttons_targets show ?thesis by blast
qed

lemma bubble_go_targets:
  assumes go: "Go t \<in> set (bubble pg adm path menu c)"
  shows "t \<in> set nav_targets"
proof (cases c)
  case (ClickDrawer p)
  with go have "Go t \<in> set (dom_acts (drawer_dom pg adm path))"
    using dispatch_acts(1)[of "drawer_dom pg adm path" p] by (auto split: if_splits)
  then show ?thesis using chrome_drawer_targets by (auto simp: drawer_dom_acts)
qed (use go button_at_targets[where pg = pg and adm = adm] in \<open>auto simp: chrome_left_def split: if_splits\<close>)

text \<open>
  C20. No dead links in the navigation: whatever page, role, location and menu
  state, every path a click on the header, the drawer, the bottom navigation or a
  static page's buttons navigates to is one the router of \<open>App.tsx\<close> maps to a
  page, not to \<open>NotFound\<close>.
\<close>

theorem chrome_links_route:
  assumes "Go t \<in> set (snd (chrome_click pg adm path menu c))"
  shows "fst (route t) \<noteq> PageNotFound"
proof -
  from assms have "Go t \<in> set (bubble pg adm path menu c)" by (simp add: chrome_click_def Let_def)
  then have "t \<in> set nav_targets" by (rule bubble_go_targets)
  with nav_targets_route show ?thesis by (simp add: list_all_iff)
qed

theorem chrome_links_route_witness:
  "Go ''/notifications'' \<in> set (snd (chrome_click (ChIndex 2 1) False ''/'' False (ClickRight 0))) \<and>
   fst (route ''/notifications'') \<noteq> PageNotFound"
proof -
  have h: "Go ''/notifications'' \<in> set (snd (chrome_click (ChIndex 2 1) False ''/'' False (ClickRight 0)))"
    by (simp add: chrome_click_def button_at_def)
  from chrome_links_route[OF h] h show ?thesis by blast
qed

text \<open>
  C35. Every click inside the open drawer closes it. The drawer is the tree of
  elements the pages render: the backdrop's handler closes the menu, the panel
  inside it has none, and no handler stops propagation, so a click on any element
  of the drawer (the panel and its padding included, not only the backdrop and the
  Close button) bubbles to the backdrop, whose handler runs last; the only other
  effect is the navigation of a link.
\<close>

theorem drawer_click_closes:
  assumes "has_drawer pg"
  shows "fst (chrome_click pg adm path True (ClickDrawer p)) = False \<and>
         set (snd (chrome_click pg adm path True (ClickDrawer p))) \<subseteq> Go ` nl_to ` set (chrome_drawer pg adm path)"
proof -
  obtain as where d: "dispatch (drawer_dom pg adm path) p = (as @ [SetMenu False], False)"
    using dispatch_no_stop(1)[OF drawer_dom_no_stop, of pg adm path p] by (auto simp: drawer_dom_def)
  have "set as \<subseteq> insert (SetMenu False) (Go ` nl_to ` set (chrome_drawer pg adm path))"
    using dispatch_acts(1)[of "drawer_dom pg adm path" p] d by (simp add: drawer_dom_acts)
  then show ?thesis using assms d by (auto simp: chrome_click_def Let_def)
qed

theorem drawer_click_closes_witness:
  "has_drawer (ChOrders 0) \<and> chrome_click (ChOrders 0) False ''/orders'' True (ClickDrawer [0]) = (False, []) \<and>
   fst (chrome_click (ChOrders 0) False ''/orders'' True (ClickDrawer [0])) = False"
proof -
  have h: "has_drawer (ChOrders 0)" by (simp add: has_drawer_def)
  have c: "chrome_click (ChOrders 0) False ''/orders'' True (ClickDrawer [0]) = (False, [])"
    by (simp add: chrome_click_def drawer_dom_def has_drawer_def)
  from drawer_click_closes[OF h, of False "''/orders''" "[0]"] h c show ?thesis by blast
qed

lemma route_admin: "fst (route ''/admin'') = PageAdminDashboard"
  by code_simp

text \<open>
  C38. The drawer's highlight never points elsewhere: on every page, for every
  role and every location that the router maps to that page, a highlighted link
  of its drawer leads to the page it is drawn on; this holds also for the admin
  link, whose highlight the two \<open>AdminDashboard\<close> components write into its
  class instead of computing it.
\<close>

theorem drawer_highlight_sound:
  assumes "fst (route p) = chrome_app_page pg" and "l \<in> set (chrome_drawer pg adm p)" and "nl_active l"
  shows "fst (route (nl_to l)) = chrome_app_page pg"
  using assms route_admin
  by (cases pg) (auto simp: chrome_drawer_def isActive_def split: if_splits)

theorem drawer_highlight_sound_witness:
  "fst (route ''/orders'') = chrome_app_page (ChOrders 0) \<and>
   \<lparr>nl_to = ''/orders'', nl_label = ''Orders'', nl_active = True, nl_badge = None\<rparr>
     \<in> set (chrome_drawer (ChOrders 0) False ''/orders'') \<and>
   nl_active \<lparr>nl_to = ''/orders'', nl_label = ''Orders'', nl_active = True, nl_badge = None\<rparr> \<and>
   fst (route (nl_to \<lparr>nl_to = ''/orders'', nl_label = ''Orders'', nl_active = True, nl_badge = None\<rparr>)) =
     chrome_app_page (ChOrders 0)"
proof -
  let ?l = "\<lparr>nl_to = ''/orders'', nl_label = ''Orders'', nl_active = True, nl_badge = None\<rparr>"
  have h1: "fst (route ''/orders'') = chrome_app_page (ChOrders 0)" by code_simp
  have h2: "?l \<in> set (chrome_drawer (ChOrders 0) False ''/orders'')"
    by (simp add: chrome_drawer_def drawer_items_def isActive_def)
  have h3: "nl_active ?l" by simp
  from drawer_highlight_sound[OF h1 h2 h3] h1 h2 h3 show ?thesis by blast
qed

text \<open>The highlight compares the whole path: on the tracking page of an order
  (\<open>/track/:orderId\<close>) no drawer link is highlighted.\<close>

lemma track_details_not_highlighted:
  "fst (route ''/track/abc123'') = PageTrackOrder \<and>
   \<not> list_ex nl_active (chrome_drawer (ChTrackOrder ''abc123'' 0) False ''/track/abc123'')"
  by code_simp

end
