(* ===== verification/OrdersLive.thy ===== *)
theory OrdersLive
  imports OrdersList
begin

text \<open>
  The order history page (\<open>Orders\<close> in \<open>src/src/pages/Notifications.tsx\<close>) over
  time: its query (lines 262--311) run against the store, the realtime channel of
  lines 313--332 (\<open>postgres_changes\<close> on \<open>orders\<close> filtered by
  \<open>user_id=eq.\<dots>\<close>, each change calling \<open>refetch()\<close>), the Retry button of the
  error screen (line 349) and unmounting. The store this page reads is the list of
  order rows in the order \<open>.order('created_at', \{ ascending: false \})\<close> returns
  them: a new row comes first. The code writes rows by inserting new ones
  (checkout) and by updating the status and stages of existing ones (the
  transitions of the tracking page); a change notification is sent for a written
  row whose new value passes the channel's filter.
\<close>

type_synonym orders_rows = "(string \<times> order_row) list"

definition orders_select :: "string \<Rightarrow> orders_rows \<Rightarrow> orders_answer" where
  "orders_select u db = OrdersRows (filter (\<lambda>(k, r). row_user_id r = u) db)"

text \<open>An insert (a new id, newest first) or an update of the row with that id.\<close>

definition put_row :: "string \<Rightarrow> order_row \<Rightarrow> orders_rows \<Rightarrow> orders_rows" where
  "put_row k r db =
     (if k \<in> set (map fst db) then map (\<lambda>(k', r'). if k' = k then (k', r) else (k', r')) db
      else (k, r) # db)"

record ohist =
  oh_db :: orders_rows
  oh_subscribed :: bool
  oh_pending :: nat
  oh_result :: "(fetch_error + list_order list) option"

datatype ohist_event = OhQuery | OhSubscribe | OhWrite string order_row | OhDeliver | OhRetry | OhUnmount

text \<open>The query on the store as it is now, for the signed-in user.\<close>

definition oh_fetch :: "string option \<Rightarrow> catalog \<Rightarrow> orders_rows \<Rightarrow> fetch_error + list_order list" where
  "oh_fetch usr cat db = ordersQuery usr (case usr of None \<Rightarrow> OrdersRows [] | Some u \<Rightarrow> orders_select u db) cat"

definition oh_run_query :: "string option \<Rightarrow> catalog \<Rightarrow> ohist \<Rightarrow> ohist" where
  "oh_run_query usr cat s = s\<lparr>oh_result := Some (oh_fetch usr cat (oh_db s))\<rparr>"

text \<open>One event. The channel is set up only with a user (\<open>if (!user) return;\<close>);
  a write is signalled to an active channel when the new row passes
  \<open>user_id=eq.\<dots>\<close>.\<close>

fun oh_step :: "string option \<Rightarrow> catalog \<Rightarrow> ohist \<Rightarrow> ohist_event \<Rightarrow> ohist" where
  "oh_step usr cat s OhQuery = oh_run_query usr cat s"
| "oh_step usr cat s OhRetry = oh_run_query usr cat s"
| "oh_step usr cat s OhSubscribe = (if usr \<noteq> None then s\<lparr>oh_subscribed := True\<rparr> else s)"
| "oh_step usr cat s (OhWrite k r) =
     (if oh_subscribed s \<and> usr = Some (row_user_id r)
      then s\<lparr>oh_db := put_row k r (oh_db s), oh_pending := Suc (oh_pending s)\<rparr>
      else s\<lparr>oh_db := put_row k r (oh_db s)\<rparr>)"
| "oh_step usr cat s OhDeliver =
     (if oh_subscribed s \<and> 0 < oh_pending s
      then oh_run_query usr cat (s\<lparr>oh_pending := oh_pending s - 1\<rparr>) else s)"
| "oh_step usr cat s OhUnmount = s\<lparr>oh_subscribed := False, oh_pending := 0\<rparr>"

definition oh_run :: "string option \<Rightarrow> catalog \<Rightarrow> ohist \<Rightarrow> ohist_event list \<Rightarrow> ohist" where
  "oh_run usr cat = foldl (oh_step usr cat)"

definition oh_init :: "orders_rows \<Rightarrow> ohist" where
  "oh_init db = \<lparr>oh_db = db, oh_subscribed = False, oh_pending = 0, oh_result = None\<rparr>"

text \<open>A write that keeps the owner of a row that exists, as every write of the
  code does.\<close>

definition owner_kept :: "orders_rows \<Rightarrow> string \<Rightarrow> order_row \<Rightarrow> bool" where
  "owner_kept db k r = list_all (\<lambda>(k', r'). if k' = k then row_user_id r' = row_user_id r else True) db"

text \<open>The writes of a sequence of events each keep the owner, on the store as it
  is when they happen.\<close>

fun writes_keep_owner :: "orders_rows \<Rightarrow> ohist_event list \<Rightarrow> bool" where
  "writes_keep_owner db [] = True"
| "writes_keep_owner db (OhWrite k r # es) = (owner_kept db k r \<and> writes_keep_owner (put_row k r db) es)"
| "writes_keep_owner db (e # es) = writes_keep_owner db es"

text \<open>What the page shows (lines 335--505) and what a fresh load would show.\<close>

definition oh_screen :: "bool \<Rightarrow> ohist \<Rightarrow> orders_screen" where
  "oh_screen session s = orders_view session (oh_result s)"

definition oh_fresh :: "bool \<Rightarrow> string option \<Rightarrow> catalog \<Rightarrow> orders_rows \<Rightarrow> orders_screen" where
  "oh_fresh session usr cat db = orders_view session (Some (oh_fetch usr cat db))"

text \<open>The invariant of a page with an active channel: with no notification
  waiting, a result of the query is the result on the store as it is now.\<close>

definition oh_inv :: "string option \<Rightarrow> catalog \<Rightarrow> ohist \<Rightarrow> bool" where
  "oh_inv usr cat s \<longleftrightarrow>
     oh_subscribed s \<and> (if oh_pending s = 0 \<and> oh_result s \<noteq> None
                        then oh_result s = Some (oh_fetch usr cat (oh_db s)) else True)"

subsection \<open>Lemmas\<close>

lemma filter_put_row_other:
  assumes "row_user_id r \<noteq> u" and "owner_kept db k r"
  shows "filter (\<lambda>(k, r). row_user_id r = u) (put_row k r db) = filter (\<lambda>(k, r). row_user_id r = u) db"
proof (cases "k \<in> set (map fst db)")
  case True
  define P where "P = (\<lambda>(k::string, r::order_row). row_user_id r = u)"
  define f where "f = (\<lambda>(k', r'). if k' = k then (k', r) else (k', r'::order_row))"
  have "\<forall>x\<in>set db. P (f x) = P x \<and> (P x \<longrightarrow> f x = x)"
  proof
    fix x assume x: "x \<in> set db"
    obtain a b where ab: "x = (a, b)" by fastforce
    have "a = k \<Longrightarrow> row_user_id b = row_user_id r"
      using assms(2) x ab by (auto simp: owner_kept_def list_all_iff)
    with assms(1) ab show "P (f x) = P x \<and> (P x \<longrightarrow> f x = x)" by (cases "a = k") (auto simp: P_def f_def)
  qed
  then have "filter P (map f db) = filter P db" by (rule filter_map_same)
  with True show ?thesis by (simp add: put_row_def P_def f_def)
next
  case False
  with assms(1) show ?thesis by (simp add: put_row_def)
qed

lemma oh_fetch_put_other:
  "usr \<noteq> Some (row_user_id r) \<Longrightarrow> owner_kept db k r \<Longrightarrow> oh_fetch usr cat (put_row k r db) = oh_fetch usr cat db"
  by (cases usr) (auto simp: oh_fetch_def orders_select_def filter_put_row_other)

lemma oh_inv_step:
  assumes "oh_inv usr cat s" and "e \<noteq> OhUnmount"
    and "case e of OhWrite k r \<Rightarrow> owner_kept (oh_db s) k r | _ \<Rightarrow> True"
  shows "oh_inv usr cat (oh_step usr cat s e)"
  using assms oh_fetch_put_other
  by (cases e) (auto simp: oh_inv_def oh_run_query_def)

lemma oh_inv_run:
  "oh_inv usr cat s \<Longrightarrow> list_all (\<lambda>e. e \<noteq> OhUnmount) es \<Longrightarrow> writes_keep_owner (oh_db s) es \<Longrightarrow>
   oh_inv usr cat (oh_run usr cat s es)"
proof (induction es arbitrary: s)
  case Nil then show ?case by (simp add: oh_run_def)
next
  case (Cons e es)
  have w: "case e of OhWrite k r \<Rightarrow> owner_kept (oh_db s) k r | _ \<Rightarrow> True"
    and w': "writes_keep_owner (oh_db (oh_step usr cat s e)) es"
    using Cons.prems(3) by (cases e; auto simp: oh_run_query_def)+
  have "oh_inv usr cat (oh_step usr cat s e)" using oh_inv_step Cons.prems(1,2) w by simp
  with Cons.IH[OF _ _ w'] Cons.prems(2) show ?case by (simp add: oh_run_def)
qed

lemma oh_result_kept:
  "oh_result s \<noteq> None \<Longrightarrow> oh_result (oh_run usr cat s es) \<noteq> None"
proof (induction es arbitrary: s)
  case Nil then show ?case by (simp add: oh_run_def)
next
  case (Cons e es)
  have "oh_result (oh_step usr cat s e) \<noteq> None" using Cons.prems by (cases e) (auto simp: oh_run_query_def)
  with Cons.IH show ?case by (simp add: oh_run_def)
qed

lemma oh_deliver_all:
  assumes "oh_inv usr cat s" and "oh_pending s = n"
  shows "oh_pending (oh_run usr cat s (replicate n OhDeliver)) = 0 \<and>
         oh_db (oh_run usr cat s (replicate n OhDeliver)) = oh_db s \<and>
         oh_inv usr cat (oh_run usr cat s (replicate n OhDeliver))"
  using assms
proof (induction n arbitrary: s)
  case 0 then show ?case by (simp add: oh_run_def)
next
  case (Suc n)
  have sub: "oh_subscribed s" using Suc.prems(1) by (simp add: oh_inv_def)
  let ?s1 = "oh_run_query usr cat (s\<lparr>oh_pending := n\<rparr>)"
  have step: "oh_step usr cat s OhDeliver = ?s1" using sub Suc.prems(2) by simp
  have "oh_inv usr cat ?s1" using sub by (simp add: oh_inv_def oh_run_query_def)
  moreover have "oh_pending ?s1 = n" "oh_db ?s1 = oh_db s" by (simp_all add: oh_run_query_def)
  ultimately show ?case using Suc.IH[of ?s1] step by (simp add: oh_run_def)
qed

text \<open>
  C21. Convergence of the order history page: with a signed-in user, when the
  channel is set up before the first query, after any events but unmounting whose
  writes keep the owner of each row, and once the change notifications waiting are
  delivered, the page shows what a fresh load would show for the store as it is.
\<close>

theorem orders_page_converges:
  assumes "usr \<noteq> None" and "list_all (\<lambda>e. e \<noteq> OhUnmount) es" and "writes_keep_owner db es"
  shows "let s = oh_run usr cat (oh_init db) (OhSubscribe # OhQuery # es);
             s' = oh_run usr cat s (replicate (oh_pending s) OhDeliver)
         in oh_screen session s' = oh_fresh session usr cat (oh_db s') \<and> oh_db s' = oh_db s"
proof -
  let ?s0 = "oh_step usr cat (oh_step usr cat (oh_init db) OhSubscribe) OhQuery"
  have i0: "oh_inv usr cat ?s0" and r0: "oh_result ?s0 \<noteq> None" and d0: "oh_db ?s0 = db"
    using assms(1) by (auto simp: oh_init_def oh_inv_def oh_run_query_def)
  have i: "oh_inv usr cat (oh_run usr cat ?s0 es)" using oh_inv_run[OF i0 assms(2)] assms(3) d0 by simp
  have r: "oh_result (oh_run usr cat ?s0 es) \<noteq> None" using r0 by (rule oh_result_kept)
  define s where "s = oh_run usr cat ?s0 es"
  define s' where "s' = oh_run usr cat s (replicate (oh_pending s) OhDeliver)"
  have d: "oh_pending s' = 0 \<and> oh_db s' = oh_db s \<and> oh_inv usr cat s'"
    using oh_deliver_all i unfolding s_def s'_def by blast
  have "oh_result s' \<noteq> None" using r oh_result_kept unfolding s_def s'_def by blast
  with d have "oh_screen session s' = oh_fresh session usr cat (oh_db s')"
    by (simp add: oh_inv_def oh_screen_def oh_fresh_def)
  with d show ?thesis by (simp add: s_def s'_def Let_def oh_run_def)
qed

theorem orders_page_converges_witness:
  "Some ''u1'' \<noteq> None \<and> list_all (\<lambda>e. e \<noteq> OhUnmount) [OhWrite ''o1'' sample_row] \<and>
   writes_keep_owner [] [OhWrite ''o1'' sample_row] \<and>
   (let s = oh_run (Some ''u1'') empty_catalog (oh_init []) (OhSubscribe # OhQuery # [OhWrite ''o1'' sample_row]);
        s' = oh_run (Some ''u1'') empty_catalog s (replicate (oh_pending s) OhDeliver)
    in oh_screen True s' = oh_fresh True (Some ''u1'') empty_catalog (oh_db s') \<and> oh_db s' = oh_db s)"
proof -
  have h: "Some ''u1'' \<noteq> None" "list_all (\<lambda>e. e \<noteq> OhUnmount) [OhWrite ''o1'' sample_row]"
    "writes_keep_owner [] [OhWrite ''o1'' sample_row]"
    by (simp_all add: owner_kept_def)
  show ?thesis using h orders_page_converges[OF h, of empty_catalog True] by simp
qed

text \<open>The same race as on the tracking page: a first query before the channel
  is set up misses a write, and no notification ever brings it.\<close>

lemma orders_page_race_stale:
  "let s = oh_run (Some ''u1'') empty_catalog (oh_init []) [OhQuery, OhWrite ''o1'' sample_row, OhSubscribe]
   in oh_pending s = 0 \<and> oh_result s = Some (Inr []) \<and>
      oh_fresh True (Some ''u1'') empty_catalog (oh_db s) \<noteq> oh_screen True s"
  by code_simp

end
