(* ===== verification/Spec2Isabelle.thy ===== *)
theory Spec2Isabelle
  imports Json Cart Stages OrderMachine PriceText Sync Account Checkout Product Admin OrdersList CartPage
    Notifications Home AccountPage AdminPage Schema ProductPage CartStore Uri Chrome OrdersLive
begin

text \<open>
  \<^bold>\<open>A verification development of Rue Organics.\<close>
  The repository is a React/TypeScript storefront on a hosted store (Supabase):
  buyers browse products, build a cart with quantity tiers and size variants,
  place an order, and track it through a six-stage delivery workflow with live
  updates; an administration page edits the catalogue. This development models
  the program's logic as executable HOL definitions, one theory per part, and
  proves what makes it correct and where it is not.

  \<^bold>\<open>Parts and theories.\<close>
  \<^item> \<open>Prelude\<close>: money as exact rationals (\<open>rat\<close>), the JavaScript library
    functions the sources rely on (\<open>findIndex\<close>, the \<open>\d\<close> digit class, decimal
    printing, \<open>trim\<close>, \<open>split\<close>, \<open>slice(-6).toUpperCase()\<close>, removal at an
    index) and shared list lemmas.
  \<^item> \<open>Json\<close>: decoded values (\<open>json\<close>), truthiness, \<open>||\<close>, property access with its
    \<open>TypeError\<close> on \<open>null\<close>/\<open>undefined\<close>; \<open>js_error\<close> is the type of exceptions.
  \<^item> \<open>Cart\<close>: \<open>CartContext\<close> in \<open>src/src/contexts/AuthContext.tsx\<close> (lines 94--232):
    \<open>cartReducer\<close> and its actions, \<open>getUnitPrice\<close>, \<open>lineTotal\<close>, \<open>totalItems\<close>,
    \<open>subtotal\<close>, next to the specified \<open>resolveUnitPrice\<close>.
  \<^item> \<open>PriceText\<close>: the readers of textual prices, \<open>parsePriceToNumber\<close> and
    \<open>formatPriceForDisplay\<close> of \<open>ProductDetail.tsx\<close> and the item enrichment of
    \<open>TrackOrder.tsx\<close>.
  \<^item> \<open>Stages\<close>: the stage parser inside the query of \<open>TrackOrder.tsx\<close> (lines 131--176),
    with the persisted field as \<open>stored\<close> (absent, unparsable text, decoded text, or
    a native array of objects, which \<open>JSON.parse\<close> rejects).
  \<^item> \<open>OrderMachine\<close>: the orders table (\<open>order_row\<close>, a map from id to row), the
    transitions \<open>advanceStage\<close> and \<open>confirmReceipt\<close> of \<open>TrackOrder.tsx\<close> with the
    owner-conditioned update, the tracking view, and the stage machine as step
    relations (\<open>advance_step\<close>, \<open>ui_step\<close>).
  \<^item> \<open>Sync\<close>: the query function of the tracking page (access checks, items decode,
    catalogue enrichment, stage parse) and the page as a sequence of events: query
    runs, the change-feed channel becoming active, store writes, notification
    delivery, unmount, and the two transitions.
  \<^item> \<open>Account\<close>: \<open>AuthProvider\<close> as a state machine over auth events, the account
    page's sign-in, sign-up and one-time-code handlers, and the saved-address book.
  \<^item> \<open>Checkout\<close>: \<open>Checkout.tsx\<close>: saved addresses, the \<open>SAVE10\<close> discount,
    \<open>handlePlaceOrder\<close> and the row it inserts, and the rendered summary.
  \<^item> \<open>Product\<close>: \<open>ProductDetail.tsx\<close>: size selection, the price shown and put in the
    cart, \<open>handleAddToCart\<close>, reviews, and the render; \<open>ProductPage\<close> adds the
    variants and reviews queries, the star buttons, the review list and the page
    as a sequence of visitor events over the reviews table.
  \<^item> \<open>Admin\<close>: the tier and variant editors and the new-product form of
    \<open>AdminDashboard.tsx\<close> over a catalogue store.
  \<^item> \<open>OrdersList\<close>: the order history page (\<open>Orders\<close> in \<open>Notifications.tsx\<close>);
    \<open>OrdersLive\<close> puts it over time with its realtime channel, on the order rows
    in the order the query returns them.
  \<^item> \<open>CartPage\<close>: \<open>Cart.tsx\<close>: the checkout guard, line buttons and render.
  \<^item> \<open>Notifications\<close>: the \<open>notifications\<close> table and its three readers:
    \<open>NotificationsProvider\<close> (appended to \<open>Checkout.tsx\<close>, lines 312--422) as a
    state with a queue of requests to the store and a queue of answers back, served
    and delivered in any order, whose realtime channel queues a refetch for every
    changed row; the \<open>Notifications\<close> page with its query, the two mutations and
    their refetch, and its render; the unread count of the \<open>Index\<close> badge.
  \<^item> \<open>Home\<close>: \<open>App.tsx\<close>: the splash gate (with the timer of the splash screen,
    \<open>src/unnamed/part_000\<close>) and the route table with a matcher for its patterns;
    the \<open>Offers\<close> page (second half of \<open>App.tsx\<close>); the catalogue \<open>Index\<close> page
    (\<open>src/unnamed/part_001\<close>) with its products query.
  \<^item> \<open>AccountPage\<close>: the account page as a whole over a browser state (the
    provider, local storage, the mounted page): form inputs, the handlers of theory
    \<open>Account\<close> on their buttons, sign-out, the new-address form, the storage
    effect, and the render.
  \<^item> \<open>AdminPage\<close>: the administration page as a sequence of events over the editor
    state and the catalogue store (tabs, the new-product inputs, the editor
    buttons), and the render of its products tab.
  \<^item> \<open>Schema\<close>: the columns and the status \<open>CHECK\<close> of the \<open>orders\<close>,
    \<open>notifications\<close> and \<open>products\<close> tables of the SQL schema
    (\<open>src/unnamed/part_003\<close>), against the inserts and reads of the code; the
    other six tables, their checks, and row level security, enabled everywhere
    with no policy.
  \<^item> \<open>CartStore\<close>: \<open>CartProvider\<close> (\<open>AuthContext.tsx\<close>, lines 155--233) with the
    cart's copy in local storage: \<open>loadInitialCart\<close>, the first render reading the
    loaded value, the save effect after every render, the context functions and
    \<open>useCart\<close>; \<open>JSON.stringify\<close> of a cart and its reading back as \<open>CartItem[]\<close>.
  \<^item> \<open>Uri\<close>: \<open>encodeURIComponent\<close>, as the WhatsApp button applies it.
  \<^item> \<open>Chrome\<close>: the header, slide-out drawer and bottom navigation each page draws
    (one constructor of \<open>chrome_page\<close> per page, with the data it shows), the
    drawer as the tree of elements it renders (\<open>drawer_dom\<close>) and a click as
    React dispatches it (\<open>dispatch\<close>: the handlers from the target out through
    its ancestors until one stops propagation), the farmer support page and the
    first, restricted, \<open>AdminDashboard\<close> component.

  \<^bold>\<open>How the parts interact.\<close> Checkout reads the cart (\<open>subtotal\<close>) and the
  addresses saved by the account page, and inserts an \<open>order_row\<close> into the
  \<open>orders_table\<close>; the tracking page (\<open>Sync.queryFn\<close>) and the history page
  (\<open>OrdersList.ordersQuery\<close>) read that row; the transitions write it back with
  \<open>stages_json\<close>, which the parser reads again. The product page and the \<open>Index\<close> page read
  the rows the administration writes, and the product page dispatches
  \<open>ADD_ITEM\<close> to the cart reducer. The notifications page, the provider and the
  \<open>Index\<close> badge read one \<open>notifications\<close> table; the router decides which page
  is mounted, and the links the pages build (\<open>/track/\<close> and \<open>/product/\<close> with an
  id) are read back by it as the parameter of the page. The account page writes the saved addresses that checkout reads
  from the same browser storage. The cart provider writes the cart to local
  storage after every change and reads it back when the application opens; every
  page's navigation leads, through the router, to a page. These
  interactions are the theorems of this root theory.

  \<^bold>\<open>How the model corresponds to the code.\<close> React state is a record, returned
  updated by each handler; a handler's dependencies on the outside world (the
  answer of a storage call, a browser dialog, the clock) are parameters, so every
  branch of the code is a branch of the definition. Exceptions are the left
  injection of a sum type and \<open>undefined\<close> is \<open>None\<close>. A page over time is a fold of
  a step function over a list of events (\<open>sync_run\<close>, \<open>address_run\<close>,
  \<open>auth_run\<close>, \<open>cart_run\<close>, \<open>pd_dispatched\<close>) or an inductive step relation with
  reachability by \<open>rtranclp\<close>. Asynchrony, where the order of answers matters
  (the notifications provider), is two queues of messages in flight and events
  that pick any of them. Every definition is executable; no loop of the sources
  needs fuel, since each is a structural recursion over a list, and the stage
  machine is shown to terminate: each transition completes a pending stage.

  \<^bold>\<open>What the lemmas show.\<close> Functional behaviour of each operation on every
  branch (the transitions, the query function and its errors, the parser on each
  encoding, the price readers); invariants preserved by every step (distinct cart
  lines with positive quantities, completion as a prefix, at most one default
  address, the synchronisation invariant); termination of the stage machine with
  a bound on its runs; bounds of the order total under any use of the discount
  field and of the review ratings the product page writes; the links that carry
  an id through the router; ownership of every write of the notifications provider and page; an
  unambiguous route table and the splash gate; a refinement of the specified tier
  resolver by \<open>getUnitPrice\<close> on descending tiers and an equivalence of the two
  price readers; a round trip of stage serialisation; convergence of the tracking
  page and of the order history page when their channels are active before the
  first query; the cart restored by a
  reload, no navigation element leading to \<open>NotFound\<close>, and a drawer
  highlight that always names the page shown. Where the code departs
  from the specification or from what it means to do, a theorem states the
  departure on the code as it is: the ascending-tier mismatch, the unreachable
  final transitions, the stale display after a write between the first query and
  the subscription, items lost between checkout and tracking, orders never placed
  after a sign-up at checkout, the blank admin tier that makes a product free,
  the variant delete that is never sent, the catalogue home page that a product
  added by the administration makes throw, the saved addresses offered to
  whoever signs in next on a browser, the variant editor that writes another
  product's variants, a stored cart of the wrong shape that makes every opening
  of the application throw, the drawer panel that closes on any click inside it,
  among others (see the findings of the
  manifest). Two departures are shown on one run each, as lemmas rather than
  properties: the read flags the notifications provider shows after the local
  delta of \<open>markAllRead\<close>, which the store does not hold
  (\<open>Notifications.markAllRead_local_delta_diverges\<close>), and the schema of
  \<open>part_003\<close>, which rejects every order the code writes and lets the client
  read no row (\<open>Schema.schema_rejects_code\<close>).

  \<^bold>\<open>Bounds and what is not modelled.\<close> Money is exact: JavaScript doubles and
  their rounding are not modelled, nor is the text of \<open>toFixed\<close>. \<open>parseFloat\<close> is
  modelled on the strings of digits and dots it is applied to. \<open>JSON.parse\<close> is
  represented by the value a stored text decodes to, not by a text parser, and
  \<open>JSON.stringify\<close> followed by \<open>JSON.parse\<close> gives back the value written. Each
  storage call is atomic and its answer is an input; the SQL schema of
  \<open>src/unnamed/part_003\<close> is not the store the pages run against (it lacks
  columns and tables they use, and its row level security admits no client):
  theory \<open>Schema\<close> compares it with the code, and the stores of the other theories
  follow the code. The router's matcher is modelled for the patterns of the table
  (case-insensitive literals, one-segment parameters, empty segments ignored);
  percent-decoding of route parameters is not. \<open>encodeURIComponent\<close> is modelled
  on code points below 256. Only the drawer is modelled as an element tree: the
  other buttons have no clickable ancestor with a handler, so their clicks run
  their own handler alone. Dates are milliseconds since
  the epoch. Not modelled: styling and icons, \<open>copyCode\<close> (the clipboard), what
  \<open>window.open\<close> and \<open>navigate(-1)\<close> do once asked (browser I/O: the model
  records the request), the provider wiring of \<open>App\<close>, the console logging, the
  query cache of the data library (the five-minute \<open>staleTime\<close> of the offers
  query: every query result is a fresh run), change notifications for deleted
  rows (the code deletes no order), and the README.
\<close>

subsection \<open>From checkout to tracking\<close>

text \<open>
  C7. End to end: an order placed at checkout by a signed-in user, once the
  insert succeeds, loads on the tracking page of its owner with no item lines at
  all (the items were written as a native array, which \<open>JSON.parse\<close> rejects), the
  default workflow with \<open>Order Placed\<close> completed at the creation time, the delivery
  address and instructions of the form, and the status
  \<open>Order Placed (Making Order)\<close>, which is not the name of any stage.
\<close>

theorem checkout_then_track:
  assumes "co_address st \<noteq> []" and "js_truthy (Some created)"
    and "handlePlaceOrder True (Some u) prompts signup (Inserted oid created) cart st tbl = (st', tbl', effs)"
  shows "\<exists>od. queryFn (Some oid) True (Some u) (select_single tbl' oid) cat = Inr od \<and>
              items od = [] \<and> stages od = default_stages created \<and>
              delivery_address od = JStr (co_address st) \<and> instructions od = JStr (co_instructions st) \<and>
              status od = JStr ''Order Placed (Making Order)'' \<and>
              status od \<notin> JStr ` set default_stage_names"
proof -
  have "tbl' = tbl(oid \<mapsto> checkout_row u cart (subtotal cart) st created)"
    using assms(3) place_order_inserted[OF assms(1), of u oid created cart tbl "[]"]
    by (simp add: handlePlaceOrder_def)
  then have sel: "select_single tbl' oid = DbData (Some (checkout_row u cart (subtotal cart) st created))"
    by (simp add: select_single_def)
  have ps: "parse_stages (SJson (delivery_stages_json (co_address st) (co_instructions st))) created =
            (default_stages created, JStr (co_address st), JStr (co_instructions st))"
    using assms(2) by (simp add: parse_stages_def stages_try_delivery)
  show ?thesis
    by (simp add: sel queryFn_def ps checkout_row_def default_stage_names_def)
qed

theorem checkout_then_track_witness:
  "co_address (checkout_init\<lparr>co_address := ''Plot 7''\<rparr>) \<noteq> [] \<and> js_truthy (Some (JStr ''2025-05-01'')) \<and>
   (let r = handlePlaceOrder True (Some ''u1'') (None, None) None (Inserted ''o9'' (JStr ''2025-05-01'')) []
              (checkout_init\<lparr>co_address := ''Plot 7''\<rparr>) sample_table
    in r = (fst r, fst (snd r), snd (snd r)) \<and>
       (\<exists>od. queryFn (Some ''o9'') True (Some ''u1'') (select_single (fst (snd r)) ''o9'') empty_catalog = Inr od \<and>
             items od = [] \<and> stages od = default_stages (JStr ''2025-05-01'') \<and>
             delivery_address od = JStr (co_address (checkout_init\<lparr>co_address := ''Plot 7''\<rparr>)) \<and>
             instructions od = JStr (co_instructions (checkout_init\<lparr>co_address := ''Plot 7''\<rparr>)) \<and>
             status od = JStr ''Order Placed (Making Order)'' \<and>
             status od \<notin> JStr ` set default_stage_names))"
proof -
  define r where "r = handlePlaceOrder True (Some ''u1'') (None, None) None (Inserted ''o9'' (JStr ''2025-05-01'')) []
              (checkout_init\<lparr>co_address := ''Plot 7''\<rparr>) sample_table"
  have h1: "co_address (checkout_init\<lparr>co_address := ''Plot 7''\<rparr>) \<noteq> []" by simp
  have h2: "js_truthy (Some (JStr ''2025-05-01''))" by simp
  have h3: "r = (fst r, fst (snd r), snd (snd r))" by simp
  note c = checkout_then_track[OF h1 h2 h3[unfolded r_def], of empty_catalog]
  show ?thesis using h1 h2 h3 c unfolding r_def Let_def by blast
qed

text \<open>
  C32. Placing an order while signed out never creates one: the handler asks for
  an email and a password and signs up, but it still holds the user of the render
  it belongs to, which has no session, so nothing is inserted and the page does not
  move on, even when the sign-up succeeds.
\<close>

theorem signup_checkout_places_nothing:
  assumes "ap_session ap = None"
  shows "fst (snd (handlePlaceOrder (ap_session ap \<noteq> None) (auth_user ap) prompts signup ins cart st tbl)) = tbl \<and>
         CNavigate ''/orders'' \<notin> set (snd (snd (handlePlaceOrder (ap_session ap \<noteq> None) (auth_user ap) prompts signup ins cart st tbl)))"
  using assms
  by (simp add: handlePlaceOrder_def auth_user_def split: prod.split option.split)

theorem signup_checkout_places_nothing_witness:
  "ap_session auth_init = None \<and>
   fst (snd (handlePlaceOrder (ap_session auth_init \<noteq> None) (auth_user auth_init) (Some ''a@b.c'', Some ''secret1'')
              None (Inserted ''o1'' (JStr ''2025-05-01'')) [] checkout_init sample_table)) = sample_table \<and>
   CNavigate ''/orders'' \<notin> set (snd (snd (handlePlaceOrder (ap_session auth_init \<noteq> None) (auth_user auth_init)
              (Some ''a@b.c'', Some ''secret1'') None (Inserted ''o1'' (JStr ''2025-05-01'')) [] checkout_init sample_table)))"
proof -
  have h: "ap_session auth_init = None" by (simp add: auth_init_def)
  from signup_checkout_places_nothing[OF h] h show ?thesis by blast
qed

subsection \<open>From the catalogue editor to the cart\<close>

text \<open>
  C30. A product without tiers that gets one Add Tier and Save Tiers in the
  administration, the new row left as it is (\<open>min_quantity 0\<close>, empty price), is
  put in the cart by the product page at unit price 0 and line total 0, for every
  quantity: the blank tier qualifies for every quantity and its empty price reads
  as 0.
\<close>

theorem admin_blank_tier_free:
  assumes "product_by_id (cs_products cs) (prod_id p) = Some p" and "prod_tiers p = None"
    and "saveTiers True (addTier (handleEditTiers p st)) cs = (st', cs')"
    and "handleAddToCart (product_by_id (cs_products cs') (prod_id p)) vs pst = Some it"
    and "0 \<le> pd_quantity pst"
  shows "getUnitPrice it = 0 \<and> lineTotal it = 0"
proof -
  have "cs_products cs' = map (\<lambda>q. if prod_id q = prod_id p then q\<lparr>prod_tiers := Some [(0, PText [])]\<rparr> else q)
                             (cs_products cs)"
    using assms(2,3) by (auto simp: saveTiers_def addTier_def handleEditTiers_def)
  then have "product_by_id (cs_products cs') (prod_id p) = Some (p\<lparr>prod_tiers := Some [(0, PText [])]\<rparr>)"
    using assms(1) by (simp add: product_by_id_def find_map_same)
  with assms(4) have "pricing_tiers it = Some [\<lparr>min_quantity = 0, tier_price = 0\<rparr>]" and "quantity it = pd_quantity pst"
    by (auto simp: handleAddToCart_def numeric_tiers_def split: if_splits option.splits)
  with assms(5) show ?thesis by (simp add: getUnitPrice_def lineTotal_def)
qed

theorem admin_blank_tier_free_witness:
  "let r = saveTiers True (addTier (handleEditTiers sample_product admin_init)) sample_store;
       x = handleAddToCart (product_by_id (cs_products (snd r)) (prod_id sample_product)) [sample_variant] sample_pd
   in product_by_id (cs_products sample_store) (prod_id sample_product) = Some sample_product \<and>
      prod_tiers sample_product = None \<and> r = (fst r, snd r) \<and> x = Some (the x) \<and> 0 \<le> pd_quantity sample_pd \<and>
      getUnitPrice (the x) = 0 \<and> lineTotal (the x) = 0"
proof -
  define r where "r = saveTiers True (addTier (handleEditTiers sample_product admin_init)) sample_store"
  define x where "x = handleAddToCart (product_by_id (cs_products (snd r)) (prod_id sample_product)) [sample_variant] sample_pd"
  have h1: "product_by_id (cs_products sample_store) (prod_id sample_product) = Some sample_product"
    by (simp add: product_by_id_def sample_store_def)
  have h2: "prod_tiers sample_product = None" by (simp add: sample_product_def)
  have h3: "r = (fst r, snd r)" by simp
  have h4: "x = Some (the x)"
    by (simp add: x_def r_def saveTiers_def addTier_def handleEditTiers_def admin_init_def sample_store_def
        product_by_id_def handleAddToCart_def sample_pd_def selectSize_def sample_variant_def pd_init_def
        sample_product_def)
  have h5: "0 \<le> pd_quantity sample_pd" by (simp add: sample_pd_def selectSize_def sample_variant_def pd_init_def)
  note c = admin_blank_tier_free[OF h1 h2 h3[unfolded r_def] h4[unfolded x_def r_def] h5]
  show ?thesis using h1 h2 h3 h4 h5 c unfolding Let_def r_def x_def by blast
qed

text \<open>
  C37. A product added through the administration form has no
  \<open>controls_or_benefits\<close>, so both its product page and the catalogue home page,
  which every visitor lands on, raise a \<open>TypeError\<close> (\<open>null.split\<close>) instead of
  rendering.
\<close>

theorem admin_new_product_page_crashes:
  assumes "handleAddProduct (ProductInserted pid vok) st cs = (st', cs')"
    and "product_by_id (cs_products cs) pid = None"
  shows "pd_view False sess (product_by_id (cs_products cs') pid) vs rvs pst = PdCrash TypeError \<and>
         index_view False False (cs_products cs') unread cart = IndexCrash TypeError"
proof -
  have cs': "cs_products cs' = cs_products cs @ [new_product_row pid (ad_new st)]"
    using assms(1) by (auto simp: handleAddProduct_def Let_def split: if_splits)
  then have "product_by_id (cs_products cs') pid = Some (new_product_row pid (ad_new st))"
    using assms(2) by (simp add: product_by_id_def find_append_None new_product_row_def)
  moreover have "map_err index_card (cs_products cs') = Inl TypeError"
    using cs' by (intro index_crash_on_null_benefits) (simp add: new_product_row_def)
  ultimately show ?thesis by (simp add: pd_view_def new_product_row_def index_view_def)
qed

theorem admin_new_product_page_crashes_witness:
  "let r = handleAddProduct (ProductInserted ''p2'' True) admin_init sample_store
   in r = (fst r, snd r) \<and> product_by_id (cs_products sample_store) ''p2'' = None \<and>
      pd_view False True (product_by_id (cs_products (snd r)) ''p2'') [] [] pd_init = PdCrash TypeError \<and>
      index_view False False (cs_products (snd r)) 0 [] = IndexCrash TypeError"
proof -
  define r where "r = handleAddProduct (ProductInserted ''p2'' True) admin_init sample_store"
  have h1: "r = (fst r, snd r)" by simp
  have h2: "product_by_id (cs_products sample_store) ''p2'' = None"
    by (simp add: product_by_id_def sample_store_def sample_product_def)
  note c = admin_new_product_page_crashes[OF h1[unfolded r_def] h2, of True "[]" "[]" pd_init 0 "[]"]
  show ?thesis using h1 h2 c unfolding Let_def r_def by blast
qed

subsection \<open>From checkout to the order history\<close>

text \<open>
  The same order placed at checkout appears on the order history page with
  no item lines and no timeline at all: the history page decodes \<open>stages\<close> and
  \<open>items\<close> in one \<open>try\<close>, and the native items array makes \<open>JSON.parse\<close> throw,
  which empties both, while the tracking page shows the six default stages.
\<close>

theorem checkout_order_list_blank:
  assumes "co_address st \<noteq> []"
    and "handlePlaceOrder True (Some u) prompts signup (Inserted oid created) cart st tbl = (st', tbl', effs)"
  shows "\<exists>r lo c. tbl' oid = Some r \<and> list_order_of cat oid r = Inr lo \<and> order_card_of lo = Inr c \<and>
                 oc_items c = [] \<and> oc_stages c = [] \<and> \<not> oc_more c"
proof -
  have "tbl' oid = Some (checkout_row u cart (subtotal cart) st created)"
    using assms(2) place_order_inserted[OF assms(1), of u oid created cart tbl "[]"]
    by (simp add: handlePlaceOrder_def)
  then show ?thesis
    by (simp add: list_order_of_def list_parse_def checkout_row_def json_parse_field_def
                  order_card_of_def)
qed

theorem checkout_order_list_blank_witness:
  "co_address (checkout_init\<lparr>co_address := ''Plot 7''\<rparr>) \<noteq> [] \<and>
   (let r = handlePlaceOrder True (Some ''u1'') (None, None) None (Inserted ''o9'' (JStr ''2025-05-01'')) []
              (checkout_init\<lparr>co_address := ''Plot 7''\<rparr>) sample_table
    in r = (fst r, fst (snd r), snd (snd r)) \<and>
       (\<exists>rw lo c. fst (snd r) ''o9'' = Some rw \<and> list_order_of empty_catalog ''o9'' rw = Inr lo \<and>
                  order_card_of lo = Inr c \<and> oc_items c = [] \<and> oc_stages c = [] \<and> \<not> oc_more c))"
proof -
  define r where "r = handlePlaceOrder True (Some ''u1'') (None, None) None (Inserted ''o9'' (JStr ''2025-05-01'')) []
              (checkout_init\<lparr>co_address := ''Plot 7''\<rparr>) sample_table"
  have h1: "co_address (checkout_init\<lparr>co_address := ''Plot 7''\<rparr>) \<noteq> []" by simp
  have h2: "r = (fst r, fst (snd r), snd (snd r))" by simp
  note c = checkout_order_list_blank[OF h1 h2[unfolded r_def], of empty_catalog]
  show ?thesis using h1 h2 c unfolding r_def Let_def by blast
qed

subsection \<open>From the account page to another user's checkout\<close>

text \<open>
  C17. Saved addresses are not kept per user, despite the comment of
  \<open>Account.tsx\<close> line 23: on any browser where a signed-in user saves a first
  delivery address, whatever sign-outs and sign-ins follow, whoever is signed in
  at the end sees that address on the account page as their default, and their
  checkout fills it in as the delivery address.
\<close>

theorem saved_address_offered_to_next_user:
  assumes "auth_user (br_auth b) \<noteq> None" and "\<not> ap_loading (br_auth b)"
    and "acp_book (br_page b) = []" and "acp_label (br_page b) \<noteq> []" and "acp_full (br_page b) \<noteq> []"
    and "list_all auth_event es"
    and "ap_session (br_auth (account_run b (SaveAddress now # es))) = Some s"
  shows "let b' = account_run b (SaveAddress now # es) in
         account_view (br_auth b') (br_page b') =
           AccountSignedIn (se_email s) (isAdmin (br_auth b'))
             [\<lparr>ac_label = acp_label (br_page b), ac_full = acp_full (br_page b), ac_default = True,
               ac_set_default = False\<rparr>] (isAdmin (br_auth b')) \<and>
         co_address (autofill (loadSaved True (br_storage b') checkout_init)) = acp_full (br_page b)"
proof -
  define b1 where "b1 = account_step b (SaveAddress now)"
  have run: "account_run b (SaveAddress now # es) = account_run b1 es" by (simp add: account_run_def b1_def)
  have book: "acp_book (br_page b1) =
                [\<lparr>sa_id = nat_str now, sa_label = acp_label (br_page b), sa_fullAddress = acp_full (br_page b),
                  sa_isDefault = True\<rparr>]"
    and st: "br_storage b1 = Some (acp_book (br_page b1))" and ld: "\<not> ap_loading (br_auth b1)"
    using assms(1-5) by (simp_all add: b1_def addAddress_def)
  note r = auth_events_run[OF assms(6), of b1]
  show ?thesis
    using assms(7) r book st ld unfolding run
    by (simp add: account_view_def loadSaved_def autofill_def checkout_init_def)
qed

theorem saved_address_offered_to_next_user_witness:
  "let b = account_run (browser_open None)
             [AuthChange (Some (sample_session ''uA'' ''a@farm.ke'')), NewLabel ''Home'', NewFull ''Plot 7, Limuru''];
       es = [SignOutClick None, AuthChange (Some (sample_session ''uB'' ''b@farm.ke''))];
       b' = account_run b (SaveAddress 17 # es)
   in auth_user (br_auth b) \<noteq> None \<and> \<not> ap_loading (br_auth b) \<and> acp_book (br_page b) = [] \<and>
      acp_label (br_page b) \<noteq> [] \<and> acp_full (br_page b) \<noteq> [] \<and> list_all auth_event es \<and>
      ap_session (br_auth b') = Some (sample_session ''uB'' ''b@farm.ke'') \<and>
      account_view (br_auth b') (br_page b') =
        AccountSignedIn ''b@farm.ke'' (isAdmin (br_auth b'))
          [\<lparr>ac_label = ''Home'', ac_full = ''Plot 7, Limuru'', ac_default = True, ac_set_default = False\<rparr>]
          (isAdmin (br_auth b')) \<and>
      co_address (autofill (loadSaved True (br_storage b') checkout_init)) = ''Plot 7, Limuru''"
proof -
  define b where "b = account_run (browser_open None)
             [AuthChange (Some (sample_session ''uA'' ''a@farm.ke'')), NewLabel ''Home'', NewFull ''Plot 7, Limuru'']"
  define es where "es = [SignOutClick None, AuthChange (Some (sample_session ''uB'' ''b@farm.ke''))]"
  have h1: "auth_user (br_auth b) \<noteq> None" and h2: "\<not> ap_loading (br_auth b)" and h3: "acp_book (br_page b) = []"
    and h4: "acp_label (br_page b) = ''Home''" and h5: "acp_full (br_page b) = ''Plot 7, Limuru''"
    and h6: "list_all auth_event es"
    and h7: "ap_session (br_auth (account_run b (SaveAddress 17 # es))) = Some (sample_session ''uB'' ''b@farm.ke'')"
    unfolding b_def es_def by code_simp+
  have h4': "acp_label (br_page b) \<noteq> []" and h5': "acp_full (br_page b) \<noteq> []" using h4 h5 by simp_all
  note c = saved_address_offered_to_next_user[OF h1 h2 h3 h4' h5' h6 h7]
  show ?thesis using h1 h2 h3 h4' h5' h6 h7 c unfolding b_def[symmetric] es_def[symmetric] Let_def h4 h5
    by (simp add: sample_session_def)
qed

subsection \<open>From the links of the pages to the router\<close>

text \<open>
  C19. The links the pages build reach the page they mean, with the id they carry:
  the Track Details button of the order history leads to the tracking page with
  that order's id as \<open>orderId\<close>, and a card of the catalogue home page leads to
  the product page with the product's id, for every id that is not empty and has
  no \<open>/\<close> (as the store's UUIDs).
\<close>

theorem links_reach_pages:
  assumes "CHR ''/'' \<notin> set (lo_id od)" "lo_id od \<noteq> []"
    and "CHR ''/'' \<notin> set (prod_id p)" "prod_id p \<noteq> []" "index_card p = Inr c"
  shows "route (track_details_path od) = (PageTrackOrder, [lo_id od]) \<and>
         route (ic_link c) = (PageProductDetail, [prod_id p])"
proof -
  have t: "path_segments (track_details_path od) = [''track'', lo_id od]"
    using path_segments_two[of "''track''" "lo_id od"] assms(1,2) by (simp add: track_details_path_def)
  have "ic_link c = ''/product/'' @ prod_id p"
    using assms(5) by (auto simp: index_card_def split: option.splits)
  then have p: "path_segments (ic_link c) = [''product'', prod_id p]"
    using path_segments_two[of "''product''" "prod_id p"] assms(3,4) by simp
  show ?thesis unfolding route_def t p by (simp add: app_routes_def js_lower_char_def)
qed

theorem links_reach_pages_witness:
  "let od = \<lparr>lo_id = ''o1'', lo_total = JNum 100, lo_status = JStr ''Order Placed'', lo_items = [],
             lo_stages = JArr [], lo_created = JNull\<rparr>;
       c = projr (index_card sample_product) in
   CHR ''/'' \<notin> set (lo_id od) \<and> lo_id od \<noteq> [] \<and> CHR ''/'' \<notin> set (prod_id sample_product) \<and>
   prod_id sample_product \<noteq> [] \<and> index_card sample_product = Inr c \<and>
   route (track_details_path od) = (PageTrackOrder, [lo_id od]) \<and>
   route (ic_link c) = (PageProductDetail, [prod_id sample_product])"
proof -
  define od where "od = \<lparr>lo_id = ''o1'', lo_total = JNum 100, lo_status = JStr ''Order Placed'', lo_items = [],
                         lo_stages = JArr [], lo_created = JNull\<rparr>"
  define c where "c = projr (index_card sample_product)"
  have h: "CHR ''/'' \<notin> set (lo_id od)" "lo_id od \<noteq> []" "CHR ''/'' \<notin> set (prod_id sample_product)"
    "prod_id sample_product \<noteq> []" "index_card sample_product = Inr c"
    by (simp_all add: od_def c_def sample_product_def index_card_def)
  from links_reach_pages[OF h] h show ?thesis unfolding Let_def od_def c_def by blast
qed

end
